theory Spec2Isabelle
  imports Main "HOL-Library.Multiset"
begin

section \<open>Data model\<close>

text \<open>
  A document as the storage instance sees it (\<open>RxDocumentData<RxDocType>\<close>): the value at
  the primary path, the application's own fields (\<open>body\<close>), and the fields \<open>_rev\<close>,
  \<open>_deleted\<close>, \<open>_attachments\<close>. A stored document also carries \<open>$lastWriteAt\<close>;
  \<open>None\<close> stands for the field being absent.
\<close>

record 'b doc =
  primary :: string
  body :: 'b
  doc_rev :: string
  doc_deleted :: bool
  doc_attachments :: "(string \<times> string) list"
  lastWriteAt :: "nat option"

record 'b writeRow =
  document :: "'b doc"
  previous :: "'b doc option"

datatype operation = INSERT | UPDATE | DELETE

record 'b change =
  change_id :: string
  operation :: operation
  change_previous :: "'b doc option"
  change_doc :: "'b doc option"

text \<open>
  \<open>getDexieEventKey(isLocal, id, revision)\<close> is a helper of dexie-helper; the event
  keeps the three arguments the key is built from.
\<close>

record 'b event =
  eventId :: "bool \<times> string \<times> string"
  documentId :: string
  change :: "'b change"
  startTime :: nat
  endTime :: nat

record 'b eventBulk =
  bulk_id :: string
  bulk_events :: "'b event list"

record 'b writeError =
  isError :: bool
  status :: nat
  err_documentId :: string
  err_writeRow :: "'b writeRow"

record 'b response =
  success :: "string \<rightharpoonup> 'b doc"
  error :: "string \<rightharpoonup> 'b writeError"

record changeMeta =
  sequence :: int
  meta_id :: string

datatype rxError = SNH | ClosedInstance

text \<open>
  The closure variables of the transaction body: the four batched table operations, the
  ids for the changes table and the events of the bulk.
\<close>

record 'b batch =
  bulkPutDocs :: "'b doc list"
  bulkRemoveDocs :: "string list"
  bulkPutDeletedDocs :: "'b doc list"
  bulkRemoveDeletedDocs :: "string list"
  changesIds :: "string list"
  events :: "'b event list"

text \<open>
  A Dexie table keyed by the primary path: the rows in primary-key order.
\<close>

type_synonym 'b table = "(string \<times> 'b doc) list"

text \<open>
  The instance: the three tables of \<open>internals\<close>, the key generator of the changes
  table (\<open>++sequence\<close>), the values handed to \<open>changes$.next\<close> so far, whether
  \<open>changes$.complete()\<close> was called, the \<open>closed\<close> flag, and whether the handle of the
  Dexie database has been released.
\<close>

record 'b storageInstance =
  dexieTable :: "'b table"
  dexieDeletedTable :: "'b table"
  dexieChangesTable :: "changeMeta list"
  autoSequence :: int
  changes :: "'b eventBulk list"
  changesCompleted :: bool
  closed :: bool
  dexieDbClosed :: bool

text \<open>
  What the code reads from outside: \<open>createRevision\<close> (the content hash of util),
  \<open>now\<close> (\<open>now k\<close> is the reading of the \<open>k\<close>-th call of \<open>now()\<close> made by one operation,
  counted from 0) and the random token \<open>randomCouchString(10)\<close> of the bulk.
\<close>

record 'b env =
  createRevision :: "'b doc \<Rightarrow> string"
  now :: "nat \<Rightarrow> nat"
  randomCouchString :: string

section \<open>Revision codec\<close>

text \<open>
  JavaScript compares strings by code unit, a proper prefix being smaller.
\<close>

fun strLess :: "string \<Rightarrow> string \<Rightarrow> bool" where
  "strLess [] [] = False"
| "strLess [] (y # ys) = True"
| "strLess (x # xs) [] = False"
| "strLess (x # xs) (y # ys) =
     ((of_char x :: nat) < of_char y \<or> (x = y \<and> strLess xs ys))"

definition isDigit :: "char \<Rightarrow> bool" where
  "isDigit c = (48 \<le> (of_char c :: nat) \<and> (of_char c :: nat) \<le> 57)"

definition digitVal :: "char \<Rightarrow> nat" where
  "digitVal c = of_char c - 48"

definition digitChar :: "nat \<Rightarrow> char" where
  "digitChar d = char_of (48 + d)"

text \<open>
  A JavaScript number that is a height. Numbers are IEEE 754 doubles; the ones that
  \<open>parseInt\<close> and \<open>+ 1\<close> can give here are \<open>NaN\<close>, a non-negative integer that is a
  double (\<open>Fin\<close>), and \<open>Infinity\<close>.
\<close>

datatype number = NaN | Fin nat | Infinity

fun bitLength :: "nat \<Rightarrow> nat" where
  "bitLength n = (if n = 0 then 0 else Suc (bitLength (n div 2)))"

declare bitLength.simps [simp del]

text \<open>
  The Number value for a non-negative integer \<open>m\<close>: \<open>m\<close> itself up to \<open>2 ^ 53\<close>; above,
  the doubles between \<open>2 ^ e\<close> and \<open>2 ^ (e + 1)\<close> are the multiples of \<open>2 ^ (e - 52)\<close>, and
  \<open>m\<close> goes to the nearest one, to the one with the even significand when two are as near;
  what rounds to \<open>2 ^ 1024\<close> is \<open>Infinity\<close>.
\<close>

definition toNumber :: "nat \<Rightarrow> number" where
  "toNumber m =
     (if m \<le> 2 ^ 53 then Fin m
      else let u = 2 ^ (bitLength m - 53);
               q = m div u;
               r = m mod u;
               v = (if 2 * r < u \<or> (2 * r = u \<and> even q) then q else q + 1) * u
           in if 2 ^ 1024 \<le> v then Infinity else Fin v)"

text \<open>
  \<open>a + 1\<close> on numbers: the exact sum, rounded to a double. From \<open>2 ^ 53\<close> the sum of a
  double and 1 is no more the next integer.
\<close>

definition addOne :: "number \<Rightarrow> number" where
  "addOne a = (case a of Fin h \<Rightarrow> toNumber (h + 1) | _ \<Rightarrow> a)"

fun showNat :: "nat \<Rightarrow> string" where
  "showNat n = (if n < 10 then [digitChar n] else showNat (n div 10) @ [digitChar (n mod 10)])"

declare showNat.simps [simp del]

text \<open>
  \<open>numberToString\<close> is the conversion done by \<open>newRevHeight + '-'\<close> (Number::toString with
  radix 10). For a double \<open>x\<close> it takes integers \<open>n\<close>, \<open>k\<close>, \<open>s\<close> with \<open>s\<close> of \<open>k\<close> digits,
  \<open>s * 10 ^ (n - k)\<close> a value that rounds to \<open>x\<close>, and \<open>k\<close> as small as possible; of several
  such \<open>s\<close> the one whose value is nearest to \<open>x\<close>, the even one of two. \<open>digitCandidates x k\<close>
  lists the pairs \<open>(n, s)\<close> that qualify for \<open>k\<close> digits: a value of \<open>k\<close> digits and \<open>n - k\<close>
  zeros that is next to \<open>x\<close>, below or above. The digits of \<open>s\<close> are followed by
  \<open>n - k\<close> zeros when \<open>n \<le> 21\<close>, and the exponent form is used from \<open>1e21\<close>. Up to \<open>2 ^ 53\<close>
  every integer is a double and no value of fewer digits rounds to it, so that the result
  is its decimal numeral.
\<close>

definition digitCandidates :: "nat \<Rightarrow> nat \<Rightarrow> (nat \<times> nat) list" where
  "digitCandidates x k =
     [(n, s). n \<leftarrow> [length (showNat x), Suc (length (showNat x))],
              s \<leftarrow> [x div 10 ^ (n - k), Suc (x div 10 ^ (n - k))],
              k \<le> n \<and> 10 ^ (k - 1) \<le> s \<and> s < 10 ^ k \<and> toNumber (s * 10 ^ (n - k)) = Fin x]"

definition distance :: "nat \<Rightarrow> nat \<Rightarrow> nat" where
  "distance a b = (if a \<le> b then b - a else a - b)"

definition closest :: "nat \<Rightarrow> nat \<Rightarrow> (nat \<times> nat) list \<Rightarrow> nat \<times> nat" where
  "closest x k cs =
     foldl (\<lambda>(n, s) (n', s').
              if distance (s' * 10 ^ (n' - k)) x < distance (s * 10 ^ (n - k)) x
                 \<or> (distance (s' * 10 ^ (n' - k)) x = distance (s * 10 ^ (n - k)) x \<and> even s')
              then (n', s') else (n, s))
       (hd cs) (tl cs)"

definition shortestDigits :: "nat \<Rightarrow> nat \<times> nat \<times> nat" where
  "shortestDigits x =
     (case find (\<lambda>k. digitCandidates x k \<noteq> []) [1 ..< Suc (length (showNat x))] of
        Some k \<Rightarrow> (let (n, s) = closest x k (digitCandidates x k) in (n, k, s))
      | None \<Rightarrow> (length (showNat x), length (showNat x), x))"

definition numberToString :: "number \<Rightarrow> string" where
  "numberToString a =
     (case a of
        NaN \<Rightarrow> ''NaN''
      | Infinity \<Rightarrow> ''Infinity''
      | Fin x \<Rightarrow>
          if x \<le> 2 ^ 53 then showNat x
          else let (n, k, s) = shortestDigits x
               in if n \<le> 21 then showNat s @ replicate (n - k) CHR ''0''
                  else (if k = 1 then showNat s
                        else take 1 (showNat s) @ ''.'' @ drop 1 (showNat s))
                       @ ''e+'' @ showNat (n - 1))"

text \<open>
  \<open>parseInt(s, 10)\<close> on a string without sign or leading blanks: the Number value for the
  decimal value of the digits that start \<open>s\<close>, \<open>NaN\<close> when there is none.
\<close>

definition parseInt :: "string \<Rightarrow> number" where
  "parseInt s =
     (let ds = takeWhile isDigit s
      in if ds = [] then NaN else toNumber (foldl (\<lambda>a c. 10 * a + digitVal c) 0 ds))"

record parsedRevision =
  height :: number
  hash :: "string option"

text \<open>
  Modelled from the spec: \<open>parseRevision\<close> and \<open>getHeightOfRevision\<close> (util, not under
  src/): \<open>parseRevision("H-Hash") \<rightarrow> {height: int, hash: string}\<close>,
  \<open>getHeightOfRevision("H-Hash") \<rightarrow> int\<close>. The string is split at \<open>-\<close>; the height is the
  number that \<open>parseInt\<close> reads at the start of the first part (\<open>NaN\<close> when it starts
  with no digit), the hash is the second part (undefined, here \<open>None\<close>, when the string has
  no \<open>-\<close>).
\<close>

definition parseRevision :: "string \<Rightarrow> parsedRevision" where
  "parseRevision r =
     (let rest = dropWhile (\<lambda>c. c \<noteq> CHR ''-'') r
      in \<lparr> height = parseInt (takeWhile (\<lambda>c. c \<noteq> CHR ''-'') r),
           hash = (if rest = [] then None
                   else Some (takeWhile (\<lambda>c. c \<noteq> CHR ''-'') (tl rest))) \<rparr>)"

definition getHeightOfRevision :: "string \<Rightarrow> number" where
  "getHeightOfRevision r = height (parseRevision r)"

text \<open>
  The comparisons of JavaScript on heights and hashes: \<open>!==\<close> and \<open>>\<close> on numbers
  (\<open>NaN\<close> differs from every number and is greater than none, \<open>Infinity\<close> is greater
  than every integer), \<open>>\<close> on strings that may be undefined.
\<close>

definition numNeq :: "number \<Rightarrow> number \<Rightarrow> bool" where
  "numNeq a b =
     (case (a, b) of (Fin x, Fin y) \<Rightarrow> x \<noteq> y | (Infinity, Infinity) \<Rightarrow> False | _ \<Rightarrow> True)"

definition numGt :: "number \<Rightarrow> number \<Rightarrow> bool" where
  "numGt a b =
     (case (a, b) of (Fin x, Fin y) \<Rightarrow> y < x | (Infinity, Fin y) \<Rightarrow> True | _ \<Rightarrow> False)"

definition strGt :: "string option \<Rightarrow> string option \<Rightarrow> bool" where
  "strGt a b = (case (a, b) of (Some x, Some y) \<Rightarrow> strLess y x | _ \<Rightarrow> False)"

section \<open>Storage substrate\<close>

text \<open>
  \<open>bulkPut\<close> and \<open>bulkDelete\<close> of a table keyed by the primary path, and \<open>bulkGet\<close>.
  The requests of one transaction run in the order in which they were placed.
\<close>

fun tablePut :: "'b doc \<Rightarrow> 'b table \<Rightarrow> 'b table" where
  "tablePut d [] = [(primary d, d)]"
| "tablePut d ((k, v) # t) =
     (if primary d = k then (k, d) # t
      else if strLess (primary d) k then (primary d, d) # (k, v) # t
      else (k, v) # tablePut d t)"

definition tableDelete :: "string \<Rightarrow> 'b table \<Rightarrow> 'b table" where
  "tableDelete k t = filter (\<lambda>kv. fst kv \<noteq> k) t"

definition bulkPut :: "'b doc list \<Rightarrow> 'b table \<Rightarrow> 'b table" where
  "bulkPut ds t = foldl (\<lambda>t d. tablePut d t) t ds"

definition bulkDelete :: "string list \<Rightarrow> 'b table \<Rightarrow> 'b table" where
  "bulkDelete ks t = foldl (\<lambda>t k. tableDelete k t) t ks"

definition bulkGet :: "string list \<Rightarrow> 'b table \<Rightarrow> 'b doc option list" where
  "bulkGet ks t = map (map_of t) ks"

text \<open>
  Modelled from the spec: \<open>getDocsInDb\<close> (dexie-helper, not under src/): "for each id,
  look up in live; if absent, look up in deleted. Preserve input order when returning."
\<close>

definition docInDb :: "'b storageInstance \<Rightarrow> string \<Rightarrow> 'b doc option" where
  "docInDb s k = (case map_of (dexieTable s) k of
                    Some d \<Rightarrow> Some d
                  | None \<Rightarrow> map_of (dexieDeletedTable s) k)"

definition getDocsInDb :: "'b storageInstance \<Rightarrow> string list \<Rightarrow> 'b doc option list" where
  "getDocsInDb s ids = map (docInDb s) ids"

text \<open>
  Modelled from the spec: \<open>stripDexieKey\<close> (dexie-helper, not under src/): documents are
  returned with "engine-private fields stripped", that is without \<open>$lastWriteAt\<close>.
\<close>

definition stripDexieKey :: "'b doc \<Rightarrow> 'b doc" where
  "stripDexieKey d = d\<lparr>lastWriteAt := None\<rparr>"

text \<open>
  Modelled from the spec: the changes table (\<open>++sequence\<close>): "append-only log entries
  {sequence, id}; sequence is a monotonic auto-assigned integer". A row that is put
  without a sequence gets the next value of the key generator.
\<close>

definition addChangeDocumentsMeta :: "string list \<Rightarrow> 'b storageInstance \<Rightarrow> 'b storageInstance" where
  "addChangeDocumentsMeta ids s =
     foldl (\<lambda>s k. s\<lparr>dexieChangesTable :=
                       dexieChangesTable s @ [\<lparr>sequence = autoSequence s + 1, meta_id = k\<rparr>],
                     autoSequence := autoSequence s + 1\<rparr>) s ids"

text \<open>
  Modelled from the spec: \<open>closeDexieDb\<close> (dexie-helper, not under src/) and what the
  substrate does with a handle that was released: "close(): set a closed flag; complete
  the change stream; release substrate handles" and "any write or read after close()
  fails with a closed-instance error". \<open>dbAccess\<close> stands at the first use of
  \<open>internals\<close> by an operation.
\<close>

definition closeDexieDb :: "'b storageInstance \<Rightarrow> 'b storageInstance" where
  "closeDexieDb s = s\<lparr>dexieDbClosed := True\<rparr>"

definition dbAccess :: "'b storageInstance \<Rightarrow> rxError + 'a \<Rightarrow> rxError + 'a" where
  "dbAccess s k = (if dexieDbClosed s then Inl ClosedInstance else k)"

text \<open>\<open>changes$.next(eventBulk)\<close>: the value is handed to the subject.\<close>

definition changesNext :: "'b eventBulk \<Rightarrow> 'b storageInstance \<Rightarrow> 'b storageInstance" where
  "changesNext b s = s\<lparr>changes := changes s @ [b]\<rparr>"

section \<open>bulkWrite\<close>

definition emptyBatch :: "'b batch" where
  "emptyBatch = \<lparr> bulkPutDocs = [], bulkRemoveDocs = [], bulkPutDeletedDocs = [],
                  bulkRemoveDeletedDocs = [], changesIds = [], events = [] \<rparr>"

definition emptyResponse :: "'b response" where
  "emptyResponse = \<lparr> success = Map.empty, error = Map.empty \<rparr>"

text \<open>The branch "insert new document" of the loop body of \<open>bulkWrite\<close>.\<close>

definition bulkWriteInsert ::
  "'b env \<Rightarrow> nat \<Rightarrow> 'b writeRow \<Rightarrow> 'b batch \<times> 'b response \<Rightarrow> 'b batch \<times> 'b response" where
  "bulkWriteInsert e startT writeRow acc =
     (let b = fst acc; ret = snd acc;
          i = primary (document writeRow);
          newRevision = ''1-'' @ createRevision e (document writeRow);
          insertedIsDeleted = doc_deleted (document writeRow);
          writeDoc = (document writeRow)\<lparr>doc_rev := newRevision,
                        doc_deleted := insertedIsDeleted, doc_attachments := []\<rparr>;
          insertData = writeDoc\<lparr>lastWriteAt := Some startT\<rparr>;
          b1 = b\<lparr>changesIds := changesIds b @ [i]\<rparr>;
          b2 = (if insertedIsDeleted
                then b1\<lparr>bulkPutDeletedDocs := bulkPutDeletedDocs b1 @ [insertData]\<rparr>
                else b1\<lparr>bulkPutDocs := bulkPutDocs b1 @ [insertData],
                        events := events b1 @
                          [\<lparr> eventId = (False, i, newRevision), documentId = i,
                             change = \<lparr> change_id = i, operation = INSERT,
                                        change_previous = None, change_doc = Some writeDoc \<rparr>,
                             startTime = startT, endTime = startT \<rparr>]\<rparr>)
      in (b2, ret\<lparr>success := (success ret)(i \<mapsto> writeDoc)\<rparr>))"

text \<open>
  The branch "update existing document" of the loop body of \<open>bulkWrite\<close>. The new
  height is the sum \<open>getHeightOfRevision(revInDb) + 1\<close> on numbers, and the new revision
  starts with the string of that number.
\<close>

definition bulkWriteUpdate ::
  "'b env \<Rightarrow> nat \<Rightarrow> 'b writeRow \<Rightarrow> 'b doc \<Rightarrow> 'b batch \<times> 'b response
     \<Rightarrow> rxError + 'b batch \<times> 'b response" where
  "bulkWriteUpdate e startT writeRow0 documentInDb acc =
     (let b = fst acc; ret = snd acc;
          i = primary (document writeRow0);
          revInDb = doc_rev documentInDb;
          writeRow = (if previous writeRow0 = None \<and> doc_deleted documentInDb
                      then writeRow0\<lparr>previous := Some documentInDb\<rparr> else writeRow0)
      in if (previous writeRow = None \<and> \<not> doc_deleted documentInDb)
            \<or> (case previous writeRow of None \<Rightarrow> False | Some p \<Rightarrow> revInDb \<noteq> doc_rev p)
         then Inr (b, ret\<lparr>error := (error ret)(i \<mapsto>
                 \<lparr> isError = True, status = 409, err_documentId = i,
                   err_writeRow = writeRow \<rparr>)\<rparr>)
         else
           (let newRevHeight = addOne (getHeightOfRevision revInDb);
                newRevision = numberToString newRevHeight @ ''-''
                                @ createRevision e (document writeRow);
                isDeleted = doc_deleted (document writeRow);
                writeDoc = (document writeRow)\<lparr>lastWriteAt := Some startT,
                              doc_rev := newRevision, doc_deleted := isDeleted,
                              doc_attachments := []\<rparr>;
                b1 = b\<lparr>changesIds := changesIds b @ [i]\<rparr>;
                prevDeleted = (case previous writeRow of None \<Rightarrow> None
                               | Some p \<Rightarrow> Some (doc_deleted p));
                step =
                  (if prevDeleted = Some True \<and> \<not> isDeleted then
                     Some (b1\<lparr>bulkPutDocs := bulkPutDocs b1 @ [writeDoc],
                              bulkRemoveDeletedDocs := bulkRemoveDeletedDocs b1 @ [i]\<rparr>,
                           \<lparr> change_id = i, operation = INSERT, change_previous = None,
                             change_doc = Some (stripDexieKey writeDoc) \<rparr>)
                   else if prevDeleted = Some False \<and> \<not> isDeleted then
                     Some (b1\<lparr>bulkPutDocs := bulkPutDocs b1 @ [writeDoc]\<rparr>,
                           \<lparr> change_id = i, operation = UPDATE,
                             change_previous = previous writeRow,
                             change_doc = Some (stripDexieKey writeDoc) \<rparr>)
                   else if prevDeleted = Some False \<and> isDeleted then
                     Some (b1\<lparr>bulkPutDeletedDocs := bulkPutDeletedDocs b1 @ [writeDoc],
                              bulkRemoveDocs := bulkRemoveDocs b1 @ [i]\<rparr>,
                           \<lparr> change_id = i, operation = DELETE,
                             change_previous =
                               map_option (\<lambda>p. p\<lparr>doc_rev := newRevision\<rparr>) (previous writeRow),
                             change_doc = None \<rparr>)
                   else None)
            in case step of
                 None \<Rightarrow> Inl SNH
               | Some (b2, chg) \<Rightarrow>
                   Inr (b2\<lparr>events := events b2 @
                            [\<lparr> eventId = (False, i, newRevision), documentId = i,
                               change = chg, startTime = startT, endTime = startT \<rparr>]\<rparr>,
                        ret\<lparr>success := (success ret)(i \<mapsto> stripDexieKey writeDoc)\<rparr>)))"

text \<open>The body of \<open>documentWrites.forEach((writeRow, docIndex) => ...)\<close>.\<close>

definition bulkWriteRow ::
  "'b env \<Rightarrow> nat \<Rightarrow> 'b writeRow \<times> 'b doc option \<Rightarrow> 'b batch \<times> 'b response
     \<Rightarrow> rxError + 'b batch \<times> 'b response" where
  "bulkWriteRow e docIndex rd acc =
     (case snd rd of
        None \<Rightarrow> Inr (bulkWriteInsert e (now e docIndex) (fst rd) acc)
      | Some documentInDb \<Rightarrow> bulkWriteUpdate e (now e docIndex) (fst rd) documentInDb acc)"

text \<open>The loop: a \<open>throw\<close> in the body ends it and rejects the transaction.\<close>

fun bulkWriteRows ::
  "'b env \<Rightarrow> nat \<Rightarrow> ('b writeRow \<times> 'b doc option) list \<Rightarrow> 'b batch \<times> 'b response
     \<Rightarrow> rxError + 'b batch \<times> 'b response" where
  "bulkWriteRows e docIndex [] acc = Inr acc"
| "bulkWriteRows e docIndex (rd # rds) acc =
     (case bulkWriteRow e docIndex rd acc of
        Inl err \<Rightarrow> Inl err
      | Inr acc' \<Rightarrow> bulkWriteRows e (Suc docIndex) rds acc')"

text \<open>The five operations joined by \<open>Promise.all\<close> at the end of the transaction.\<close>

definition bulkWriteCommit :: "'b batch \<Rightarrow> 'b storageInstance \<Rightarrow> 'b storageInstance" where
  "bulkWriteCommit b s =
     (let t1 = (if bulkPutDocs b \<noteq> [] then bulkPut (bulkPutDocs b) (dexieTable s)
                else dexieTable s);
          t2 = (if bulkRemoveDocs b \<noteq> [] then bulkDelete (bulkRemoveDocs b) t1 else t1);
          d1 = (if bulkPutDeletedDocs b \<noteq> []
                then bulkPut (bulkPutDeletedDocs b) (dexieDeletedTable s)
                else dexieDeletedTable s);
          d2 = (if bulkRemoveDeletedDocs b \<noteq> []
                then bulkDelete (bulkRemoveDeletedDocs b) d1 else d1);
          s1 = s\<lparr>dexieTable := t2, dexieDeletedTable := d2\<rparr>
      in if changesIds b \<noteq> [] then addChangeDocumentsMeta (changesIds b) s1 else s1)"

definition stampEndTime :: "nat \<Rightarrow> 'b event list \<Rightarrow> 'b event list" where
  "stampEndTime t evs = map (\<lambda>ev. ev\<lparr>endTime := t\<rparr>) evs"

definition bulkWrite ::
  "'b env \<Rightarrow> 'b storageInstance \<Rightarrow> 'b writeRow list \<Rightarrow> rxError + 'b response \<times> 'b storageInstance" where
  "bulkWrite e s documentWrites =
     (let documentKeys = map (\<lambda>writeRow. primary (document writeRow)) documentWrites
      in dbAccess s
           (case bulkWriteRows e 0 (zip documentWrites (getDocsInDb s documentKeys))
                   (emptyBatch, emptyResponse) of
              Inl err \<Rightarrow> Inl err
            | Inr (b, ret) \<Rightarrow>
                Inr (ret,
                     changesNext
                       \<lparr> bulk_id = randomCouchString e,
                         bulk_events = stampEndTime (now e (length documentWrites)) (events b) \<rparr>
                       (bulkWriteCommit b s))))"

section \<open>bulkAddRevisions\<close>

text \<open>The comparison of the incoming revision with the stored one.\<close>

definition mustUpdate :: "string \<Rightarrow> string \<Rightarrow> bool" where
  "mustUpdate newRev oldRev =
     (let newWriteRevision = parseRevision newRev;
          oldRevision = parseRevision oldRev
      in if numNeq (height newWriteRevision) (height oldRevision)
         then numGt (height newWriteRevision) (height oldRevision)
         else strGt (hash newWriteRevision) (hash oldRevision))"

text \<open>
  The body of \<open>documents.forEach((docData, docIndex) => ...)\<close>. In the second branch
  the code builds \<open>storeAtDb\<close> (the clone of \<open>docData\<close> with \<open>$lastWriteAt\<close>) and never
  uses it: what is queued for the tables is \<open>docData\<close>.
\<close>

definition bulkAddRevisionsRow ::
  "nat \<Rightarrow> 'b doc \<times> 'b doc option \<Rightarrow> 'b batch \<Rightarrow> 'b batch" where
  "bulkAddRevisionsRow startT dd b =
     (let docData = fst dd; i = primary docData
      in case snd dd of
           None \<Rightarrow>
             (let insertData = docData\<lparr>lastWriteAt := Some startT\<rparr>;
                  b1 = (if doc_deleted insertData
                        then b\<lparr>bulkPutDeletedDocs := bulkPutDeletedDocs b @ [insertData]\<rparr>
                        else b\<lparr>bulkPutDocs := bulkPutDocs b @ [insertData]\<rparr>)
              in b1\<lparr>events := events b1 @
                       [\<lparr> eventId = (False, i, doc_rev docData), documentId = i,
                          change = \<lparr> change_id = i, operation = INSERT,
                                     change_previous = None, change_doc = Some docData \<rparr>,
                          startTime = startT, endTime = startT \<rparr>],
                     changesIds := changesIds b1 @ [i]\<rparr>)
         | Some documentInDb \<Rightarrow>
             if mustUpdate (doc_rev docData) (doc_rev documentInDb) then
               (let storeAtDb = docData\<lparr>lastWriteAt := Some startT\<rparr>;
                    step =
                      (if doc_deleted documentInDb \<and> \<not> doc_deleted docData then
                         Some (b\<lparr>bulkRemoveDeletedDocs := bulkRemoveDeletedDocs b @ [i],
                                 bulkPutDocs := bulkPutDocs b @ [docData]\<rparr>,
                               \<lparr> change_id = i, operation = INSERT, change_previous = None,
                                 change_doc = Some docData \<rparr>)
                       else if \<not> doc_deleted documentInDb \<and> \<not> doc_deleted docData then
                         Some (b\<lparr>bulkPutDocs := bulkPutDocs b @ [docData]\<rparr>,
                               \<lparr> change_id = i, operation = UPDATE,
                                 change_previous = Some (stripDexieKey documentInDb),
                                 change_doc = Some docData \<rparr>)
                       else if \<not> doc_deleted documentInDb \<and> doc_deleted docData then
                         Some (b\<lparr>bulkPutDeletedDocs := bulkPutDeletedDocs b @ [docData],
                                 bulkRemoveDocs := bulkRemoveDocs b @ [i]\<rparr>,
                               \<lparr> change_id = i, operation = DELETE,
                                 change_previous = Some (stripDexieKey documentInDb),
                                 change_doc = None \<rparr>)
                       else None)
                in case step of
                     None \<Rightarrow> b
                   | Some (b2, chg) \<Rightarrow>
                       b2\<lparr>events := events b2 @
                            [\<lparr> eventId = (False, i, doc_rev docData), documentId = i,
                               change = chg, startTime = startT, endTime = startT \<rparr>],
                          changesIds := changesIds b2 @ [i]\<rparr>)
             else b)"

fun bulkAddRevisionsRows ::
  "'b env \<Rightarrow> nat \<Rightarrow> ('b doc \<times> 'b doc option) list \<Rightarrow> 'b batch \<Rightarrow> 'b batch" where
  "bulkAddRevisionsRows e docIndex [] b = b"
| "bulkAddRevisionsRows e docIndex (dd # dds) b =
     bulkAddRevisionsRows e (Suc docIndex) dds (bulkAddRevisionsRow (now e docIndex) dd b)"

text \<open>
  The operations joined by \<open>Promise.all\<close>; here \<open>addChangeDocumentsMeta\<close> is called
  whether or not there are ids.
\<close>

definition bulkAddRevisionsCommit :: "'b batch \<Rightarrow> 'b storageInstance \<Rightarrow> 'b storageInstance" where
  "bulkAddRevisionsCommit b s =
     (let t1 = (if bulkPutDocs b \<noteq> [] then bulkPut (bulkPutDocs b) (dexieTable s)
                else dexieTable s);
          t2 = (if bulkRemoveDocs b \<noteq> [] then bulkDelete (bulkRemoveDocs b) t1 else t1);
          d1 = (if bulkPutDeletedDocs b \<noteq> []
                then bulkPut (bulkPutDeletedDocs b) (dexieDeletedTable s)
                else dexieDeletedTable s);
          d2 = (if bulkRemoveDeletedDocs b \<noteq> []
                then bulkDelete (bulkRemoveDeletedDocs b) d1 else d1)
      in addChangeDocumentsMeta (changesIds b) (s\<lparr>dexieTable := t2, dexieDeletedTable := d2\<rparr>))"

definition bulkAddRevisions ::
  "'b env \<Rightarrow> 'b storageInstance \<Rightarrow> 'b doc list \<Rightarrow> rxError + 'b storageInstance" where
  "bulkAddRevisions e s documents =
     (let documentKeys = map primary documents
      in dbAccess s
           (let b = bulkAddRevisionsRows e 0 (zip documents (getDocsInDb s documentKeys))
                      emptyBatch
            in Inr (changesNext
                      \<lparr> bulk_id = randomCouchString e,
                        bulk_events = stampEndTime (now e (length documents)) (events b) \<rparr>
                      (bulkAddRevisionsCommit b s))))"

section \<open>Read paths\<close>

definition findDocumentsById ::
  "'b storageInstance \<Rightarrow> string list \<Rightarrow> bool \<Rightarrow> rxError + (string \<rightharpoonup> 'b doc)" where
  "findDocumentsById s ids deleted =
     dbAccess s
       (let docsInDb = (if deleted then getDocsInDb s ids else bulkGet ids (dexieTable s))
        in Inr (foldl (\<lambda>ret idd.
                         case snd idd of
                           None \<Rightarrow> ret
                         | Some documentInDb \<Rightarrow>
                             if \<not> doc_deleted documentInDb \<or> deleted
                             then ret(fst idd \<mapsto> stripDexieKey documentInDb) else ret)
                  Map.empty (zip ids docsInDb)))"

text \<open>
  A prepared query: the matcher and the comparator that \<open>RxStorageDexieStatics\<close> derives
  from it (both opaque), \<open>skip\<close> and \<open>limit\<close>. \<open>Array.prototype.sort\<close> is stable.
\<close>

record 'b preparedQuery =
  queryMatcher :: "'b doc \<Rightarrow> bool"
  sortComparator :: "'b doc \<Rightarrow> 'b doc \<Rightarrow> int"
  skip :: "nat option"
  limit :: "nat option"

fun insertSorted :: "('a \<Rightarrow> 'a \<Rightarrow> int) \<Rightarrow> 'a \<Rightarrow> 'a list \<Rightarrow> 'a list" where
  "insertSorted cmp x [] = [x]"
| "insertSorted cmp x (y # ys) =
     (if cmp x y \<le> 0 then x # y # ys else y # insertSorted cmp x ys)"

definition arraySort :: "('a \<Rightarrow> 'a \<Rightarrow> int) \<Rightarrow> 'a list \<Rightarrow> 'a list" where
  "arraySort cmp xs = foldr (insertSorted cmp) xs []"

definition query :: "'b storageInstance \<Rightarrow> 'b preparedQuery \<Rightarrow> rxError + 'b doc list" where
  "query s preparedQuery =
     dbAccess s
       (let docsInDb = filter (queryMatcher preparedQuery) (map snd (dexieTable s));
            documents = arraySort (sortComparator preparedQuery) (map stripDexieKey docsInDb);
            documents1 = (case skip preparedQuery of
                            None \<Rightarrow> documents
                          | Some n \<Rightarrow> if n \<noteq> 0 then drop n documents else documents);
            documents2 = (case limit preparedQuery of
                            None \<Rightarrow> documents1
                          | Some n \<Rightarrow> if n \<noteq> 0 \<and> n < length documents1
                                      then take n documents1 else documents1)
        in Inr documents2)"

section \<open>getChangedDocuments\<close>

datatype direction = Before | After

record changeStreamOnceOptions =
  opt_direction :: direction
  sinceSequence :: int
  opt_limit :: "nat option"

record changedDocumentsResult =
  changedDocuments :: "changeMeta list"
  lastSequence :: int

text \<open>
  The range queries on the index \<open>sequence\<close>: the rows above (below) a bound, in the
  order of the index.
\<close>

definition whereSequenceAbove :: "int \<Rightarrow> changeMeta list \<Rightarrow> changeMeta list" where
  "whereSequenceAbove x t = sort_key sequence (filter (\<lambda>c. x < sequence c) t)"

definition whereSequenceBelow :: "int \<Rightarrow> changeMeta list \<Rightarrow> changeMeta list" where
  "whereSequenceBelow x t = sort_key sequence (filter (\<lambda>c. sequence c < x) t)"

definition getChangedDocuments ::
  "'b storageInstance \<Rightarrow> changeStreamOnceOptions \<Rightarrow> rxError + changedDocumentsResult" where
  "getChangedDocuments s options =
     dbAccess s
       (let query0 = (if opt_direction options = Before
                      then rev (whereSequenceBelow (sinceSequence options) (dexieChangesTable s))
                      else whereSequenceAbove (sinceSequence options) (dexieChangesTable s));
            query1 = (case opt_limit options of
                        None \<Rightarrow> query0
                      | Some n \<Rightarrow> if n \<noteq> 0 then take n query0 else query0);
            docs = query1
        in Inr \<lparr> changedDocuments = docs,
                 lastSequence =
                   (if docs = [] then sinceSequence options
                    else sequence (if opt_direction options = After
                                   then last docs else hd docs)) \<rparr>)"

text \<open>
  \<open>getChangedDocuments\<close> of the LokiJS instance, on the changes collection of the local
  state: \<open>find\<close> with \<open>$gt\<close> or \<open>$lt\<close>, \<open>simplesort('sequence', desc)\<close>, \<open>limit\<close>.
\<close>

definition lokiGetChangedDocuments ::
  "changeMeta list \<Rightarrow> changeStreamOnceOptions \<Rightarrow> changedDocumentsResult" where
  "lokiGetChangedDocuments changesCollection options =
     (let desc = (opt_direction options = Before);
          found = (if opt_direction options = After
                   then filter (\<lambda>c. sinceSequence options < sequence c) changesCollection
                   else filter (\<lambda>c. sequence c < sinceSequence options) changesCollection);
          query0 = (if desc then rev (sort_key sequence found) else sort_key sequence found);
          query1 = (case opt_limit options of
                      None \<Rightarrow> query0
                    | Some n \<Rightarrow> if n \<noteq> 0 then take n query0 else query0);
          docs = map (\<lambda>result. \<lparr> sequence = sequence result, meta_id = meta_id result \<rparr>)
                   query1;
          useForLastSequence = (if docs = [] then None
                                else if \<not> desc then Some (last docs) else Some (hd docs))
      in \<lparr> changedDocuments = docs,
           lastSequence = (case useForLastSequence of
                             Some u \<Rightarrow> sequence u
                           | None \<Rightarrow> sinceSequence options) \<rparr>)"

section \<open>Lifecycle\<close>

definition close :: "'b storageInstance \<Rightarrow> 'b storageInstance" where
  "close s = closeDexieDb (s\<lparr>closed := True, changesCompleted := True\<rparr>)"

section \<open>Vocabulary of the proofs\<close>

text \<open>
  What one row adds to the closure variables is appended to what is already there:
  \<open>accPlus acc d\<close> is \<open>acc\<close> followed by \<open>d\<close>.
\<close>

definition accPlus ::
  "'b batch \<times> 'b response \<Rightarrow> 'b batch \<times> 'b response \<Rightarrow> 'b batch \<times> 'b response" where
  "accPlus acc d =
     (\<lparr> bulkPutDocs = bulkPutDocs (fst acc) @ bulkPutDocs (fst d),
        bulkRemoveDocs = bulkRemoveDocs (fst acc) @ bulkRemoveDocs (fst d),
        bulkPutDeletedDocs = bulkPutDeletedDocs (fst acc) @ bulkPutDeletedDocs (fst d),
        bulkRemoveDeletedDocs = bulkRemoveDeletedDocs (fst acc) @ bulkRemoveDeletedDocs (fst d),
        changesIds = changesIds (fst acc) @ changesIds (fst d),
        events = events (fst acc) @ events (fst d) \<rparr>,
      \<lparr> success = success (snd acc) ++ success (snd d),
        error = error (snd acc) ++ error (snd d) \<rparr>)"

text \<open>
  The part of the closure variables that concerns the id \<open>x\<close>, without the timestamps.
\<close>

definition viewAt ::
  "string \<Rightarrow> 'b batch \<times> 'b response \<Rightarrow>
     ('b doc list \<times> string list \<times> 'b doc list \<times> string list) \<times>
     (string list \<times> 'b change list \<times> (bool \<times> string \<times> string) list) \<times>
     ('b doc option \<times> 'b writeError option)" where
  "viewAt x acc =
     ((map stripDexieKey (filter (\<lambda>d. primary d = x) (bulkPutDocs (fst acc))),
       filter (\<lambda>k. k = x) (bulkRemoveDocs (fst acc)),
       map stripDexieKey (filter (\<lambda>d. primary d = x) (bulkPutDeletedDocs (fst acc))),
       filter (\<lambda>k. k = x) (bulkRemoveDeletedDocs (fst acc))),
      (filter (\<lambda>k. k = x) (changesIds (fst acc)),
       map change (filter (\<lambda>ev. documentId ev = x) (events (fst acc))),
       map eventId (filter (\<lambda>ev. documentId ev = x) (events (fst acc)))),
      (success (snd acc) x, error (snd acc) x))"

text \<open>
  What a caller can observe about the id \<open>x\<close> after \<open>bulkWrite\<close>: its entries in the
  returned maps, the documents stored under it in the two tables (without
  \<open>$lastWriteAt\<close>), the changes of its events in the bulk that was published last, and
  its rows in the changes table.
\<close>

definition observeAt ::
  "string \<Rightarrow> 'b response \<times> 'b storageInstance \<Rightarrow>
     ('b doc option \<times> 'b writeError option) \<times> ('b doc option \<times> 'b doc option) \<times>
     ('b change list \<times> string list)" where
  "observeAt x rs =
     ((success (fst rs) x, error (fst rs) x),
      (map_option stripDexieKey (map_of (dexieTable (snd rs)) x),
       map_option stripDexieKey (map_of (dexieDeletedTable (snd rs)) x)),
      (map change (filter (\<lambda>ev. documentId ev = x) (bulk_events (last (changes (snd rs))))),
       filter (\<lambda>k. k = x) (map meta_id (dexieChangesTable (snd rs)))))"

text \<open>The error map records a conflict for the id \<open>x\<close>.\<close>

definition conflictAt :: "string \<Rightarrow> 'b batch \<times> 'b response \<Rightarrow> bool" where
  "conflictAt x acc =
     (\<exists>err. error (snd acc) x = Some err \<and> status err = 409 \<and> err_documentId err = x \<and>
            isError err)"

section \<open>Concrete inputs\<close>

text \<open>
  An environment whose content hash is the body of the document, documents with a string
  body, and an open instance with given tables and nothing published yet.
\<close>

definition exampleEnv :: "string env" where
  "exampleEnv = \<lparr> createRevision = body, now = (\<lambda>k. 100 + k), randomCouchString = ''bulk'' \<rparr>"

definition exampleDoc :: "string \<Rightarrow> string \<Rightarrow> string \<Rightarrow> bool \<Rightarrow> string doc" where
  "exampleDoc i v r d = \<lparr> primary = i, body = v, doc_rev = r, doc_deleted = d,
                          doc_attachments = [], lastWriteAt = None \<rparr>"

definition exampleInstance :: "string table \<Rightarrow> string table \<Rightarrow> string storageInstance" where
  "exampleInstance live del =
     \<lparr> dexieTable = live, dexieDeletedTable = del, dexieChangesTable = [], autoSequence = 0,
       changes = [], changesCompleted = False, closed = False, dexieDbClosed = False \<rparr>"

section \<open>Numbers: equations for evaluation\<close>

text \<open>
  The comparisons with \<open>2 ^ 53\<close> are evaluated on the integers, which are kept in binary.
\<close>

lemma int_le_2_53: "(int m \<le> 2 ^ 53) = (m \<le> 2 ^ 53)"
  by (metis of_nat_le_iff of_nat_numeral of_nat_power)

lemma toNumber_code [code]:
  "toNumber m =
     (if int m \<le> 2 ^ 53 then Fin m
      else let u = 2 ^ (bitLength m - 53);
               q = m div u;
               r = m mod u;
               v = (if 2 * r < u \<or> (2 * r = u \<and> even q) then q else q + 1) * u
           in if 2 ^ 1024 \<le> v then Infinity else Fin v)"
  by (simp only: toNumber_def int_le_2_53)

lemma numberToString_code [code]:
  "numberToString a =
     (case a of
        NaN \<Rightarrow> ''NaN''
      | Infinity \<Rightarrow> ''Infinity''
      | Fin x \<Rightarrow>
          if int x \<le> 2 ^ 53 then showNat x
          else let (n, k, s) = shortestDigits x
               in if n \<le> 21 then showNat s @ replicate (n - k) CHR ''0''
                  else (if k = 1 then showNat s
                        else take 1 (showNat s) @ ''.'' @ drop 1 (showNat s))
                       @ ''e+'' @ showNat (n - 1))"
  by (simp only: numberToString_def int_le_2_53)

section \<open>The substrate: lookups after bulk operations\<close>

lemma addChangeDocumentsMeta_Nil: "addChangeDocumentsMeta [] s = s"
  by (simp add: addChangeDocumentsMeta_def)

lemma addChangeDocumentsMeta_Cons:
  "addChangeDocumentsMeta (k # ks) s =
     addChangeDocumentsMeta ks
       (s\<lparr>dexieChangesTable :=
            dexieChangesTable s @ [\<lparr>sequence = autoSequence s + 1, meta_id = k\<rparr>],
          autoSequence := autoSequence s + 1\<rparr>)"
  by (simp add: addChangeDocumentsMeta_def)

lemma addChangeDocumentsMeta_frame:
  "dexieTable (addChangeDocumentsMeta ks s) = dexieTable s \<and>
   dexieDeletedTable (addChangeDocumentsMeta ks s) = dexieDeletedTable s \<and>
   changes (addChangeDocumentsMeta ks s) = changes s \<and>
   changesCompleted (addChangeDocumentsMeta ks s) = changesCompleted s \<and>
   closed (addChangeDocumentsMeta ks s) = closed s \<and>
   dexieDbClosed (addChangeDocumentsMeta ks s) = dexieDbClosed s"
  by (induction ks arbitrary: s)
     (simp_all add: addChangeDocumentsMeta_Nil addChangeDocumentsMeta_Cons)

lemma addChangeDocumentsMeta_ids:
  "map meta_id (dexieChangesTable (addChangeDocumentsMeta ks s)) =
     map meta_id (dexieChangesTable s) @ ks"
  by (induction ks arbitrary: s)
     (simp_all add: addChangeDocumentsMeta_Nil addChangeDocumentsMeta_Cons)

lemma map_of_tablePut: "map_of (tablePut d t) = (map_of t)(primary d \<mapsto> d)"
  by (induction t) (auto simp: fun_eq_iff)

lemma bulkPut_Nil: "bulkPut [] t = t"
  by (simp add: bulkPut_def)

lemma bulkPut_snoc: "bulkPut (ds @ [d]) t = tablePut d (bulkPut ds t)"
  by (simp add: bulkPut_def)

lemma map_of_bulkPut:
  "map_of (bulkPut ds t) x =
     (if filter (\<lambda>d. primary d = x) ds = [] then map_of t x
      else Some (last (filter (\<lambda>d. primary d = x) ds)))"
proof (induction ds rule: rev_induct)
  case Nil
  show ?case by (simp add: bulkPut_def)
next
  case (snoc d ds)
  show ?case using snoc.IH by (simp add: bulkPut_snoc map_of_tablePut)
qed

lemma map_of_tableDelete: "map_of (tableDelete k t) x = (if x = k then None else map_of t x)"
  by (induction t) (auto simp: tableDelete_def)

lemma bulkDelete_Nil: "bulkDelete [] t = t"
  by (simp add: bulkDelete_def)

lemma bulkDelete_snoc: "bulkDelete (ks @ [k]) t = tableDelete k (bulkDelete ks t)"
  by (simp add: bulkDelete_def)

lemma map_of_bulkDelete:
  "map_of (bulkDelete ks t) x = (if filter (\<lambda>k. k = x) ks = [] then map_of t x else None)"
proof (induction ks rule: rev_induct)
  case Nil
  show ?case by (simp add: bulkDelete_def)
next
  case (snoc k ks)
  show ?case using snoc.IH by (simp add: bulkDelete_snoc map_of_tableDelete)
qed

lemma stripped_lookup:
  "map_option stripDexieKey (map_of (bulkDelete ks (bulkPut ds t)) x) =
     (if filter (\<lambda>k. k = x) ks = []
      then (if map stripDexieKey (filter (\<lambda>d. primary d = x) ds) = []
            then map_option stripDexieKey (map_of t x)
            else Some (last (map stripDexieKey (filter (\<lambda>d. primary d = x) ds))))
      else None)"
  by (simp add: map_of_bulkDelete map_of_bulkPut last_map)

lemma bulkWriteCommit_tables:
  "dexieTable (bulkWriteCommit b s) =
     bulkDelete (bulkRemoveDocs b) (bulkPut (bulkPutDocs b) (dexieTable s)) \<and>
   dexieDeletedTable (bulkWriteCommit b s) =
     bulkDelete (bulkRemoveDeletedDocs b) (bulkPut (bulkPutDeletedDocs b) (dexieDeletedTable s)) \<and>
   map meta_id (dexieChangesTable (bulkWriteCommit b s)) =
     map meta_id (dexieChangesTable s) @ changesIds b \<and>
   changes (bulkWriteCommit b s) = changes s"
  by (simp add: bulkWriteCommit_def Let_def addChangeDocumentsMeta_frame
      addChangeDocumentsMeta_ids bulkPut_Nil bulkDelete_Nil)

lemma changes_bulkAddRevisionsCommit: "changes (bulkAddRevisionsCommit b s) = changes s"
  by (simp add: bulkAddRevisionsCommit_def Let_def addChangeDocumentsMeta_frame)

section \<open>The loop of bulkWrite, one id at a time\<close>

lemma zip_getDocsInDb:
  "zip rows (getDocsInDb s (map (\<lambda>r. primary (document r)) rows)) =
     map (\<lambda>r. (r, docInDb s (primary (document r)))) rows"
  by (induction rows) (simp_all add: getDocsInDb_def)

lemma bulkWriteInsert_accPlus:
  "bulkWriteInsert e t row acc =
     accPlus acc (bulkWriteInsert e t row (emptyBatch, emptyResponse))"
  by (simp add: bulkWriteInsert_def accPlus_def emptyBatch_def emptyResponse_def Let_def)

lemma bulkWriteUpdate_accPlus:
  "bulkWriteUpdate e t row E acc =
     (case bulkWriteUpdate e t row E (emptyBatch, emptyResponse) of
        Inl err \<Rightarrow> Inl err | Inr d \<Rightarrow> Inr (accPlus acc d))"
  by (simp add: bulkWriteUpdate_def accPlus_def emptyBatch_def emptyResponse_def Let_def)

lemma bulkWriteRow_accPlus:
  "bulkWriteRow e i rd acc =
     (case bulkWriteRow e i rd (emptyBatch, emptyResponse) of
        Inl err \<Rightarrow> Inl err | Inr d \<Rightarrow> Inr (accPlus acc d))"
  unfolding bulkWriteRow_def
  by (cases "snd rd")
     (simp_all add: bulkWriteInsert_accPlus [of e _ _ acc] bulkWriteUpdate_accPlus [of e _ _ _ acc])

lemma bulkWriteRow_InrD:
  assumes "bulkWriteRow e i rd acc = Inr acc1"
  shows "\<exists>d. bulkWriteRow e i rd (emptyBatch, emptyResponse) = Inr d \<and> acc1 = accPlus acc d"
proof (cases "bulkWriteRow e i rd (emptyBatch, emptyResponse)")
  case (Inl err)
  with bulkWriteRow_accPlus [of e i rd acc] assms show ?thesis by simp
next
  case (Inr d)
  with bulkWriteRow_accPlus [of e i rd acc] assms show ?thesis by simp
qed

lemma bulkWriteRow_InrI:
  assumes "bulkWriteRow e i rd (emptyBatch, emptyResponse) = Inr d"
  shows "bulkWriteRow e i rd acc = Inr (accPlus acc d)"
  using bulkWriteRow_accPlus [of e i rd acc] assms by simp

lemma bulkWriteRows_ConsD:
  assumes "bulkWriteRows e i (rd # rds) acc = Inr acc'"
  shows "\<exists>acc1. bulkWriteRow e i rd acc = Inr acc1 \<and>
               bulkWriteRows e (Suc i) rds acc1 = Inr acc'"
proof (cases "bulkWriteRow e i rd acc")
  case (Inl err)
  with assms show ?thesis by simp
next
  case (Inr acc1)
  with assms show ?thesis by simp
qed

lemma viewAt_accPlus_cong:
  "viewAt x acc = viewAt x accB \<Longrightarrow> viewAt x d = viewAt x dB \<Longrightarrow>
   viewAt x (accPlus acc d) = viewAt x (accPlus accB dB)"
  by (simp add: viewAt_def accPlus_def map_add_def split: option.splits)

lemma viewAt_accPlus_neutral:
  "viewAt x d = viewAt x (emptyBatch, emptyResponse) \<Longrightarrow>
   viewAt x (accPlus acc d) = viewAt x acc"
  by (simp add: viewAt_def accPlus_def map_add_def emptyBatch_def emptyResponse_def)

text \<open>A row with another id adds nothing at \<open>x\<close>.\<close>

lemma effect_frame_case:
  assumes "primary (document (fst rd)) \<noteq> x"
  shows "case bulkWriteRow e i rd (emptyBatch, emptyResponse) of
           Inl err \<Rightarrow> True
         | Inr d \<Rightarrow> viewAt x d = viewAt x (emptyBatch, emptyResponse)"
proof (cases "snd rd")
  case None
  with assms show ?thesis
    by (simp add: bulkWriteRow_def bulkWriteInsert_def viewAt_def Let_def
        emptyBatch_def emptyResponse_def)
next
  case (Some E)
  with assms show ?thesis
    by (simp add: bulkWriteRow_def bulkWriteUpdate_def viewAt_def Let_def
        emptyBatch_def emptyResponse_def split: option.split)
qed

lemma effect_frame:
  assumes "primary (document (fst rd)) \<noteq> x"
    and "bulkWriteRow e i rd (emptyBatch, emptyResponse) = Inr d"
  shows "viewAt x d = viewAt x (emptyBatch, emptyResponse)"
  using effect_frame_case [OF assms(1), where e = e and i = i] assms(2) by simp

text \<open>What a row adds does not depend on its position, but for the timestamps.\<close>

lemma effect_time_case:
  "case bulkWriteRow e i rd (emptyBatch, emptyResponse) of
     Inl err \<Rightarrow> True
   | Inr d \<Rightarrow> (case bulkWriteRow e i' rd (emptyBatch, emptyResponse) of
                 Inl err \<Rightarrow> False
               | Inr d' \<Rightarrow> viewAt x d = viewAt x d')"
proof (cases "snd rd")
  case None
  then show ?thesis
    by (simp add: bulkWriteRow_def bulkWriteInsert_def viewAt_def Let_def
        emptyBatch_def emptyResponse_def stripDexieKey_def)
next
  case (Some E)
  then show ?thesis
    by (simp add: bulkWriteRow_def bulkWriteUpdate_def viewAt_def Let_def
        emptyBatch_def emptyResponse_def stripDexieKey_def split: option.split)
qed

lemma effect_time:
  assumes "bulkWriteRow e i rd (emptyBatch, emptyResponse) = Inr d"
  shows "\<exists>d'. bulkWriteRow e i' rd (emptyBatch, emptyResponse) = Inr d' \<and>
              viewAt x d = viewAt x d'"
proof (cases "bulkWriteRow e i' rd (emptyBatch, emptyResponse)")
  case (Inl err)
  with effect_time_case [where e = e and i = i and rd = rd and i' = i' and x = x] assms
  show ?thesis by simp
next
  case (Inr d')
  with effect_time_case [where e = e and i = i and rd = rd and i' = i' and x = x] assms
  show ?thesis by simp
qed

text \<open>
  At the id \<open>x\<close> the loop over a batch does what the loop over the rows of \<open>x\<close> alone
  does.
\<close>

lemma bulkWriteRows_view:
  assumes "viewAt x acc = viewAt x accB" "bulkWriteRows e i rds acc = Inr acc'"
  shows "\<exists>accB'. bulkWriteRows e i' (filter (\<lambda>rd. primary (document (fst rd)) = x) rds) accB
                   = Inr accB'
            \<and> viewAt x acc' = viewAt x accB'"
  using assms
proof (induction rds arbitrary: acc accB i i')
  case Nil
  then show ?case by simp
next
  case (Cons rd rds)
  from bulkWriteRows_ConsD [OF Cons.prems(2)] obtain acc1 where
    step: "bulkWriteRow e i rd acc = Inr acc1" and
    rest: "bulkWriteRows e (Suc i) rds acc1 = Inr acc'"
    by blast
  from bulkWriteRow_InrD [OF step] obtain d where
    eff: "bulkWriteRow e i rd (emptyBatch, emptyResponse) = Inr d" and
    acc1: "acc1 = accPlus acc d"
    by blast
  show ?case
  proof (cases "primary (document (fst rd)) = x")
    case False
    have "viewAt x acc1 = viewAt x accB"
      using effect_frame [OF False eff] Cons.prems(1) acc1
      by (simp add: viewAt_accPlus_neutral)
    from Cons.IH [OF this rest, of i'] obtain accB' where
      "bulkWriteRows e i' (filter (\<lambda>rd. primary (document (fst rd)) = x) rds) accB = Inr accB'"
      "viewAt x acc' = viewAt x accB'"
      by blast
    with False show ?thesis by simp
  next
    case True
    from effect_time [OF eff, of i' x] obtain d' where
      eff': "bulkWriteRow e i' rd (emptyBatch, emptyResponse) = Inr d'" and
      vd: "viewAt x d = viewAt x d'"
      by blast
    have stepB: "bulkWriteRow e i' rd accB = Inr (accPlus accB d')"
      by (rule bulkWriteRow_InrI [OF eff'])
    have "viewAt x acc1 = viewAt x (accPlus accB d')"
      unfolding acc1 by (rule viewAt_accPlus_cong [OF Cons.prems(1) vd])
    from Cons.IH [OF this rest, of "Suc i'"] obtain accB' where
      "bulkWriteRows e (Suc i') (filter (\<lambda>rd. primary (document (fst rd)) = x) rds)
         (accPlus accB d') = Inr accB'"
      "viewAt x acc' = viewAt x accB'"
      by blast
    with True stepB show ?thesis by simp
  qed
qed

lemma events_stamped:
  "map change (filter (\<lambda>ev. documentId ev = x) (stampEndTime t evs)) =
     map change (filter (\<lambda>ev. documentId ev = x) evs)"
  by (induction evs) (simp_all add: stampEndTime_def)

lemma observe_view:
  assumes "viewAt x acc = viewAt x accB"
  shows "observeAt x (snd acc,
             changesNext \<lparr> bulk_id = b, bulk_events = stampEndTime t (events (fst acc)) \<rparr>
               (bulkWriteCommit (fst acc) s)) =
         observeAt x (snd accB,
             changesNext \<lparr> bulk_id = b', bulk_events = stampEndTime t' (events (fst accB)) \<rparr>
               (bulkWriteCommit (fst accB) s))"
  using assms
  by (simp add: observeAt_def viewAt_def changesNext_def bulkWriteCommit_tables stripped_lookup
      events_stamped)

lemma bulkWrite_InrD:
  assumes "bulkWrite e s rows = Inr (ret, s')"
  shows "\<not> dexieDbClosed s \<and>
         (\<exists>acc. bulkWriteRows e 0 (map (\<lambda>r. (r, docInDb s (primary (document r)))) rows)
                   (emptyBatch, emptyResponse) = Inr acc \<and>
                ret = snd acc \<and>
                s' = changesNext
                       \<lparr> bulk_id = randomCouchString e,
                         bulk_events = stampEndTime (now e (length rows)) (events (fst acc)) \<rparr>
                       (bulkWriteCommit (fst acc) s))"
  using assms
  by (auto simp: bulkWrite_def dbAccess_def zip_getDocsInDb Let_def
      split: if_splits sum.splits)

lemma bulkWrite_InrI:
  assumes "\<not> dexieDbClosed s"
    and "bulkWriteRows e 0 (map (\<lambda>r. (r, docInDb s (primary (document r)))) rows)
           (emptyBatch, emptyResponse) = Inr acc"
  shows "bulkWrite e s rows =
           Inr (snd acc,
                changesNext
                  \<lparr> bulk_id = randomCouchString e,
                    bulk_events = stampEndTime (now e (length rows)) (events (fst acc)) \<rparr>
                  (bulkWriteCommit (fst acc) s))"
  using assms
  by (simp add: bulkWrite_def dbAccess_def zip_getDocsInDb Let_def split: prod.splits)

lemma filter_pairs:
  "filter (\<lambda>rd. primary (document (fst rd)) = x)
     (map (\<lambda>r. (r, docInDb s (primary (document r)))) rows) =
   map (\<lambda>r. (r, docInDb s (primary (document r))))
     (filter (\<lambda>r. primary (document r) = x) rows)"
  by (induction rows) simp_all

lemma bulkWrite_restrict:
  assumes "bulkWrite e s rows = Inr (ret, s')"
  shows "\<exists>ret0 s0. bulkWrite e s (filter (\<lambda>r. primary (document r) = x) rows) = Inr (ret0, s0) \<and>
                   observeAt x (ret, s') = observeAt x (ret0, s0)"
proof -
  from bulkWrite_InrD [OF assms] obtain acc where
    op: "\<not> dexieDbClosed s" and
    run: "bulkWriteRows e 0 (map (\<lambda>r. (r, docInDb s (primary (document r)))) rows)
            (emptyBatch, emptyResponse) = Inr acc" and
    ret: "ret = snd acc" and
    s': "s' = changesNext
                \<lparr> bulk_id = randomCouchString e,
                  bulk_events = stampEndTime (now e (length rows)) (events (fst acc)) \<rparr>
                (bulkWriteCommit (fst acc) s)"
    by blast
  from bulkWriteRows_view [OF refl run, where x = x and i' = 0] obtain accB where
    runB: "bulkWriteRows e 0
             (map (\<lambda>r. (r, docInDb s (primary (document r))))
                (filter (\<lambda>r. primary (document r) = x) rows))
             (emptyBatch, emptyResponse) = Inr accB" and
    v: "viewAt x acc = viewAt x accB"
    by (auto simp: filter_pairs)
  show ?thesis
    using bulkWrite_InrI [OF op runB] observe_view [OF v] ret s' by simp
qed

lemma observeAt_commit:
  "observeAt x (snd d,
       changesNext \<lparr> bulk_id = b, bulk_events = stampEndTime t (events (fst d)) \<rparr>
         (bulkWriteCommit (fst d) s)) =
   ((success (snd d) x, error (snd d) x),
    (map_option stripDexieKey
       (map_of (bulkDelete (bulkRemoveDocs (fst d)) (bulkPut (bulkPutDocs (fst d)) (dexieTable s))) x),
     map_option stripDexieKey
       (map_of (bulkDelete (bulkRemoveDeletedDocs (fst d))
                  (bulkPut (bulkPutDeletedDocs (fst d)) (dexieDeletedTable s))) x)),
    (map change (filter (\<lambda>ev. documentId ev = x) (events (fst d))),
     filter (\<lambda>k. k = x) (map meta_id (dexieChangesTable s)) @
       filter (\<lambda>k. k = x) (changesIds (fst d))))"
  by (simp add: observeAt_def changesNext_def bulkWriteCommit_tables events_stamped)

lemma bulkWrite_single:
  assumes "\<not> dexieDbClosed s"
    and "bulkWriteRow e 0 (row, docInDb s (primary (document row))) (emptyBatch, emptyResponse) = Inr d"
  shows "bulkWrite e s [row] =
           Inr (snd d,
                changesNext \<lparr> bulk_id = randomCouchString e,
                              bulk_events = stampEndTime (now e 1) (events (fst d)) \<rparr>
                  (bulkWriteCommit (fst d) s))"
  using bulkWrite_InrI [OF assms(1), of e "[row]" d] assms(2) by simp

lemma bulkWrite_single_observe:
  assumes ret: "bulkWrite e s rows = Inr (ret, s')"
    and row: "filter (\<lambda>r. primary (document r) = x) rows = [row]"
    and eff: "bulkWriteRow e 0 (row, docInDb s x) (emptyBatch, emptyResponse) = Inr d"
  shows "observeAt x (ret, s') =
         observeAt x (snd d,
           changesNext \<lparr> bulk_id = randomCouchString e,
                         bulk_events = stampEndTime (now e 1) (events (fst d)) \<rparr>
             (bulkWriteCommit (fst d) s))"
proof -
  have "row \<in> set (filter (\<lambda>r. primary (document r) = x) rows)"
    by (simp add: row)
  then have px: "primary (document row) = x" by simp
  from bulkWrite_InrD [OF ret] have op: "\<not> dexieDbClosed s" by blast
  from bulkWrite_restrict [OF ret, of x] row obtain ret0 s0 where
    one: "bulkWrite e s [row] = Inr (ret0, s0)" and
    obs: "observeAt x (ret, s') = observeAt x (ret0, s0)"
    by auto
  from bulkWrite_single [OF op, of e row d] eff px one obs show ?thesis
    by simp
qed

text \<open>What the rows of the table of section 4.2 add to the closure variables.\<close>

lemma conflict_effect:
  assumes "(previous row = None \<and> \<not> doc_deleted E) \<or>
           (\<exists>p. previous row = Some p \<and> doc_rev p \<noteq> doc_rev E)"
  shows "bulkWriteRow e k (row, Some E) (emptyBatch, emptyResponse) =
           Inr (emptyBatch,
                \<lparr> success = Map.empty,
                  error = [primary (document row) \<mapsto>
                    \<lparr> isError = True, status = 409,
                      err_documentId = primary (document row), err_writeRow = row \<rparr>] \<rparr>)"
  using assms
  by (auto simp: bulkWriteRow_def bulkWriteUpdate_def Let_def emptyBatch_def emptyResponse_def)

lemma resurrect_effect:
  assumes "previous row = None" "doc_deleted E" "\<not> doc_deleted (document row)"
  shows "bulkWriteRow e k (row, Some E) (emptyBatch, emptyResponse) =
           (let x = primary (document row);
                newRevision = numberToString (addOne (getHeightOfRevision (doc_rev E)))
                                @ ''-'' @ createRevision e (document row);
                writeDoc = (document row)\<lparr>lastWriteAt := Some (now e k), doc_rev := newRevision,
                              doc_deleted := False, doc_attachments := []\<rparr>
            in Inr (\<lparr> bulkPutDocs = [writeDoc], bulkRemoveDocs = [], bulkPutDeletedDocs = [],
                      bulkRemoveDeletedDocs = [x], changesIds = [x],
                      events = [\<lparr> eventId = (False, x, newRevision), documentId = x,
                                  change = \<lparr> change_id = x, operation = INSERT,
                                             change_previous = None,
                                             change_doc = Some (stripDexieKey writeDoc) \<rparr>,
                                  startTime = now e k, endTime = now e k \<rparr>] \<rparr>,
                    \<lparr> success = [x \<mapsto> stripDexieKey writeDoc], error = Map.empty \<rparr>))"
  using assms
  by (simp add: bulkWriteRow_def bulkWriteUpdate_def Let_def emptyBatch_def emptyResponse_def)

lemma delete_effect:
  assumes "previous row = Some p" "\<not> doc_deleted p" "doc_rev p = doc_rev E"
    "doc_deleted (document row)"
  shows "bulkWriteRow e k (row, Some E) (emptyBatch, emptyResponse) =
           (let x = primary (document row);
                newRevision = numberToString (addOne (getHeightOfRevision (doc_rev E)))
                                @ ''-'' @ createRevision e (document row);
                writeDoc = (document row)\<lparr>lastWriteAt := Some (now e k), doc_rev := newRevision,
                              doc_deleted := True, doc_attachments := []\<rparr>
            in Inr (\<lparr> bulkPutDocs = [], bulkRemoveDocs = [x], bulkPutDeletedDocs = [writeDoc],
                      bulkRemoveDeletedDocs = [], changesIds = [x],
                      events = [\<lparr> eventId = (False, x, newRevision), documentId = x,
                                  change = \<lparr> change_id = x, operation = DELETE,
                                             change_previous = Some (p\<lparr>doc_rev := newRevision\<rparr>),
                                             change_doc = None \<rparr>,
                                  startTime = now e k, endTime = now e k \<rparr>] \<rparr>,
                    \<lparr> success = [x \<mapsto> stripDexieKey writeDoc], error = Map.empty \<rparr>))"
  using assms
  by (simp add: bulkWriteRow_def bulkWriteUpdate_def Let_def emptyBatch_def emptyResponse_def)

lemma snh_effect:
  assumes "previous row = None" "doc_deleted E" "doc_deleted (document row)"
  shows "bulkWriteRow e k (row, Some E) acc = Inl SNH"
  using assms
  by (simp add: bulkWriteRow_def bulkWriteUpdate_def Let_def)

lemma resurrect_step:
  assumes "previous writeRow = None" "doc_deleted documentInDb" "\<not> doc_deleted (document writeRow)"
  shows "bulkWriteRow e k (writeRow, Some documentInDb) acc =
           (let x = primary (document writeRow);
                newRevision = numberToString
                    (addOne (getHeightOfRevision (doc_rev documentInDb)))
                  @ ''-'' @ createRevision e (document writeRow);
                writeDoc = (document writeRow)\<lparr>doc_rev := newRevision, doc_deleted := False,
                              doc_attachments := [], lastWriteAt := None\<rparr>
            in Inr (accPlus acc
                 (\<lparr> bulkPutDocs = [(document writeRow)\<lparr>lastWriteAt := Some (now e k),
                                    doc_rev := newRevision, doc_deleted := False,
                                    doc_attachments := []\<rparr>],
                    bulkRemoveDocs = [], bulkPutDeletedDocs = [],
                    bulkRemoveDeletedDocs = [x], changesIds = [x],
                    events = [\<lparr> eventId = (False, x, newRevision), documentId = x,
                                change = \<lparr> change_id = x, operation = INSERT,
                                           change_previous = None,
                                           change_doc = Some writeDoc \<rparr>,
                                startTime = now e k, endTime = now e k \<rparr>] \<rparr>,
                  \<lparr> success = [x \<mapsto> writeDoc], error = Map.empty \<rparr>)))"
proof -
  note eff = resurrect_effect [OF assms, unfolded Let_def]
  show ?thesis
    unfolding Let_def
    by (subst bulkWriteRow_InrI [OF eff]) (simp add: stripDexieKey_def)
qed

lemma resurrect_bulk:
  assumes ret: "bulkWrite e s documentWrites = Inr (ret, s')"
    and one: "filter (\<lambda>r. primary (document r) = x) documentWrites = [writeRow]"
    and inDb: "docInDb s x = Some documentInDb" "doc_deleted documentInDb"
    and row: "previous writeRow = None" "\<not> doc_deleted (document writeRow)"
  shows "observeAt x (ret, s') =
           (let newRevision = numberToString
                    (addOne (getHeightOfRevision (doc_rev documentInDb)))
                  @ ''-'' @ createRevision e (document writeRow);
                writeDoc = (document writeRow)\<lparr>doc_rev := newRevision, doc_deleted := False,
                              doc_attachments := [], lastWriteAt := None\<rparr>
            in ((Some writeDoc, None), (Some writeDoc, None),
                ([\<lparr> change_id = x, operation = INSERT, change_previous = None,
                     change_doc = Some writeDoc \<rparr>],
                 filter (\<lambda>k. k = x) (map meta_id (dexieChangesTable s)) @ [x])))"
proof -
  have "writeRow \<in> set (filter (\<lambda>r. primary (document r) = x) documentWrites)"
    by (simp add: one)
  then have px: "primary (document writeRow) = x" by simp
  note eff = resurrect_effect [OF row(1) inDb(2) row(2), of e 0, unfolded Let_def]
  show ?thesis
    unfolding Let_def
    by (subst bulkWrite_single_observe [OF ret one, unfolded inDb(1), OF eff],
        subst observeAt_commit)
       (simp add: px map_of_bulkDelete map_of_bulkPut stripDexieKey_def)
qed

section \<open>Conflicts\<close>

lemma conflict_step:
  assumes "(previous writeRow = None \<and> \<not> doc_deleted documentInDb) \<or>
           (\<exists>p. previous writeRow = Some p \<and> doc_rev p \<noteq> doc_rev documentInDb)"
  shows "bulkWriteRow e k (writeRow, Some documentInDb) acc =
           Inr (fst acc,
                (snd acc)\<lparr>error := (error (snd acc))(primary (document writeRow) \<mapsto>
                   \<lparr> isError = True, status = 409,
                     err_documentId = primary (document writeRow),
                     err_writeRow = writeRow \<rparr>)\<rparr>)"
  using assms
  by (auto simp: bulkWriteRow_def bulkWriteUpdate_def Let_def)

lemma effect_error_case:
  "case bulkWriteRow e i rd (emptyBatch, emptyResponse) of
     Inl fault \<Rightarrow> True
   | Inr d \<Rightarrow> (case error (snd d) x of
                 None \<Rightarrow> True
               | Some err \<Rightarrow> status err = 409 \<and> err_documentId err = x \<and> isError err)"
proof (cases "snd rd")
  case None
  then show ?thesis
    by (simp add: bulkWriteRow_def bulkWriteInsert_def Let_def emptyBatch_def emptyResponse_def)
next
  case (Some E)
  then show ?thesis
    by (simp add: bulkWriteRow_def bulkWriteUpdate_def Let_def emptyBatch_def emptyResponse_def
        split: option.split)
qed

lemma effect_error_409:
  assumes "bulkWriteRow e i rd (emptyBatch, emptyResponse) = Inr d"
    and "error (snd d) x = Some err"
  shows "status err = 409 \<and> err_documentId err = x \<and> isError err"
  using effect_error_case [where e = e and i = i and rd = rd and x = x] assms by simp

lemma conflictAt_step:
  assumes "bulkWriteRow e i rd acc = Inr acc1" "conflictAt x acc"
  shows "conflictAt x acc1"
proof -
  from bulkWriteRow_InrD [OF assms(1)] obtain d where
    eff: "bulkWriteRow e i rd (emptyBatch, emptyResponse) = Inr d" and
    acc1: "acc1 = accPlus acc d"
    by blast
  show ?thesis
  proof (cases "error (snd d) x")
    case None
    with assms(2) acc1 show ?thesis
      by (simp add: conflictAt_def accPlus_def map_add_def)
  next
    case (Some err)
    with effect_error_409 [OF eff Some] acc1 show ?thesis
      by (simp add: conflictAt_def accPlus_def map_add_def)
  qed
qed

lemma conflictAt_rows:
  assumes "bulkWriteRows e i rds acc = Inr acc'" "conflictAt x acc"
  shows "conflictAt x acc'"
  using assms
proof (induction rds arbitrary: i acc)
  case Nil
  then show ?case by simp
next
  case (Cons rd rds)
  from bulkWriteRows_ConsD [OF Cons.prems(1)] obtain acc1 where
    step: "bulkWriteRow e i rd acc = Inr acc1" and
    rest: "bulkWriteRows e (Suc i) rds acc1 = Inr acc'"
    by blast
  from Cons.IH [OF rest conflictAt_step [OF step Cons.prems(2)]] show ?case .
qed

lemma conflictAt_reached:
  assumes "bulkWriteRows e i rds acc = Inr acc'"
    and "(writeRow, Some documentInDb) \<in> set rds"
    and "(previous writeRow = None \<and> \<not> doc_deleted documentInDb) \<or>
         (\<exists>p. previous writeRow = Some p \<and> doc_rev p \<noteq> doc_rev documentInDb)"
  shows "conflictAt (primary (document writeRow)) acc'"
  using assms(1,2)
proof (induction rds arbitrary: i acc)
  case Nil
  then show ?case by simp
next
  case (Cons rd rds)
  from bulkWriteRows_ConsD [OF Cons.prems(1)] obtain acc1 where
    step: "bulkWriteRow e i rd acc = Inr acc1" and
    rest: "bulkWriteRows e (Suc i) rds acc1 = Inr acc'"
    by blast
  show ?case
  proof (cases "rd = (writeRow, Some documentInDb)")
    case True
    with step conflict_step [OF assms(3), of e i acc]
    have "conflictAt (primary (document writeRow)) acc1"
      by (auto simp: conflictAt_def)
    from conflictAt_rows [OF rest this] show ?thesis .
  next
    case False
    with Cons.prems(2) have "(writeRow, Some documentInDb) \<in> set rds" by simp
    from Cons.IH [OF rest this] show ?thesis .
  qed
qed

lemma bulkWrite_single_view:
  assumes ret: "bulkWrite e s rows = Inr (ret, s')"
    and row: "filter (\<lambda>r. primary (document r) = x) rows = [row]"
    and eff: "bulkWriteRow e 0 (row, docInDb s x) (emptyBatch, emptyResponse) = Inr d"
  shows "\<exists>acc. viewAt x acc = viewAt x d \<and> ret = snd acc \<and>
               s' = changesNext
                      \<lparr> bulk_id = randomCouchString e,
                        bulk_events = stampEndTime (now e (length rows)) (events (fst acc)) \<rparr>
                      (bulkWriteCommit (fst acc) s)"
proof -
  have "row \<in> set (filter (\<lambda>r. primary (document r) = x) rows)"
    by (simp add: row)
  then have px: "primary (document row) = x" by simp
  from bulkWrite_InrD [OF ret] obtain acc where
    run: "bulkWriteRows e 0 (map (\<lambda>r. (r, docInDb s (primary (document r)))) rows)
            (emptyBatch, emptyResponse) = Inr acc" and
    r: "ret = snd acc" and
    s': "s' = changesNext
                \<lparr> bulk_id = randomCouchString e,
                  bulk_events = stampEndTime (now e (length rows)) (events (fst acc)) \<rparr>
                (bulkWriteCommit (fst acc) s)"
    by blast
  from bulkWriteRows_view [OF refl run, where x = x and i' = 0] obtain accB where
    runB: "bulkWriteRows e 0 [(row, docInDb s x)] (emptyBatch, emptyResponse) = Inr accB" and
    v: "viewAt x acc = viewAt x accB"
    by (auto simp: filter_pairs row px)
  from runB eff have "accB = d" by simp
  with v r s' show ?thesis by blast
qed

section \<open>Revisions written and read back\<close>

lemma digitChar_digit:
  assumes "d < 10"
  shows "isDigit (digitChar d)" "digitVal (digitChar d) = d" "digitChar d \<noteq> CHR ''-''"
proof -
  have v: "(of_char (digitChar d) :: nat) = 48 + d"
    using assms by (simp add: digitChar_def)
  show "isDigit (digitChar d)" using assms v by (simp add: isDigit_def)
  show "digitVal (digitChar d) = d" using v by (simp add: digitVal_def)
  show "digitChar d \<noteq> CHR ''-''"
  proof
    assume "digitChar d = CHR ''-''"
    then have "(of_char (digitChar d) :: nat) = of_char (CHR ''-'')" by simp
    with v show False by simp
  qed
qed

lemma showNat_digits: "c \<in> set (showNat n) \<Longrightarrow> isDigit c \<and> c \<noteq> CHR ''-''"
proof (induction n arbitrary: c rule: showNat.induct)
  case (1 n)
  show ?case
  proof (cases "n < 10")
    case True
    with "1.prems" show ?thesis
      by (subst (asm) showNat.simps) (simp add: digitChar_digit)
  next
    case False
    from "1.prems" have "c \<in> set (showNat (n div 10)) \<or> c = digitChar (n mod 10)"
      by (subst (asm) showNat.simps) (auto simp: False)
    then show ?thesis
      using "1.IH" [OF False] by (auto simp: digitChar_digit)
  qed
qed

lemma showNat_nonempty: "showNat n \<noteq> []"
  by (subst showNat.simps) simp

lemma showNat_value: "foldl (\<lambda>a c. 10 * a + digitVal c) 0 (showNat n) = n"
proof (induction n rule: showNat.induct)
  case (1 n)
  show ?case
  proof (cases "n < 10")
    case True
    then show ?thesis by (subst showNat.simps) (simp add: digitChar_digit)
  next
    case False
    then show ?thesis
      using "1.IH" [OF False] by (subst showNat.simps) (simp add: digitChar_digit)
  qed
qed

lemma takeWhile_all: "(\<And>c. c \<in> set ds \<Longrightarrow> P c) \<Longrightarrow> \<not> P c' \<Longrightarrow> takeWhile P (ds @ c' # rest) = ds"
  by (induction ds) simp_all

lemma getHeightOfRevision_showNat:
  "getHeightOfRevision (showNat n @ ''-'' @ h) = toNumber n"
proof -
  have a: "takeWhile (\<lambda>c. c \<noteq> CHR ''-'') (showNat n @ CHR ''-'' # h) = showNat n"
    by (rule takeWhile_all) (simp_all add: showNat_digits)
  have b: "takeWhile isDigit (showNat n) = showNat n"
    by (rule takeWhile_eq_all_conv [THEN iffD2]) (simp add: showNat_digits)
  show ?thesis
    by (simp add: getHeightOfRevision_def parseRevision_def Let_def a parseInt_def b
        showNat_nonempty showNat_value)
qed

lemma getHeightOfRevision_1: "getHeightOfRevision (''1-'' @ h) = Fin 1"
proof -
  have "showNat 1 = ''1''" by code_simp
  with getHeightOfRevision_showNat [of 1 h] show ?thesis by (simp add: toNumber_def)
qed

text \<open>
  Below \<open>2 ^ 53\<close> the sum \<open>h + 1\<close> is exact, it is printed as its decimal numeral, and the
  numeral is read back as the same number.
\<close>

lemma addOne_exact: "h < 2 ^ 53 \<Longrightarrow> addOne (Fin h) = Fin (Suc h)"
  by (simp add: addOne_def toNumber_def)

lemma numberToString_exact: "n \<le> 2 ^ 53 \<Longrightarrow> numberToString (Fin n) = showNat n"
  by (simp add: numberToString_def)

lemma numberToString_height:
  assumes "getHeightOfRevision r = Fin h" and "h < 2 ^ 53"
  shows "getHeightOfRevision (numberToString (addOne (getHeightOfRevision r)) @ ''-'' @ x)
           = Fin (Suc h)"
proof -
  from assms(2) have le: "Suc h \<le> 2 ^ 53" by simp
  have "numberToString (addOne (getHeightOfRevision r)) = showNat (Suc h)"
    by (simp only: assms(1) addOne_exact [OF assms(2)] numberToString_exact [OF le])
  moreover have "toNumber (Suc h) = Fin (Suc h)"
    using le by (simp only: toNumber_def if_True)
  ultimately show ?thesis
    by (simp only: getHeightOfRevision_showNat)
qed

text \<open>
  At \<open>2 ^ 53\<close> the sum is not exact: \<open>2 ^ 53 + 1\<close> is no double, it lies half way between
  \<open>2 ^ 53\<close> and \<open>2 ^ 53 + 2\<close> and goes to \<open>2 ^ 53\<close>, whose significand is even.
\<close>

lemma bitLength_bounds: "2 ^ k \<le> n \<Longrightarrow> n < 2 ^ Suc k \<Longrightarrow> bitLength n = Suc k"
proof (induction k arbitrary: n)
  case 0
  then have "n = 1" by simp
  then show ?case
    by (simp add: bitLength.simps [of "Suc 0"] bitLength.simps [of 0])
next
  case (Suc k)
  from Suc.prems have "2 ^ k \<le> n div 2" and "n div 2 < 2 ^ Suc k" and "n \<noteq> 0"
    by auto
  with Suc.IH [of "n div 2"] show ?case
    by (subst bitLength.simps) simp
qed

lemma addOne_2_53: "addOne (Fin 9007199254740992) = Fin 9007199254740992"
proof -
  have "bitLength 9007199254740993 = Suc 53"
    by (rule bitLength_bounds) simp_all
  then show ?thesis
    by (simp add: addOne_def toNumber_def Let_def)
qed

lemma digitChar_values:
  "digitChar 0 = CHR ''0''" "digitChar (Suc 0) = CHR ''1''" "digitChar 2 = CHR ''2''"
  "digitChar 3 = CHR ''3''" "digitChar 4 = CHR ''4''" "digitChar 5 = CHR ''5''"
  "digitChar 6 = CHR ''6''" "digitChar 7 = CHR ''7''" "digitChar 8 = CHR ''8''"
  "digitChar 9 = CHR ''9''"
  by code_simp+

lemma showNat_2_53: "showNat 9007199254740992 = ''9007199254740992''"
  by (simp add: showNat.simps digitChar_values)

lemma height_2_53: "getHeightOfRevision (''9007199254740992-'' @ h) = Fin 9007199254740992"
  using getHeightOfRevision_showNat [of 9007199254740992 h]
  by (simp add: showNat_2_53 toNumber_def)

lemma numberToString_2_53: "numberToString (Fin 9007199254740992) = ''9007199254740992''"
  by (simp add: numberToString_def showNat_2_53)

section \<open>Publication of the bulk by bulkAddRevisions\<close>

text \<open>
  Claim C2, as the code has it. \<open>bulkAddRevisions\<close> hands its bulk to
  \<open>changes$.next\<close> without looking at the events: every call on an instance whose
  database handle is open publishes exactly one EventBulk, which holds the events that
  the call produced, also when there are none.
\<close>

theorem bulkAddRevisions_publishes_always:
  "\<not> dexieDbClosed s \<Longrightarrow>
   \<exists>s'. bulkAddRevisions e s documents = Inr s' \<and>
        changes s' = changes s @
          [\<lparr> bulk_id = randomCouchString e,
             bulk_events =
               stampEndTime (now e (length documents))
                 (events (bulkAddRevisionsRows e 0
                            (zip documents (getDocsInDb s (map primary documents)))
                            emptyBatch)) \<rparr>]"
  by (simp add: bulkAddRevisions_def dbAccess_def Let_def changesNext_def
      changes_bulkAddRevisionsCommit)

theorem bulkAddRevisions_publishes_always_witness:
  "\<not> dexieDbClosed (exampleInstance [(''a'', exampleDoc ''a'' ''v1'' ''3-H'' False)] []) \<and>
   (\<exists>s'. bulkAddRevisions exampleEnv
            (exampleInstance [(''a'', exampleDoc ''a'' ''v1'' ''3-H'' False)] [])
            [exampleDoc ''a'' ''v2'' ''4-Y'' False] = Inr s' \<and>
         length (changes s') = 1 \<and> length (bulk_events (last (changes s'))) = 1)"
proof -
  let ?s = "exampleInstance [(''a'', exampleDoc ''a'' ''v1'' ''3-H'' False)] []"
  have h: "\<not> dexieDbClosed ?s"
    by (simp add: exampleInstance_def)
  have ev: "length (events (bulkAddRevisionsRows exampleEnv 0
              (zip [exampleDoc ''a'' ''v2'' ''4-Y'' False]
                 (getDocsInDb ?s (map primary [exampleDoc ''a'' ''v2'' ''4-Y'' False])))
              emptyBatch)) = 1"
    by code_simp
  have c: "changes ?s = []"
    by (simp add: exampleInstance_def)
  from bulkAddRevisions_publishes_always [OF h, of exampleEnv "[exampleDoc ''a'' ''v2'' ''4-Y'' False]"]
  obtain s' where
    "bulkAddRevisions exampleEnv ?s [exampleDoc ''a'' ''v2'' ''4-Y'' False] = Inr s'"
    "changes s' = changes ?s @
       [\<lparr> bulk_id = randomCouchString exampleEnv,
          bulk_events =
            stampEndTime (now exampleEnv (length [exampleDoc ''a'' ''v2'' ''4-Y'' False]))
              (events (bulkAddRevisionsRows exampleEnv 0
                 (zip [exampleDoc ''a'' ''v2'' ''4-Y'' False]
                    (getDocsInDb ?s (map primary [exampleDoc ''a'' ''v2'' ''4-Y'' False])))
                 emptyBatch)) \<rparr>]"
    by blast
  with h c ev show ?thesis
    by (simp add: stampEndTime_def)
qed

text \<open>
  Claim C2, as stated, fails: a revision that loses against the stored one produces no
  event, and the bulk with no events is published all the same.
\<close>

theorem bulkAddRevisions_empty_bulk_counterexample:
  "bulkAddRevisions exampleEnv
     (exampleInstance [(''a'', exampleDoc ''a'' ''v1'' ''3-H'' False)] [])
     [exampleDoc ''a'' ''v2'' ''2-Z'' False]
   = Inr ((exampleInstance [(''a'', exampleDoc ''a'' ''v1'' ''3-H'' False)] [])
            \<lparr>changes := [\<lparr> bulk_id = ''bulk'', bulk_events = [] \<rparr>]\<rparr>)"
  by code_simp

section \<open>Writing over a tombstone without a previous\<close>

text \<open>
  Claim C7, with the condition that the code needs: a row of \<open>bulkWrite\<close> whose id is
  stored as a tombstone, which has no \<open>previous\<close> and whose new document is not
  deleted, takes the tombstone as its \<open>previous\<close> and is an update. The new revision
  is the tombstone's height plus one as JavaScript computes and prints it, then \<open>-\<close>, then
  the hash; when the height is an integer below \<open>2 ^ 53\<close>, where the sum is exact, the new
  revision has the next height. The row queues the
  document for the live table and its id for removal from the deleted table, adds one
  INSERT event with no previous, and reports the document as a success. When the row is
  the only one of its batch with that id and the batch returns, this is what is in the
  returned maps, in the two tables and in the published bulk; a batch of this row alone
  returns.
\<close>

theorem bulkWrite_resurrect_tombstone:
  assumes "docInDb s x = Some documentInDb" and "doc_deleted documentInDb"
    and "primary (document writeRow) = x" and "previous writeRow = None"
    and "\<not> doc_deleted (document writeRow)"
  shows
    "let newRevision = numberToString
             (addOne (getHeightOfRevision (doc_rev documentInDb)))
           @ ''-'' @ createRevision e (document writeRow);
         writeDoc = (document writeRow)\<lparr>doc_rev := newRevision, doc_deleted := False,
                       doc_attachments := [], lastWriteAt := None\<rparr>;
         chg = \<lparr> change_id = x, operation = INSERT, change_previous = None,
                 change_doc = Some writeDoc \<rparr>
     in (\<forall>h. getHeightOfRevision (doc_rev documentInDb) = Fin h \<and> h < 2 ^ 53 \<longrightarrow>
              getHeightOfRevision newRevision = Fin (Suc h)) \<and>
        (\<forall>k acc. bulkWriteRow e k (writeRow, Some documentInDb) acc =
           Inr (accPlus acc
                  (\<lparr> bulkPutDocs = [(document writeRow)\<lparr>lastWriteAt := Some (now e k),
                                       doc_rev := newRevision, doc_deleted := False,
                                       doc_attachments := []\<rparr>],
                     bulkRemoveDocs = [], bulkPutDeletedDocs = [],
                     bulkRemoveDeletedDocs = [x], changesIds = [x],
                     events = [\<lparr> eventId = (False, x, newRevision), documentId = x,
                                 change = chg, startTime = now e k, endTime = now e k \<rparr>] \<rparr>,
                   \<lparr> success = [x \<mapsto> writeDoc], error = Map.empty \<rparr>))) \<and>
        (\<forall>documentWrites ret s'.
           bulkWrite e s documentWrites = Inr (ret, s') \<and>
           filter (\<lambda>r. primary (document r) = x) documentWrites = [writeRow] \<longrightarrow>
             success ret x = Some writeDoc \<and> error ret x = None \<and>
             map_option stripDexieKey (map_of (dexieTable s') x) = Some writeDoc \<and>
             map_of (dexieDeletedTable s') x = None \<and>
             map change (filter (\<lambda>ev. documentId ev = x) (bulk_events (last (changes s'))))
               = [chg]) \<and>
        (\<not> dexieDbClosed s \<longrightarrow> (\<exists>ret s'. bulkWrite e s [writeRow] = Inr (ret, s')))"
proof -
  have height: "getHeightOfRevision (numberToString
             (addOne (getHeightOfRevision (doc_rev documentInDb)))
           @ ''-'' @ createRevision e (document writeRow)) = Fin (Suc h)"
    if "getHeightOfRevision (doc_rev documentInDb) = Fin h" "h < 2 ^ 53" for h
    using numberToString_height [OF that] .
  have step: "bulkWriteRow e k (writeRow, Some documentInDb) acc = Inr (accPlus acc
       (\<lparr> bulkPutDocs = [(document writeRow)\<lparr>lastWriteAt := Some (now e k),
              doc_rev := numberToString
                 (addOne (getHeightOfRevision (doc_rev documentInDb)))
                 @ ''-'' @ createRevision e (document writeRow), doc_deleted := False,
              doc_attachments := []\<rparr>],
          bulkRemoveDocs = [], bulkPutDeletedDocs = [],
          bulkRemoveDeletedDocs = [x], changesIds = [x],
          events = [\<lparr> eventId = (False, x, numberToString
                 (addOne (getHeightOfRevision (doc_rev documentInDb)))
                 @ ''-'' @ createRevision e (document writeRow)), documentId = x,
              change = \<lparr> change_id = x, operation = INSERT, change_previous = None,
                 change_doc = Some ((document writeRow)\<lparr>doc_rev := numberToString
                     (addOne (getHeightOfRevision (doc_rev documentInDb)))
                     @ ''-'' @ createRevision e (document writeRow), doc_deleted := False,
                   doc_attachments := [], lastWriteAt := None\<rparr>) \<rparr>,
              startTime = now e k, endTime = now e k \<rparr>] \<rparr>,
        \<lparr> success = [x \<mapsto> (document writeRow)\<lparr>doc_rev := numberToString
                     (addOne (getHeightOfRevision (doc_rev documentInDb)))
                     @ ''-'' @ createRevision e (document writeRow), doc_deleted := False,
                   doc_attachments := [], lastWriteAt := None\<rparr>], error = Map.empty \<rparr>))"
    for k acc
    using resurrect_step [OF assms(4) assms(2) assms(5), of e k acc]
    by (simp add: Let_def assms(3))
  have bulk: "success ret x = Some ((document writeRow)\<lparr>doc_rev := numberToString
                     (addOne (getHeightOfRevision (doc_rev documentInDb)))
                     @ ''-'' @ createRevision e (document writeRow), doc_deleted := False,
                   doc_attachments := [], lastWriteAt := None\<rparr>) \<and> error ret x = None \<and>
             map_option stripDexieKey (map_of (dexieTable s') x) =
               Some ((document writeRow)\<lparr>doc_rev := numberToString
                     (addOne (getHeightOfRevision (doc_rev documentInDb)))
                     @ ''-'' @ createRevision e (document writeRow), doc_deleted := False,
                   doc_attachments := [], lastWriteAt := None\<rparr>) \<and>
             map_of (dexieDeletedTable s') x = None \<and>
             map change (filter (\<lambda>ev. documentId ev = x) (bulk_events (last (changes s'))))
               = [\<lparr> change_id = x, operation = INSERT, change_previous = None,
                 change_doc = Some ((document writeRow)\<lparr>doc_rev := numberToString
                     (addOne (getHeightOfRevision (doc_rev documentInDb)))
                     @ ''-'' @ createRevision e (document writeRow), doc_deleted := False,
                   doc_attachments := [], lastWriteAt := None\<rparr>) \<rparr>]"
    if "bulkWrite e s documentWrites = Inr (ret, s')"
      "filter (\<lambda>r. primary (document r) = x) documentWrites = [writeRow]"
    for documentWrites ret s'
    using resurrect_bulk [OF that assms(1) assms(2) assms(4) assms(5)]
    by (simp add: observeAt_def Let_def)
  have single: "\<exists>ret s'. bulkWrite e s [writeRow] = Inr (ret, s')" if "\<not> dexieDbClosed s"
    using bulkWrite_single [OF that, of e writeRow, unfolded assms(3) assms(1),
        OF resurrect_effect [OF assms(4) assms(2) assms(5), unfolded Let_def]]
    by blast
  show ?thesis
    unfolding Let_def using height step bulk single by blast
qed


text \<open>
  The theorem at a tombstone \<open>1-v1\<close> and a row without previous: the document is
  stored as \<open>2-v2\<close> in the live table and the tombstone is gone.
\<close>

theorem bulkWrite_resurrect_tombstone_witness:
  "docInDb (exampleInstance [] [(''a'', exampleDoc ''a'' ''v1'' ''1-v1'' True)]) ''a''
     = Some (exampleDoc ''a'' ''v1'' ''1-v1'' True) \<and>
   doc_deleted (exampleDoc ''a'' ''v1'' ''1-v1'' True) \<and>
   primary (document \<lparr>document = exampleDoc ''a'' ''v2'' [] False, previous = None\<rparr>) = ''a'' \<and>
   previous \<lparr>document = exampleDoc ''a'' ''v2'' [] False, previous = None\<rparr> = None \<and>
   \<not> doc_deleted (document \<lparr>document = exampleDoc ''a'' ''v2'' [] False, previous = None\<rparr>) \<and>
   getHeightOfRevision (doc_rev (exampleDoc ''a'' ''v1'' ''1-v1'' True)) = Fin 1 \<and>
   getHeightOfRevision ''2-v2'' = Fin 2 \<and>
   (\<exists>ret s'.
      bulkWrite exampleEnv (exampleInstance [] [(''a'', exampleDoc ''a'' ''v1'' ''1-v1'' True)])
        [\<lparr>document = exampleDoc ''a'' ''v2'' [] False, previous = None\<rparr>] = Inr (ret, s') \<and>
      success ret ''a'' = Some (exampleDoc ''a'' ''v2'' ''2-v2'' False) \<and>
      error ret ''a'' = None \<and>
      map_option stripDexieKey (map_of (dexieTable s') ''a'')
        = Some (exampleDoc ''a'' ''v2'' ''2-v2'' False) \<and>
      map_of (dexieDeletedTable s') ''a'' = None \<and>
      map change (filter (\<lambda>ev. documentId ev = ''a'') (bulk_events (last (changes s'))))
        = [\<lparr> change_id = ''a'', operation = INSERT, change_previous = None,
              change_doc = Some (exampleDoc ''a'' ''v2'' ''2-v2'' False) \<rparr>])"
proof -
  let ?s = "exampleInstance [] [(''a'', exampleDoc ''a'' ''v1'' ''1-v1'' True)]"
  let ?r = "\<lparr>document = exampleDoc ''a'' ''v2'' [] False, previous = None\<rparr>"
  have h1: "docInDb ?s ''a'' = Some (exampleDoc ''a'' ''v1'' ''1-v1'' True)"
    by (simp add: docInDb_def exampleInstance_def)
  have h2: "doc_deleted (exampleDoc ''a'' ''v1'' ''1-v1'' True)"
    by (simp add: exampleDoc_def)
  have h3: "primary (document ?r) = ''a''"
    by (simp add: exampleDoc_def)
  have h4: "previous ?r = None"
    by simp
  have h5: "\<not> doc_deleted (document ?r)"
    by (simp add: exampleDoc_def)
  have h6: "getHeightOfRevision (doc_rev (exampleDoc ''a'' ''v1'' ''1-v1'' True)) = Fin 1"
    by code_simp
  have op: "\<not> dexieDbClosed ?s"
    by (simp add: exampleInstance_def)
  have nr: "numberToString (addOne
               (getHeightOfRevision (doc_rev (exampleDoc ''a'' ''v1'' ''1-v1'' True))))
             @ ''-'' @ createRevision exampleEnv (document ?r) = ''2-v2''"
    by code_simp
  have wd: "(document ?r)\<lparr>doc_rev := ''2-v2'', doc_deleted := False, doc_attachments := [],
               lastWriteAt := None\<rparr> = exampleDoc ''a'' ''v2'' ''2-v2'' False"
    by (simp add: exampleDoc_def)
  note t = bulkWrite_resurrect_tombstone [OF h1 h2 h3 h4 h5, of exampleEnv,
      unfolded Let_def nr wd]
  from t op obtain ret s' where
    run: "bulkWrite exampleEnv ?s [?r] = Inr (ret, s')"
    by blast
  have one: "filter (\<lambda>r. primary (document r) = ''a'') [?r] = [?r]"
    by (simp add: exampleDoc_def)
  from t run one have a:
    "success ret ''a'' = Some (exampleDoc ''a'' ''v2'' ''2-v2'' False) \<and>
      error ret ''a'' = None \<and>
      map_option stripDexieKey (map_of (dexieTable s') ''a'')
        = Some (exampleDoc ''a'' ''v2'' ''2-v2'' False) \<and>
      map_of (dexieDeletedTable s') ''a'' = None \<and>
      map change (filter (\<lambda>ev. documentId ev = ''a'') (bulk_events (last (changes s'))))
        = [\<lparr> change_id = ''a'', operation = INSERT, change_previous = None,
              change_doc = Some (exampleDoc ''a'' ''v2'' ''2-v2'' False) \<rparr>]"
    by blast
  from t h6 have h7: "getHeightOfRevision ''2-v2'' = Fin 2"
    by simp
  have ex: "\<exists>ret s'.
      bulkWrite exampleEnv ?s [?r] = Inr (ret, s') \<and>
      success ret ''a'' = Some (exampleDoc ''a'' ''v2'' ''2-v2'' False) \<and>
      error ret ''a'' = None \<and>
      map_option stripDexieKey (map_of (dexieTable s') ''a'')
        = Some (exampleDoc ''a'' ''v2'' ''2-v2'' False) \<and>
      map_of (dexieDeletedTable s') ''a'' = None \<and>
      map change (filter (\<lambda>ev. documentId ev = ''a'') (bulk_events (last (changes s'))))
        = [\<lparr> change_id = ''a'', operation = INSERT, change_previous = None,
              change_doc = Some (exampleDoc ''a'' ''v2'' ''2-v2'' False) \<rparr>]"
    by (rule exI [of _ ret], rule exI [of _ s'], rule conjI [OF run a])
  show ?thesis
    by (intro conjI h1 h2 h3 h4 h5 h6 h7 ex)
qed

text \<open>
  Claim C7, as stated, fails when the new document is itself deleted: no change is
  produced for the row and the transaction is rejected with \<open>SNH\<close>.
\<close>

theorem bulkWrite_tombstone_delete_counterexample:
  "bulkWrite exampleEnv (exampleInstance [] [(''a'', exampleDoc ''a'' ''v1'' ''1-v1'' True)])
     [\<lparr>document = exampleDoc ''a'' ''v2'' [] True, previous = None\<rparr>] = Inl SNH"
  by (simp add: bulkWrite_def dbAccess_def getDocsInDb_def docInDb_def exampleInstance_def
      exampleDoc_def bulkWriteRow_def bulkWriteUpdate_def Let_def)

section \<open>Deleting a stored document\<close>

lemma delete_step:
  assumes "previous writeRow = Some p" "\<not> doc_deleted p" "doc_rev p = doc_rev documentInDb"
    "doc_deleted (document writeRow)"
  shows "bulkWriteRow e k (writeRow, Some documentInDb) acc =
           (let x = primary (document writeRow);
                newRevision = numberToString
                    (addOne (getHeightOfRevision (doc_rev documentInDb)))
                  @ ''-'' @ createRevision e (document writeRow);
                tombstone = (document writeRow)\<lparr>doc_rev := newRevision, doc_deleted := True,
                              doc_attachments := [], lastWriteAt := None\<rparr>
            in Inr (accPlus acc
                 (\<lparr> bulkPutDocs = [], bulkRemoveDocs = [x],
                    bulkPutDeletedDocs = [(document writeRow)\<lparr>lastWriteAt := Some (now e k),
                                    doc_rev := newRevision, doc_deleted := True,
                                    doc_attachments := []\<rparr>],
                    bulkRemoveDeletedDocs = [], changesIds = [x],
                    events = [\<lparr> eventId = (False, x, newRevision), documentId = x,
                                change = \<lparr> change_id = x, operation = DELETE,
                                           change_previous = Some (p\<lparr>doc_rev := newRevision\<rparr>),
                                           change_doc = None \<rparr>,
                                startTime = now e k, endTime = now e k \<rparr>] \<rparr>,
                  \<lparr> success = [x \<mapsto> tombstone], error = Map.empty \<rparr>)))"
proof -
  note eff = delete_effect [OF assms, unfolded Let_def]
  show ?thesis
    unfolding Let_def
    by (subst bulkWriteRow_InrI [OF eff]) (simp add: stripDexieKey_def)
qed

lemma delete_bulk:
  assumes ret: "bulkWrite e s documentWrites = Inr (ret, s')"
    and one: "filter (\<lambda>r. primary (document r) = x) documentWrites = [writeRow]"
    and inDb: "docInDb s x = Some documentInDb"
    and row: "previous writeRow = Some p" "\<not> doc_deleted p" "doc_rev p = doc_rev documentInDb"
      "doc_deleted (document writeRow)"
  shows "observeAt x (ret, s') =
           (let newRevision = numberToString
                    (addOne (getHeightOfRevision (doc_rev documentInDb)))
                  @ ''-'' @ createRevision e (document writeRow);
                tombstone = (document writeRow)\<lparr>doc_rev := newRevision, doc_deleted := True,
                              doc_attachments := [], lastWriteAt := None\<rparr>
            in ((Some tombstone, None), (None, Some tombstone),
                ([\<lparr> change_id = x, operation = DELETE,
                     change_previous = Some (p\<lparr>doc_rev := newRevision\<rparr>),
                     change_doc = None \<rparr>],
                 filter (\<lambda>k. k = x) (map meta_id (dexieChangesTable s)) @ [x])))"
proof -
  have "writeRow \<in> set (filter (\<lambda>r. primary (document r) = x) documentWrites)"
    by (simp add: one)
  then have px: "primary (document writeRow) = x" by simp
  note eff = delete_effect [OF row, of e 0, unfolded Let_def]
  show ?thesis
    unfolding Let_def
    by (subst bulkWrite_single_observe [OF ret one, unfolded inDb, OF eff],
        subst observeAt_commit)
       (simp add: px map_of_bulkDelete map_of_bulkPut stripDexieKey_def)
qed

text \<open>
  Claim C3. A row of \<open>bulkWrite\<close> that deletes a stored document which is not deleted
  (a \<open>previous\<close> that is not deleted and carries the stored revision, a new document
  that is deleted) adds one event with operation DELETE, no \<open>doc\<close>, and a \<open>previous\<close>
  whose \<open>_rev\<close> is the revision generated for the tombstone; the tombstone with that
  revision is queued for the deleted table. When the row is the only one of its batch
  with that id and the batch returns, the tombstone is what the deleted table holds, the
  live table holds nothing under the id, and the DELETE event is the event of the id in
  the published bulk.
\<close>

theorem bulkWrite_delete_event:
  assumes "docInDb s x = Some documentInDb" and "\<not> doc_deleted documentInDb"
    and "primary (document writeRow) = x" and "previous writeRow = Some p"
    and "\<not> doc_deleted p" and "doc_rev p = doc_rev documentInDb"
    and "doc_deleted (document writeRow)"
  shows
    "let newRevision = numberToString
             (addOne (getHeightOfRevision (doc_rev documentInDb)))
           @ ''-'' @ createRevision e (document writeRow);
         tombstone = (document writeRow)\<lparr>doc_rev := newRevision, doc_deleted := True,
                       doc_attachments := [], lastWriteAt := None\<rparr>;
         chg = \<lparr> change_id = x, operation = DELETE,
                 change_previous = Some (p\<lparr>doc_rev := newRevision\<rparr>), change_doc = None \<rparr>
     in (\<forall>k acc. bulkWriteRow e k (writeRow, Some documentInDb) acc =
           Inr (accPlus acc
                  (\<lparr> bulkPutDocs = [], bulkRemoveDocs = [x],
                     bulkPutDeletedDocs = [(document writeRow)\<lparr>lastWriteAt := Some (now e k),
                                       doc_rev := newRevision, doc_deleted := True,
                                       doc_attachments := []\<rparr>],
                     bulkRemoveDeletedDocs = [], changesIds = [x],
                     events = [\<lparr> eventId = (False, x, newRevision), documentId = x,
                                 change = chg, startTime = now e k, endTime = now e k \<rparr>] \<rparr>,
                   \<lparr> success = [x \<mapsto> tombstone], error = Map.empty \<rparr>))) \<and>
        (\<forall>documentWrites ret s'.
           bulkWrite e s documentWrites = Inr (ret, s') \<and>
           filter (\<lambda>r. primary (document r) = x) documentWrites = [writeRow] \<longrightarrow>
             success ret x = Some tombstone \<and> error ret x = None \<and>
             map_of (dexieTable s') x = None \<and>
             map_option stripDexieKey (map_of (dexieDeletedTable s') x) = Some tombstone \<and>
             map change (filter (\<lambda>ev. documentId ev = x) (bulk_events (last (changes s'))))
               = [chg]) \<and>
        (\<not> dexieDbClosed s \<longrightarrow> (\<exists>ret s'. bulkWrite e s [writeRow] = Inr (ret, s')))"
proof -
  note row = assms(4) assms(5) assms(6) assms(7)
  have step: "\<forall>k acc. bulkWriteRow e k (writeRow, Some documentInDb) acc = Inr (accPlus acc
       (\<lparr> bulkPutDocs = [], bulkRemoveDocs = [x],
          bulkPutDeletedDocs = [(document writeRow)\<lparr>lastWriteAt := Some (now e k),
              doc_rev := numberToString
                 (addOne (getHeightOfRevision (doc_rev documentInDb)))
                 @ ''-'' @ createRevision e (document writeRow), doc_deleted := True,
              doc_attachments := []\<rparr>],
          bulkRemoveDeletedDocs = [], changesIds = [x],
          events = [\<lparr> eventId = (False, x, numberToString
                 (addOne (getHeightOfRevision (doc_rev documentInDb)))
                 @ ''-'' @ createRevision e (document writeRow)), documentId = x,
              change = \<lparr> change_id = x, operation = DELETE,
                 change_previous = Some (p\<lparr>doc_rev := numberToString
                     (addOne (getHeightOfRevision (doc_rev documentInDb)))
                     @ ''-'' @ createRevision e (document writeRow)\<rparr>),
                 change_doc = None \<rparr>,
              startTime = now e k, endTime = now e k \<rparr>] \<rparr>,
        \<lparr> success = [x \<mapsto> (document writeRow)\<lparr>doc_rev := numberToString
                     (addOne (getHeightOfRevision (doc_rev documentInDb)))
                     @ ''-'' @ createRevision e (document writeRow), doc_deleted := True,
                   doc_attachments := [], lastWriteAt := None\<rparr>], error = Map.empty \<rparr>))"
    using delete_step [OF row, of e]
    by (simp add: Let_def assms(3))
  have bulk: "\<forall>documentWrites ret s'.
           bulkWrite e s documentWrites = Inr (ret, s') \<and>
           filter (\<lambda>r. primary (document r) = x) documentWrites = [writeRow] \<longrightarrow>
             success ret x = Some ((document writeRow)\<lparr>doc_rev := numberToString
                     (addOne (getHeightOfRevision (doc_rev documentInDb)))
                     @ ''-'' @ createRevision e (document writeRow), doc_deleted := True,
                   doc_attachments := [], lastWriteAt := None\<rparr>) \<and> error ret x = None \<and>
             map_of (dexieTable s') x = None \<and>
             map_option stripDexieKey (map_of (dexieDeletedTable s') x) =
               Some ((document writeRow)\<lparr>doc_rev := numberToString
                     (addOne (getHeightOfRevision (doc_rev documentInDb)))
                     @ ''-'' @ createRevision e (document writeRow), doc_deleted := True,
                   doc_attachments := [], lastWriteAt := None\<rparr>) \<and>
             map change (filter (\<lambda>ev. documentId ev = x) (bulk_events (last (changes s'))))
               = [\<lparr> change_id = x, operation = DELETE,
                 change_previous = Some (p\<lparr>doc_rev := numberToString
                     (addOne (getHeightOfRevision (doc_rev documentInDb)))
                     @ ''-'' @ createRevision e (document writeRow)\<rparr>),
                 change_doc = None \<rparr>]"
  proof (intro allI impI, elim conjE)
    fix documentWrites ret s'
    assume "bulkWrite e s documentWrites = Inr (ret, s')"
      "filter (\<lambda>r. primary (document r) = x) documentWrites = [writeRow]"
    from delete_bulk [OF this assms(1) row] show
      "success ret x = Some ((document writeRow)\<lparr>doc_rev := numberToString
                     (addOne (getHeightOfRevision (doc_rev documentInDb)))
                     @ ''-'' @ createRevision e (document writeRow), doc_deleted := True,
                   doc_attachments := [], lastWriteAt := None\<rparr>) \<and> error ret x = None \<and>
             map_of (dexieTable s') x = None \<and>
             map_option stripDexieKey (map_of (dexieDeletedTable s') x) =
               Some ((document writeRow)\<lparr>doc_rev := numberToString
                     (addOne (getHeightOfRevision (doc_rev documentInDb)))
                     @ ''-'' @ createRevision e (document writeRow), doc_deleted := True,
                   doc_attachments := [], lastWriteAt := None\<rparr>) \<and>
             map change (filter (\<lambda>ev. documentId ev = x) (bulk_events (last (changes s'))))
               = [\<lparr> change_id = x, operation = DELETE,
                 change_previous = Some (p\<lparr>doc_rev := numberToString
                     (addOne (getHeightOfRevision (doc_rev documentInDb)))
                     @ ''-'' @ createRevision e (document writeRow)\<rparr>),
                 change_doc = None \<rparr>]"
      by (simp add: observeAt_def Let_def)
  qed
  have single: "\<not> dexieDbClosed s \<longrightarrow> (\<exists>ret s'. bulkWrite e s [writeRow] = Inr (ret, s'))"
  proof
    assume op: "\<not> dexieDbClosed s"
    from bulkWrite_single [OF op, of e writeRow, unfolded assms(3) assms(1),
        OF delete_effect [OF row, unfolded Let_def]]
    show "\<exists>ret s'. bulkWrite e s [writeRow] = Inr (ret, s')"
      by blast
  qed
  show ?thesis
    unfolding Let_def by (intro conjI step bulk single)
qed


text \<open>
  The theorem at scenario 3 of the specification: the document stored as \<open>2-v2\<close> is
  deleted, and the DELETE event carries \<open>3-v2\<close> in its \<open>previous\<close>.
\<close>

theorem bulkWrite_delete_event_witness:
  "docInDb (exampleInstance [(''a'', exampleDoc ''a'' ''v2'' ''2-v2'' False)] []) ''a''
     = Some (exampleDoc ''a'' ''v2'' ''2-v2'' False) \<and>
   \<not> doc_deleted (exampleDoc ''a'' ''v2'' ''2-v2'' False) \<and>
   doc_rev (exampleDoc ''a'' ''v2'' ''2-v2'' False) = doc_rev (exampleDoc ''a'' ''v2'' ''2-v2'' False) \<and>
   doc_deleted (exampleDoc ''a'' ''v2'' [] True) \<and>
   (\<exists>ret s'.
      bulkWrite exampleEnv (exampleInstance [(''a'', exampleDoc ''a'' ''v2'' ''2-v2'' False)] [])
        [\<lparr>document = exampleDoc ''a'' ''v2'' [] True,
          previous = Some (exampleDoc ''a'' ''v2'' ''2-v2'' False)\<rparr>] = Inr (ret, s') \<and>
      success ret ''a'' = Some (exampleDoc ''a'' ''v2'' ''3-v2'' True) \<and>
      error ret ''a'' = None \<and>
      map_of (dexieTable s') ''a'' = None \<and>
      map_option stripDexieKey (map_of (dexieDeletedTable s') ''a'')
        = Some (exampleDoc ''a'' ''v2'' ''3-v2'' True) \<and>
      map change (filter (\<lambda>ev. documentId ev = ''a'') (bulk_events (last (changes s'))))
        = [\<lparr> change_id = ''a'', operation = DELETE,
              change_previous = Some (exampleDoc ''a'' ''v2'' ''3-v2'' False),
              change_doc = None \<rparr>])"
proof -
  let ?p = "exampleDoc ''a'' ''v2'' ''2-v2'' False"
  let ?s = "exampleInstance [(''a'', ?p)] []"
  let ?r = "\<lparr>document = exampleDoc ''a'' ''v2'' [] True, previous = Some ?p\<rparr>"
  have h1: "docInDb ?s ''a'' = Some ?p"
    by (simp add: docInDb_def exampleInstance_def)
  have h2: "\<not> doc_deleted ?p"
    by (simp add: exampleDoc_def)
  have h3: "primary (document ?r) = ''a''"
    by (simp add: exampleDoc_def)
  have h4: "previous ?r = Some ?p"
    by simp
  have h6: "doc_rev ?p = doc_rev ?p"
    by simp
  have h7: "doc_deleted (document ?r)"
    by (simp add: exampleDoc_def)
  have h7': "doc_deleted (exampleDoc ''a'' ''v2'' [] True)"
    by (simp add: exampleDoc_def)
  have op: "\<not> dexieDbClosed ?s"
    by (simp add: exampleInstance_def)
  have nr: "numberToString (addOne (getHeightOfRevision (doc_rev ?p)))
             @ ''-'' @ createRevision exampleEnv (document ?r) = ''3-v2''"
    by code_simp
  have wd: "(document ?r)\<lparr>doc_rev := ''3-v2'', doc_deleted := True, doc_attachments := [],
               lastWriteAt := None\<rparr> = exampleDoc ''a'' ''v2'' ''3-v2'' True"
    by (simp add: exampleDoc_def)
  have pd: "?p\<lparr>doc_rev := ''3-v2''\<rparr> = exampleDoc ''a'' ''v2'' ''3-v2'' False"
    by (simp add: exampleDoc_def)
  note t = bulkWrite_delete_event [OF h1 h2 h3 h4 h2 h6 h7, of exampleEnv,
      unfolded Let_def nr wd pd]
  from t op obtain ret s' where
    run: "bulkWrite exampleEnv ?s [?r] = Inr (ret, s')"
    by blast
  have one: "filter (\<lambda>r. primary (document r) = ''a'') [?r] = [?r]"
    by (simp add: exampleDoc_def)
  from t run one have a:
    "success ret ''a'' = Some (exampleDoc ''a'' ''v2'' ''3-v2'' True) \<and>
      error ret ''a'' = None \<and>
      map_of (dexieTable s') ''a'' = None \<and>
      map_option stripDexieKey (map_of (dexieDeletedTable s') ''a'')
        = Some (exampleDoc ''a'' ''v2'' ''3-v2'' True) \<and>
      map change (filter (\<lambda>ev. documentId ev = ''a'') (bulk_events (last (changes s'))))
        = [\<lparr> change_id = ''a'', operation = DELETE,
              change_previous = Some (exampleDoc ''a'' ''v2'' ''3-v2'' False),
              change_doc = None \<rparr>]"
    by blast
  have ex: "\<exists>ret s'.
      bulkWrite exampleEnv ?s [?r] = Inr (ret, s') \<and>
      success ret ''a'' = Some (exampleDoc ''a'' ''v2'' ''3-v2'' True) \<and>
      error ret ''a'' = None \<and>
      map_of (dexieTable s') ''a'' = None \<and>
      map_option stripDexieKey (map_of (dexieDeletedTable s') ''a'')
        = Some (exampleDoc ''a'' ''v2'' ''3-v2'' True) \<and>
      map change (filter (\<lambda>ev. documentId ev = ''a'') (bulk_events (last (changes s'))))
        = [\<lparr> change_id = ''a'', operation = DELETE,
              change_previous = Some (exampleDoc ''a'' ''v2'' ''3-v2'' False),
              change_doc = None \<rparr>]"
    by (rule exI [of _ ret], rule exI [of _ s'], rule conjI [OF run a])
  show ?thesis
    by (intro conjI h1 h2 h6 h7' ex)
qed

section \<open>Conflicts reported per row\<close>

lemma conflict_bulk:
  assumes ret: "bulkWrite e s documentWrites = Inr (ret, s')"
    and one: "filter (\<lambda>r. primary (document r) = x) documentWrites = [writeRow]"
    and inDb: "docInDb s x = Some documentInDb"
    and c: "(previous writeRow = None \<and> \<not> doc_deleted documentInDb) \<or>
            (\<exists>p. previous writeRow = Some p \<and> doc_rev p \<noteq> doc_rev documentInDb)"
  shows "error ret x = Some \<lparr> isError = True, status = 409, err_documentId = x,
                              err_writeRow = writeRow \<rparr> \<and>
         success ret x = None \<and>
         map_of (dexieTable s') x = map_of (dexieTable s) x \<and>
         map_of (dexieDeletedTable s') x = map_of (dexieDeletedTable s) x \<and>
         filter (\<lambda>ev. documentId ev = x) (bulk_events (last (changes s'))) = [] \<and>
         filter (\<lambda>k. k = x) (map meta_id (dexieChangesTable s')) =
           filter (\<lambda>k. k = x) (map meta_id (dexieChangesTable s))"
proof -
  have "writeRow \<in> set (filter (\<lambda>r. primary (document r) = x) documentWrites)"
    by (simp add: one)
  then have px: "primary (document writeRow) = x" by simp
  note eff = conflict_effect [OF c, of e 0]
  from bulkWrite_single_view [OF ret one, unfolded inDb, OF eff] obtain acc where
    v: "viewAt x acc = viewAt x (emptyBatch,
          \<lparr> success = Map.empty,
            error = [primary (document writeRow) \<mapsto>
              \<lparr> isError = True, status = 409,
                err_documentId = primary (document writeRow), err_writeRow = writeRow \<rparr>] \<rparr>)" and
    r: "ret = snd acc" and
    s': "s' = changesNext
                \<lparr> bulk_id = randomCouchString e,
                  bulk_events = stampEndTime (now e (length documentWrites)) (events (fst acc)) \<rparr>
                (bulkWriteCommit (fst acc) s)"
    by blast
  from v have parts:
    "filter (\<lambda>d. primary d = x) (bulkPutDocs (fst acc)) = []"
    "filter (\<lambda>k. k = x) (bulkRemoveDocs (fst acc)) = []"
    "filter (\<lambda>d. primary d = x) (bulkPutDeletedDocs (fst acc)) = []"
    "filter (\<lambda>k. k = x) (bulkRemoveDeletedDocs (fst acc)) = []"
    "filter (\<lambda>k. k = x) (changesIds (fst acc)) = []"
    "filter (\<lambda>ev. documentId ev = x) (events (fst acc)) = []"
    "success (snd acc) x = None"
    "error (snd acc) x = Some \<lparr> isError = True, status = 409, err_documentId = x,
                              err_writeRow = writeRow \<rparr>"
    by (simp_all add: viewAt_def emptyBatch_def px)
  have ev: "filter (\<lambda>ev. documentId ev = x) (stampEndTime t (events (fst acc))) = []" for t
    using parts(6) by (simp add: stampEndTime_def filter_map comp_def)
  show ?thesis
    using parts ev
    by (simp add: r s' changesNext_def bulkWriteCommit_tables map_of_bulkDelete map_of_bulkPut)
qed


text \<open>
  Claim C5. A row of \<open>bulkWrite\<close> whose id is in storage and which either has no
  \<open>previous\<close> while the stored document is not deleted, or has a \<open>previous\<close> whose
  \<open>_rev\<close> is not the stored one, records an error with status 409 under its id and
  leaves the batched table operations, the change ids, the events and the success map
  as they were; it does not throw, and the loop goes on with the rows that follow. Every
  batch that holds such a row and returns has an error with status 409 under that id in
  the returned error map. When the row is the only one of its batch with that id, the
  error is the row's own, the id has no success entry, both tables hold under the id what
  they held, the published bulk has no event for it and no row for it is added to the
  changes table.
\<close>

theorem bulkWrite_conflict_409:
  assumes "docInDb s x = Some documentInDb" and "primary (document writeRow) = x"
    and "(previous writeRow = None \<and> \<not> doc_deleted documentInDb) \<or>
         (\<exists>p. previous writeRow = Some p \<and> doc_rev p \<noteq> doc_rev documentInDb)"
  shows
    "let err = \<lparr> isError = True, status = 409, err_documentId = x, err_writeRow = writeRow \<rparr>
     in (\<forall>k acc. bulkWriteRow e k (writeRow, Some documentInDb) acc =
           Inr (fst acc, (snd acc)\<lparr>error := (error (snd acc))(x \<mapsto> err)\<rparr>)) \<and>
        (\<forall>k rest acc. bulkWriteRows e k ((writeRow, Some documentInDb) # rest) acc =
           bulkWriteRows e (Suc k) rest
             (fst acc, (snd acc)\<lparr>error := (error (snd acc))(x \<mapsto> err)\<rparr>)) \<and>
        (\<forall>documentWrites ret s'.
           bulkWrite e s documentWrites = Inr (ret, s') \<and> writeRow \<in> set documentWrites \<longrightarrow>
             (\<exists>err'. error ret x = Some err' \<and> status err' = 409 \<and>
                     err_documentId err' = x \<and> isError err')) \<and>
        (\<forall>documentWrites ret s'.
           bulkWrite e s documentWrites = Inr (ret, s') \<and>
           filter (\<lambda>r. primary (document r) = x) documentWrites = [writeRow] \<longrightarrow>
             error ret x = Some err \<and> success ret x = None \<and>
             map_of (dexieTable s') x = map_of (dexieTable s) x \<and>
             map_of (dexieDeletedTable s') x = map_of (dexieDeletedTable s) x \<and>
             filter (\<lambda>ev. documentId ev = x) (bulk_events (last (changes s'))) = [] \<and>
             filter (\<lambda>k. k = x) (map meta_id (dexieChangesTable s')) =
               filter (\<lambda>k. k = x) (map meta_id (dexieChangesTable s)))"
proof -
  note c = assms(3)
  have step: "\<forall>k acc. bulkWriteRow e k (writeRow, Some documentInDb) acc =
           Inr (fst acc, (snd acc)\<lparr>error := (error (snd acc))(x \<mapsto>
              \<lparr> isError = True, status = 409, err_documentId = x, err_writeRow = writeRow \<rparr>)\<rparr>)"
    using conflict_step [OF c, of e] by (simp add: assms(2))
  have loop: "\<forall>k rest acc. bulkWriteRows e k ((writeRow, Some documentInDb) # rest) acc =
           bulkWriteRows e (Suc k) rest
             (fst acc, (snd acc)\<lparr>error := (error (snd acc))(x \<mapsto>
              \<lparr> isError = True, status = 409, err_documentId = x, err_writeRow = writeRow \<rparr>)\<rparr>)"
    using step by simp
  have anywhere: "\<forall>documentWrites ret s'.
           bulkWrite e s documentWrites = Inr (ret, s') \<and> writeRow \<in> set documentWrites \<longrightarrow>
             (\<exists>err'. error ret x = Some err' \<and> status err' = 409 \<and>
                     err_documentId err' = x \<and> isError err')"
  proof (intro allI impI, elim conjE)
    fix documentWrites ret s'
    assume ret: "bulkWrite e s documentWrites = Inr (ret, s')"
      and mem: "writeRow \<in> set documentWrites"
    from bulkWrite_InrD [OF ret] obtain acc where
      run: "bulkWriteRows e 0 (map (\<lambda>r. (r, docInDb s (primary (document r)))) documentWrites)
              (emptyBatch, emptyResponse) = Inr acc" and
      r: "ret = snd acc"
      by blast
    from mem have "(writeRow, Some documentInDb) \<in>
        set (map (\<lambda>r. (r, docInDb s (primary (document r)))) documentWrites)"
      using assms(1) assms(2) by force
    from conflictAt_reached [OF run this c] r
    show "\<exists>err'. error ret x = Some err' \<and> status err' = 409 \<and>
                     err_documentId err' = x \<and> isError err'"
      by (simp add: conflictAt_def assms(2))
  qed
  have alone: "\<forall>documentWrites ret s'.
           bulkWrite e s documentWrites = Inr (ret, s') \<and>
           filter (\<lambda>r. primary (document r) = x) documentWrites = [writeRow] \<longrightarrow>
             error ret x = Some \<lparr> isError = True, status = 409, err_documentId = x,
                                  err_writeRow = writeRow \<rparr> \<and> success ret x = None \<and>
             map_of (dexieTable s') x = map_of (dexieTable s) x \<and>
             map_of (dexieDeletedTable s') x = map_of (dexieDeletedTable s) x \<and>
             filter (\<lambda>ev. documentId ev = x) (bulk_events (last (changes s'))) = [] \<and>
             filter (\<lambda>k. k = x) (map meta_id (dexieChangesTable s')) =
               filter (\<lambda>k. k = x) (map meta_id (dexieChangesTable s))"
  proof (intro allI impI, elim conjE)
    fix documentWrites ret s'
    assume "bulkWrite e s documentWrites = Inr (ret, s')"
      "filter (\<lambda>r. primary (document r) = x) documentWrites = [writeRow]"
    from conflict_bulk [OF this assms(1) c]
    show "error ret x = Some \<lparr> isError = True, status = 409, err_documentId = x,
                                  err_writeRow = writeRow \<rparr> \<and> success ret x = None \<and>
             map_of (dexieTable s') x = map_of (dexieTable s) x \<and>
             map_of (dexieDeletedTable s') x = map_of (dexieDeletedTable s) x \<and>
             filter (\<lambda>ev. documentId ev = x) (bulk_events (last (changes s'))) = [] \<and>
             filter (\<lambda>k. k = x) (map meta_id (dexieChangesTable s')) =
               filter (\<lambda>k. k = x) (map meta_id (dexieChangesTable s))" .
  qed
  show ?thesis
    unfolding Let_def by (intro conjI step loop anywhere alone)
qed


text \<open>
  The theorem at scenario 1 of the specification, in a batch with a second row: the row
  for \<open>a\<close> comes again without a previous and gets 409, the batch returns, and the
  stored document is untouched.
\<close>

theorem bulkWrite_conflict_409_witness:
  "docInDb (exampleInstance [(''a'', exampleDoc ''a'' ''v1'' ''1-v1'' False)] []) ''a''
     = Some (exampleDoc ''a'' ''v1'' ''1-v1'' False) \<and>
   previous \<lparr>document = exampleDoc ''a'' ''v1'' [] False, previous = None\<rparr> = None \<and>
   \<not> doc_deleted (exampleDoc ''a'' ''v1'' ''1-v1'' False) \<and>
   (\<exists>ret s'.
      bulkWrite exampleEnv (exampleInstance [(''a'', exampleDoc ''a'' ''v1'' ''1-v1'' False)] [])
        [\<lparr>document = exampleDoc ''a'' ''v1'' [] False, previous = None\<rparr>,
         \<lparr>document = exampleDoc ''b'' ''w'' [] False, previous = None\<rparr>] = Inr (ret, s') \<and>
      error ret ''a'' = Some \<lparr> isError = True, status = 409, err_documentId = ''a'',
          err_writeRow = \<lparr>document = exampleDoc ''a'' ''v1'' [] False, previous = None\<rparr> \<rparr> \<and>
      success ret ''a'' = None \<and>
      map_of (dexieTable s') ''a'' = Some (exampleDoc ''a'' ''v1'' ''1-v1'' False) \<and>
      filter (\<lambda>ev. documentId ev = ''a'') (bulk_events (last (changes s'))) = [])"
proof -
  let ?d = "exampleDoc ''a'' ''v1'' ''1-v1'' False"
  let ?s = "exampleInstance [(''a'', ?d)] []"
  let ?rA = "\<lparr>document = exampleDoc ''a'' ''v1'' [] False, previous = None\<rparr>"
  let ?rB = "\<lparr>document = exampleDoc ''b'' ''w'' [] False, previous = None\<rparr>"
  have h1: "docInDb ?s ''a'' = Some ?d"
    by (simp add: docInDb_def exampleInstance_def)
  have h2: "primary (document ?rA) = ''a''"
    by (simp add: exampleDoc_def)
  have h3a: "previous ?rA = None"
    by simp
  have h3b: "\<not> doc_deleted ?d"
    by (simp add: exampleDoc_def)
  have h3: "(previous ?rA = None \<and> \<not> doc_deleted ?d) \<or>
            (\<exists>p. previous ?rA = Some p \<and> doc_rev p \<noteq> doc_rev ?d)"
    using h3a h3b by blast
  have "\<not> isl (bulkWrite exampleEnv ?s [?rA, ?rB])"
    by code_simp
  then obtain ret s' where run: "bulkWrite exampleEnv ?s [?rA, ?rB] = Inr (ret, s')"
    by (cases "bulkWrite exampleEnv ?s [?rA, ?rB]") auto
  have one: "filter (\<lambda>r. primary (document r) = ''a'') [?rA, ?rB] = [?rA]"
    by (simp add: exampleDoc_def)
  have old: "map_of (dexieTable ?s) ''a'' = Some ?d"
    by (simp add: exampleInstance_def)
  note t = bulkWrite_conflict_409 [OF h1 h2 h3, of exampleEnv, unfolded Let_def]
  from t run one old have a:
    "error ret ''a'' = Some \<lparr> isError = True, status = 409, err_documentId = ''a'',
          err_writeRow = ?rA \<rparr> \<and>
      success ret ''a'' = None \<and>
      map_of (dexieTable s') ''a'' = Some ?d \<and>
      filter (\<lambda>ev. documentId ev = ''a'') (bulk_events (last (changes s'))) = []"
    by metis
  have ex: "\<exists>ret s'.
      bulkWrite exampleEnv ?s [?rA, ?rB] = Inr (ret, s') \<and>
      error ret ''a'' = Some \<lparr> isError = True, status = 409, err_documentId = ''a'',
          err_writeRow = ?rA \<rparr> \<and>
      success ret ''a'' = None \<and>
      map_of (dexieTable s') ''a'' = Some ?d \<and>
      filter (\<lambda>ev. documentId ev = ''a'') (bulk_events (last (changes s'))) = []"
    by (rule exI [of _ ret], rule exI [of _ s'], rule conjI [OF run a])
  show ?thesis
    by (intro conjI h1 h3a h3b ex)
qed

section \<open>Two rows for one new id\<close>

lemma insert_effect:
  "bulkWriteRow e k (writeRow, None) (emptyBatch, emptyResponse) =
     (let x = primary (document writeRow);
          newRevision = ''1-'' @ createRevision e (document writeRow);
          writeDoc = (document writeRow)\<lparr>doc_rev := newRevision,
                        doc_deleted := doc_deleted (document writeRow), doc_attachments := []\<rparr>
      in Inr (\<lparr> bulkPutDocs = (if doc_deleted (document writeRow) then []
                                  else [writeDoc\<lparr>lastWriteAt := Some (now e k)\<rparr>]),
                bulkRemoveDocs = [],
                bulkPutDeletedDocs = (if doc_deleted (document writeRow)
                                      then [writeDoc\<lparr>lastWriteAt := Some (now e k)\<rparr>] else []),
                bulkRemoveDeletedDocs = [], changesIds = [x],
                events = (if doc_deleted (document writeRow) then []
                          else [\<lparr> eventId = (False, x, newRevision), documentId = x,
                                   change = \<lparr> change_id = x, operation = INSERT,
                                              change_previous = None,
                                              change_doc = Some writeDoc \<rparr>,
                                   startTime = now e k, endTime = now e k \<rparr>]) \<rparr>,
              \<lparr> success = [x \<mapsto> writeDoc], error = Map.empty \<rparr>))"
  by (simp add: bulkWriteRow_def bulkWriteInsert_def Let_def emptyBatch_def emptyResponse_def)

lemma insert_step:
  "bulkWriteRow e k (writeRow, None) acc =
     (let x = primary (document writeRow);
          newRevision = ''1-'' @ createRevision e (document writeRow);
          writeDoc = (document writeRow)\<lparr>doc_rev := newRevision,
                        doc_deleted := doc_deleted (document writeRow), doc_attachments := []\<rparr>
      in Inr (accPlus acc
             (\<lparr> bulkPutDocs = (if doc_deleted (document writeRow) then []
                                  else [writeDoc\<lparr>lastWriteAt := Some (now e k)\<rparr>]),
                bulkRemoveDocs = [],
                bulkPutDeletedDocs = (if doc_deleted (document writeRow)
                                      then [writeDoc\<lparr>lastWriteAt := Some (now e k)\<rparr>] else []),
                bulkRemoveDeletedDocs = [], changesIds = [x],
                events = (if doc_deleted (document writeRow) then []
                          else [\<lparr> eventId = (False, x, newRevision), documentId = x,
                                   change = \<lparr> change_id = x, operation = INSERT,
                                              change_previous = None,
                                              change_doc = Some writeDoc \<rparr>,
                                   startTime = now e k, endTime = now e k \<rparr>]) \<rparr>,
              \<lparr> success = [x \<mapsto> writeDoc], error = Map.empty \<rparr>)))"
  unfolding Let_def
  by (rule bulkWriteRow_InrI [OF insert_effect [unfolded Let_def]])

lemma insert2_bulk:
  assumes ret: "bulkWrite e s documentWrites = Inr (ret, s')"
    and two: "filter (\<lambda>r. primary (document r) = x) documentWrites = [r1, r2]"
    and inDb: "docInDb s x = None"
  shows "fst (observeAt x (ret, s')) =
           (Some ((document r2)\<lparr>doc_rev := ''1-'' @ createRevision e (document r2),
                     doc_deleted := doc_deleted (document r2), doc_attachments := []\<rparr>), None) \<and>
         snd (snd (observeAt x (ret, s'))) =
           (map (\<lambda>r. \<lparr> change_id = x, operation = INSERT, change_previous = None,
                        change_doc = Some ((document r)\<lparr>doc_rev := ''1-'' @ createRevision e (document r),
                           doc_deleted := doc_deleted (document r), doc_attachments := []\<rparr>) \<rparr>)
              (filter (\<lambda>r. \<not> doc_deleted (document r)) [r1, r2]),
            filter (\<lambda>k. k = x) (map meta_id (dexieChangesTable s)) @ [x, x])"
proof -
  have "set [r1, r2] = set (filter (\<lambda>r. primary (document r) = x) documentWrites)"
    by (simp add: two)
  then have "r1 \<in> set (filter (\<lambda>r. primary (document r) = x) documentWrites)"
    "r2 \<in> set (filter (\<lambda>r. primary (document r) = x) documentWrites)"
    by auto
  then have px: "primary (document r1) = x" "primary (document r2) = x" by simp_all
  from bulkWrite_InrD [OF ret] have op: "\<not> dexieDbClosed s" by blast
  from bulkWrite_restrict [OF ret, of x] two obtain ret0 s0 where
    run: "bulkWrite e s [r1, r2] = Inr (ret0, s0)" and
    obs: "observeAt x (ret, s') = observeAt x (ret0, s0)"
    by auto
  from bulkWrite_InrD [OF run] obtain acc where
    rows: "bulkWriteRows e 0 [(r1, docInDb s (primary (document r1))),
                              (r2, docInDb s (primary (document r2)))]
             (emptyBatch, emptyResponse) = Inr acc" and
    r0: "ret0 = snd acc" and
    s0: "s0 = changesNext
                \<lparr> bulk_id = randomCouchString e,
                  bulk_events = stampEndTime (now e (length [r1, r2])) (events (fst acc)) \<rparr>
                (bulkWriteCommit (fst acc) s)"
    by auto
  from rows have acc:
    "acc = bulkWriteInsert e (now e 1) r2
             (bulkWriteInsert e (now e 0) r1 (emptyBatch, emptyResponse))"
    by (simp add: px inDb bulkWriteRow_def)
  have ev: "map change (filter (\<lambda>ev. documentId ev = x) (bulk_events (last (changes s0)))) =
      map change (filter (\<lambda>ev. documentId ev = x) (events (fst acc)))"
    by (simp add: s0 changesNext_def events_stamped)
  have ids: "filter (\<lambda>k. k = x) (map meta_id (dexieChangesTable s0)) =
      filter (\<lambda>k. k = x) (map meta_id (dexieChangesTable s)) @
      filter (\<lambda>k. k = x) (changesIds (fst acc))"
    by (simp add: s0 changesNext_def bulkWriteCommit_tables)
  show ?thesis
    unfolding obs
    by (simp add: observeAt_def ev ids r0)
       (simp add: acc bulkWriteInsert_def Let_def emptyBatch_def emptyResponse_def px)
qed


text \<open>
  Claim C10. When the rows of a batch that carry the id \<open>x\<close> are two, \<open>r1\<close> before
  \<open>r2\<close>, and \<open>x\<close> is in neither table, each of the two takes the insert branch
  whatever the rows before it have queued (the state is read once, before the loop), and
  each gets a revision of height 1. If the batch returns, there is no error under \<open>x\<close>,
  the success map holds the document of \<open>r2\<close> under \<open>x\<close>, the published bulk holds one
  INSERT event for each of the two rows that is not deleted, in their order, and two rows
  for \<open>x\<close> are added to the changes table.
\<close>

theorem bulkWrite_same_new_id_twice:
  assumes "docInDb s x = None"
    and "bulkWrite e s documentWrites = Inr (ret, s')"
    and "filter (\<lambda>r. primary (document r) = x) documentWrites = [r1, r2]"
  shows
    "let d1 = (document r1)\<lparr>doc_rev := ''1-'' @ createRevision e (document r1),
                 doc_deleted := doc_deleted (document r1), doc_attachments := []\<rparr>;
         d2 = (document r2)\<lparr>doc_rev := ''1-'' @ createRevision e (document r2),
                 doc_deleted := doc_deleted (document r2), doc_attachments := []\<rparr>
     in (\<forall>k acc. bulkWriteRow e k (r1, docInDb s x) acc =
                    Inr (bulkWriteInsert e (now e k) r1 acc)) \<and>
        (\<forall>k acc. bulkWriteRow e k (r2, docInDb s x) acc =
                    Inr (bulkWriteInsert e (now e k) r2 acc)) \<and>
        getHeightOfRevision (doc_rev d1) = Fin 1 \<and>
        getHeightOfRevision (doc_rev d2) = Fin 1 \<and>
        error ret x = None \<and>
        success ret x = Some d2 \<and>
        map change (filter (\<lambda>ev. documentId ev = x) (bulk_events (last (changes s')))) =
          map (\<lambda>d. \<lparr> change_id = x, operation = INSERT, change_previous = None,
                      change_doc = Some d \<rparr>)
            (filter (\<lambda>d. \<not> doc_deleted d) [d1, d2]) \<and>
        filter (\<lambda>k. k = x) (map meta_id (dexieChangesTable s')) =
          filter (\<lambda>k. k = x) (map meta_id (dexieChangesTable s)) @ [x, x]"
proof -
  have steps: "bulkWriteRow e k (r, docInDb s x) acc = Inr (bulkWriteInsert e (now e k) r acc)"
    for k acc r
    by (simp add: bulkWriteRow_def assms(1))
  have h: "getHeightOfRevision (''1-'' @ createRevision e (document r)) = Fin 1" for r
    by (rule getHeightOfRevision_1)
  from insert2_bulk [OF assms(2) assms(3) assms(1)] have obs:
    "success ret x = Some ((document r2)\<lparr>doc_rev := ''1-'' @ createRevision e (document r2),
                     doc_deleted := doc_deleted (document r2), doc_attachments := []\<rparr>)"
    "error ret x = None"
    "map change (filter (\<lambda>ev. documentId ev = x) (bulk_events (last (changes s')))) =
       map (\<lambda>r. \<lparr> change_id = x, operation = INSERT, change_previous = None,
                        change_doc = Some ((document r)\<lparr>doc_rev := ''1-'' @ createRevision e (document r),
                           doc_deleted := doc_deleted (document r), doc_attachments := []\<rparr>) \<rparr>)
              (filter (\<lambda>r. \<not> doc_deleted (document r)) [r1, r2])"
    "filter (\<lambda>k. k = x) (map meta_id (dexieChangesTable s')) =
          filter (\<lambda>k. k = x) (map meta_id (dexieChangesTable s)) @ [x, x]"
    by (simp_all add: observeAt_def)
  show ?thesis
    unfolding Let_def
    using steps h [of r1] h [of r2] obs
    by simp
qed

text \<open>
  The theorem at a batch of three rows on an empty instance, the first and the last for
  \<open>a\<close>: both are inserted with height 1, the success map holds the last one, and the
  bulk has two INSERT events for \<open>a\<close>.
\<close>

theorem bulkWrite_same_new_id_twice_witness:
  "docInDb (exampleInstance [] []) ''a'' = None \<and>
   filter (\<lambda>r. primary (document r) = ''a'')
     [\<lparr>document = exampleDoc ''a'' ''v1'' [] False, previous = None\<rparr>,
      \<lparr>document = exampleDoc ''b'' ''w'' [] False, previous = None\<rparr>,
      \<lparr>document = exampleDoc ''a'' ''v2'' [] False, previous = None\<rparr>]
     = [\<lparr>document = exampleDoc ''a'' ''v1'' [] False, previous = None\<rparr>,
        \<lparr>document = exampleDoc ''a'' ''v2'' [] False, previous = None\<rparr>] \<and>
   (\<exists>ret s'.
      bulkWrite exampleEnv (exampleInstance [] [])
        [\<lparr>document = exampleDoc ''a'' ''v1'' [] False, previous = None\<rparr>,
         \<lparr>document = exampleDoc ''b'' ''w'' [] False, previous = None\<rparr>,
         \<lparr>document = exampleDoc ''a'' ''v2'' [] False, previous = None\<rparr>] = Inr (ret, s') \<and>
      error ret ''a'' = None \<and>
      success ret ''a'' = Some (exampleDoc ''a'' ''v2'' ''1-v2'' False) \<and>
      map change (filter (\<lambda>ev. documentId ev = ''a'') (bulk_events (last (changes s')))) =
        [\<lparr> change_id = ''a'', operation = INSERT, change_previous = None,
            change_doc = Some (exampleDoc ''a'' ''v1'' ''1-v1'' False) \<rparr>,
         \<lparr> change_id = ''a'', operation = INSERT, change_previous = None,
            change_doc = Some (exampleDoc ''a'' ''v2'' ''1-v2'' False) \<rparr>])"
proof -
  let ?s = "exampleInstance [] []"
  let ?r1 = "\<lparr>document = exampleDoc ''a'' ''v1'' [] False, previous = None\<rparr>"
  let ?rb = "\<lparr>document = exampleDoc ''b'' ''w'' [] False, previous = None\<rparr>"
  let ?r2 = "\<lparr>document = exampleDoc ''a'' ''v2'' [] False, previous = None\<rparr>"
  have h1: "docInDb ?s ''a'' = None"
    by (simp add: docInDb_def exampleInstance_def)
  have h3: "filter (\<lambda>r. primary (document r) = ''a'') [?r1, ?rb, ?r2] = [?r1, ?r2]"
    by (simp add: exampleDoc_def)
  have "\<not> isl (bulkWrite exampleEnv ?s [?r1, ?rb, ?r2])"
    by code_simp
  then obtain ret s' where run: "bulkWrite exampleEnv ?s [?r1, ?rb, ?r2] = Inr (ret, s')"
    by (cases "bulkWrite exampleEnv ?s [?r1, ?rb, ?r2]") auto
  have d1: "(document ?r1)\<lparr>doc_rev := ''1-'' @ createRevision exampleEnv (document ?r1),
                 doc_deleted := doc_deleted (document ?r1), doc_attachments := []\<rparr>
            = exampleDoc ''a'' ''v1'' ''1-v1'' False"
    by (simp add: exampleDoc_def exampleEnv_def)
  have d2: "(document ?r2)\<lparr>doc_rev := ''1-'' @ createRevision exampleEnv (document ?r2),
                 doc_deleted := doc_deleted (document ?r2), doc_attachments := []\<rparr>
            = exampleDoc ''a'' ''v2'' ''1-v2'' False"
    by (simp add: exampleDoc_def exampleEnv_def)
  have nd: "\<not> doc_deleted (exampleDoc ''a'' ''v1'' ''1-v1'' False)"
    "\<not> doc_deleted (exampleDoc ''a'' ''v2'' ''1-v2'' False)"
    by (simp_all add: exampleDoc_def)
  note t = bulkWrite_same_new_id_twice [OF h1 run h3, unfolded Let_def d1 d2]
  from t nd have a:
    "error ret ''a'' = None \<and>
      success ret ''a'' = Some (exampleDoc ''a'' ''v2'' ''1-v2'' False) \<and>
      map change (filter (\<lambda>ev. documentId ev = ''a'') (bulk_events (last (changes s')))) =
        [\<lparr> change_id = ''a'', operation = INSERT, change_previous = None,
            change_doc = Some (exampleDoc ''a'' ''v1'' ''1-v1'' False) \<rparr>,
         \<lparr> change_id = ''a'', operation = INSERT, change_previous = None,
            change_doc = Some (exampleDoc ''a'' ''v2'' ''1-v2'' False) \<rparr>]"
    by simp
  have ex: "\<exists>ret s'.
      bulkWrite exampleEnv ?s [?r1, ?rb, ?r2] = Inr (ret, s') \<and>
      error ret ''a'' = None \<and>
      success ret ''a'' = Some (exampleDoc ''a'' ''v2'' ''1-v2'' False) \<and>
      map change (filter (\<lambda>ev. documentId ev = ''a'') (bulk_events (last (changes s')))) =
        [\<lparr> change_id = ''a'', operation = INSERT, change_previous = None,
            change_doc = Some (exampleDoc ''a'' ''v1'' ''1-v1'' False) \<rparr>,
         \<lparr> change_id = ''a'', operation = INSERT, change_previous = None,
            change_doc = Some (exampleDoc ''a'' ''v2'' ''1-v2'' False) \<rparr>]"
    by (rule exI [of _ ret], rule exI [of _ s'], rule conjI [OF run a])
  show ?thesis
    by (intro conjI h1 h3 ex)
qed

section \<open>The revision written by an update\<close>

lemma bulkWriteRows_invariant:
  assumes "bulkWriteRows e i rds acc = Inr acc'" and "I acc"
    and "\<And>rd j a a'. rd \<in> set rds \<Longrightarrow> I a \<Longrightarrow> bulkWriteRow e j rd a = Inr a' \<Longrightarrow> I a'"
  shows "I acc'"
  using assms
proof (induction rds arbitrary: i acc)
  case Nil
  then show ?case by simp
next
  case (Cons rd rds)
  from bulkWriteRows_ConsD [OF Cons.prems(1)] obtain acc1 where
    step: "bulkWriteRow e i rd acc = Inr acc1" and
    rest: "bulkWriteRows e (Suc i) rds acc1 = Inr acc'"
    by blast
  have "I acc1"
    using Cons.prems(3) [OF _ Cons.prems(2) step] by simp
  show ?case
  proof (rule Cons.IH [OF rest \<open>I acc1\<close>])
    fix rd' j a a'
    assume "rd' \<in> set rds" "I a" "bulkWriteRow e j rd' a = Inr a'"
    then show "I a'"
      using Cons.prems(3) [of rd' a j a'] by simp
  qed
qed

text \<open>
  Every document that a row for a stored id queues or reports carries the stored height
  plus one and the hash of the row's document.
\<close>

lemma update_effect_rev_case:
  "case bulkWriteRow e j (row, Some E) (emptyBatch, emptyResponse) of
     Inl fault \<Rightarrow> True
   | Inr d \<Rightarrow>
       (\<forall>w. w \<in> set (bulkPutDocs (fst d)) \<or> w \<in> set (bulkPutDeletedDocs (fst d)) \<or>
             success (snd d) y = Some w \<longrightarrow>
             doc_rev w = numberToString (addOne (getHeightOfRevision (doc_rev E)))
                           @ ''-'' @ createRevision e (document row))"
  by (simp add: bulkWriteRow_def bulkWriteUpdate_def Let_def emptyBatch_def emptyResponse_def
      stripDexieKey_def split: option.split)

lemma update_effect_rev:
  assumes "bulkWriteRow e j (row, Some E) (emptyBatch, emptyResponse) = Inr d"
    and "w \<in> set (bulkPutDocs (fst d)) \<or> w \<in> set (bulkPutDeletedDocs (fst d)) \<or>
         success (snd d) y = Some w"
  shows "doc_rev w = numberToString (addOne (getHeightOfRevision (doc_rev E)))
                       @ ''-'' @ createRevision e (document row)"
  using update_effect_rev_case [where e = e and j = j and row = row and E = E and y = y] assms
  by auto


lemma effect_other_id:
  assumes "primary (document (fst rd)) \<noteq> x"
    and "bulkWriteRow e i rd (emptyBatch, emptyResponse) = Inr d"
  shows "success (snd d) x = None"
    and "w \<in> set (bulkPutDocs (fst d)) \<Longrightarrow> primary w \<noteq> x"
    and "w \<in> set (bulkPutDeletedDocs (fst d)) \<Longrightarrow> primary w \<noteq> x"
proof -
  from effect_frame [OF assms] have v:
    "filter (\<lambda>d. primary d = x) (bulkPutDocs (fst d)) = []"
    "filter (\<lambda>d. primary d = x) (bulkPutDeletedDocs (fst d)) = []"
    "success (snd d) x = None"
    by (simp_all add: viewAt_def emptyBatch_def emptyResponse_def)
  show "success (snd d) x = None" by (rule v(3))
  show "w \<in> set (bulkPutDocs (fst d)) \<Longrightarrow> primary w \<noteq> x"
    using v(1) by (auto simp: filter_empty_conv)
  show "w \<in> set (bulkPutDeletedDocs (fst d)) \<Longrightarrow> primary w \<noteq> x"
    using v(2) by (auto simp: filter_empty_conv)
qed

lemma accepted_rev_invariant:
  assumes run: "bulkWriteRows e 0 (map (\<lambda>r. (r, docInDb s (primary (document r)))) rows)
                  (emptyBatch, emptyResponse) = Inr acc"
    and inDb: "docInDb s x = Some E"
  shows "\<forall>w. ((w \<in> set (bulkPutDocs (fst acc)) \<or> w \<in> set (bulkPutDeletedDocs (fst acc))) \<and>
              primary w = x) \<or> success (snd acc) x = Some w \<longrightarrow>
             (\<exists>row \<in> set rows. primary (document row) = x \<and>
                doc_rev w = numberToString (addOne (getHeightOfRevision (doc_rev E)))
                              @ ''-'' @ createRevision e (document row))"
    (is "?I acc")
proof (rule bulkWriteRows_invariant [OF run, where I = ?I])
  show "?I (emptyBatch, emptyResponse)"
    by (simp add: emptyBatch_def emptyResponse_def)
next
  fix rd j a a'
  assume mem: "rd \<in> set (map (\<lambda>r. (r, docInDb s (primary (document r)))) rows)"
    and Ia: "?I a" and step: "bulkWriteRow e j rd a = Inr a'"
  from mem obtain row where row: "row \<in> set rows"
    and rd: "rd = (row, docInDb s (primary (document row)))"
    by auto
  from bulkWriteRow_InrD [OF step] obtain d where
    eff: "bulkWriteRow e j rd (emptyBatch, emptyResponse) = Inr d" and
    a': "a' = accPlus a d"
    by blast
  show "?I a'"
  proof (intro allI impI)
    fix w
    assume w: "((w \<in> set (bulkPutDocs (fst a')) \<or> w \<in> set (bulkPutDeletedDocs (fst a'))) \<and>
              primary w = x) \<or> success (snd a') x = Some w"
    let ?goal = "\<exists>row \<in> set rows. primary (document row) = x \<and>
                doc_rev w = numberToString (addOne (getHeightOfRevision (doc_rev E)))
                              @ ''-'' @ createRevision e (document row)"
    from w a' have cases:
      "(((w \<in> set (bulkPutDocs (fst a)) \<or> w \<in> set (bulkPutDeletedDocs (fst a))) \<and>
              primary w = x) \<or> success (snd a) x = Some w) \<or>
       (((w \<in> set (bulkPutDocs (fst d)) \<or> w \<in> set (bulkPutDeletedDocs (fst d))) \<and>
              primary w = x) \<or> success (snd d) x = Some w)"
      by (auto simp: accPlus_def map_add_def split: option.splits)
    then show ?goal
    proof
      assume "((w \<in> set (bulkPutDocs (fst a)) \<or> w \<in> set (bulkPutDeletedDocs (fst a))) \<and>
              primary w = x) \<or> success (snd a) x = Some w"
      with Ia show ?goal by blast
    next
      assume wd: "((w \<in> set (bulkPutDocs (fst d)) \<or> w \<in> set (bulkPutDeletedDocs (fst d))) \<and>
              primary w = x) \<or> success (snd d) x = Some w"
      show ?goal
      proof (cases "primary (document row) = x")
        case False
        then have "primary (document (fst rd)) \<noteq> x" by (simp add: rd)
        from effect_other_id [OF this eff] wd show ?goal by auto
      next
        case True
        with eff rd inDb have
          "bulkWriteRow e j (row, Some E) (emptyBatch, emptyResponse) = Inr d"
          by simp
        from update_effect_rev [OF this, of w x] wd have
          "doc_rev w = numberToString (addOne (getHeightOfRevision (doc_rev E)))
                              @ ''-'' @ createRevision e (document row)"
          by blast
        with row True show ?goal by blast
      qed
    qed
  qed
qed


lemma accepted_effect_case:
  "case bulkWriteRow e j (row, Some E) (emptyBatch, emptyResponse) of
     Inl fault \<Rightarrow> True
   | Inr d \<Rightarrow>
       ((previous row = None \<and> \<not> doc_deleted E) \<or>
        (\<exists>p. previous row = Some p \<and> doc_rev p \<noteq> doc_rev E)) \<or>
       (\<exists>w. success (snd d) (primary (document row)) = Some w)"
  by (simp add: bulkWriteRow_def bulkWriteUpdate_def Let_def emptyBatch_def emptyResponse_def
      split: option.split)

lemma accepted_step:
  assumes step: "bulkWriteRow e k (row, Some E) acc = Inr acc'"
    and ok: "\<not> ((previous row = None \<and> \<not> doc_deleted E) \<or>
                (\<exists>p. previous row = Some p \<and> doc_rev p \<noteq> doc_rev E))"
  shows "\<exists>w. success (snd acc') (primary (document row)) = Some w \<and>
             doc_rev w = numberToString (addOne (getHeightOfRevision (doc_rev E)))
                           @ ''-'' @ createRevision e (document row)"
proof -
  from bulkWriteRow_InrD [OF step] obtain d where
    eff: "bulkWriteRow e k (row, Some E) (emptyBatch, emptyResponse) = Inr d" and
    acc': "acc' = accPlus acc d"
    by blast
  from accepted_effect_case [where e = e and j = k and row = row and E = E] eff ok
  obtain w where w: "success (snd d) (primary (document row)) = Some w"
    by auto
  from update_effect_rev [OF eff, of w "primary (document row)"] w have
    "doc_rev w = numberToString (addOne (getHeightOfRevision (doc_rev E)))
                   @ ''-'' @ createRevision e (document row)"
    by blast
  with w acc' show ?thesis
    by (simp add: accPlus_def map_add_def)
qed

lemma stored_new:
  assumes "map_of (bulkDelete ks (bulkPut ds t)) x = Some d" and "map_of t x \<noteq> Some d"
  shows "d \<in> set ds \<and> primary d = x"
proof -
  from assms have ne: "filter (\<lambda>d. primary d = x) ds \<noteq> []"
    and d: "d = last (filter (\<lambda>d. primary d = x) ds)"
    by (auto simp: map_of_bulkDelete map_of_bulkPut split: if_splits)
  from last_in_set [OF ne] d have "d \<in> set (filter (\<lambda>d. primary d = x) ds)"
    by simp
  then show ?thesis by simp
qed

text \<open>
  What an accepted row queues and reports, and when a row for a stored id returns.
\<close>

lemma accepted_store_case:
  "case bulkWriteRow e j (row, Some E) (emptyBatch, emptyResponse) of
     Inl fault \<Rightarrow> True
   | Inr d \<Rightarrow>
       ((previous row = None \<and> \<not> doc_deleted E) \<or>
        (\<exists>p. previous row = Some p \<and> doc_rev p \<noteq> doc_rev E)) \<or>
       (let newRevision = numberToString (addOne (getHeightOfRevision (doc_rev E)))
                            @ ''-'' @ createRevision e (document row)
        in error (snd d) = Map.empty \<and>
           (if doc_deleted (document row)
            then success (snd d) = [primary (document row) \<mapsto>
                     (document row)\<lparr>doc_rev := newRevision, doc_deleted := True,
                        doc_attachments := [], lastWriteAt := None\<rparr>] \<and>
                 bulkPutDocs (fst d) = [] \<and> bulkRemoveDocs (fst d) = [primary (document row)] \<and>
                 bulkPutDeletedDocs (fst d) =
                   [(document row)\<lparr>lastWriteAt := Some (now e j), doc_rev := newRevision,
                       doc_deleted := True, doc_attachments := []\<rparr>] \<and>
                 bulkRemoveDeletedDocs (fst d) = []
            else success (snd d) = [primary (document row) \<mapsto>
                     (document row)\<lparr>doc_rev := newRevision, doc_deleted := False,
                        doc_attachments := [], lastWriteAt := None\<rparr>] \<and>
                 bulkPutDocs (fst d) =
                   [(document row)\<lparr>lastWriteAt := Some (now e j), doc_rev := newRevision,
                       doc_deleted := False, doc_attachments := []\<rparr>] \<and>
                 bulkRemoveDocs (fst d) = [] \<and> bulkPutDeletedDocs (fst d) = []))"
  by (simp add: bulkWriteRow_def bulkWriteUpdate_def Let_def emptyBatch_def emptyResponse_def
      stripDexieKey_def split: option.split)

lemma same_deleted:
  "doc_deleted r = b \<Longrightarrow>
   r\<lparr>doc_rev := v, doc_deleted := b, doc_attachments := a, lastWriteAt := l\<rparr> =
   r\<lparr>doc_rev := v, doc_attachments := a, lastWriteAt := l\<rparr>"
  by (cases r) simp

lemma accepted_returns_case:
  "case bulkWriteRow e j (row, Some E) (emptyBatch, emptyResponse) of
     Inl fault \<Rightarrow>
       doc_deleted (document row) \<and> \<not> (\<exists>p. previous row = Some p \<and> \<not> doc_deleted p)
   | Inr d \<Rightarrow> True"
  by (simp add: bulkWriteRow_def bulkWriteUpdate_def Let_def emptyBatch_def emptyResponse_def
      split: option.split)

lemma accepted_returns:
  assumes "doc_deleted (document row) \<longrightarrow> (\<exists>p. previous row = Some p \<and> \<not> doc_deleted p)"
  shows "\<exists>d. bulkWriteRow e j (row, Some E) (emptyBatch, emptyResponse) = Inr d"
proof (cases "bulkWriteRow e j (row, Some E) (emptyBatch, emptyResponse)")
  case (Inl fault)
  with accepted_returns_case [where e = e and j = j and row = row and E = E] assms
  show ?thesis by auto
next
  case (Inr d)
  then show ?thesis by simp
qed

lemma accepted_bulk:
  assumes ret: "bulkWrite e s documentWrites = Inr (ret, s')"
    and one: "filter (\<lambda>r. primary (document r) = x) documentWrites = [writeRow]"
    and inDb: "docInDb s x = Some documentInDb"
    and ok: "\<not> ((previous writeRow = None \<and> \<not> doc_deleted documentInDb) \<or>
                (\<exists>p. previous writeRow = Some p \<and> doc_rev p \<noteq> doc_rev documentInDb))"
  shows "let writeDoc = (document writeRow)\<lparr>doc_rev :=
                numberToString (addOne (getHeightOfRevision (doc_rev documentInDb)))
                  @ ''-'' @ createRevision e (document writeRow),
              doc_attachments := [], lastWriteAt := None\<rparr>
         in success ret x = Some writeDoc \<and> error ret x = None \<and>
            (if doc_deleted (document writeRow)
             then map_of (dexieTable s') x = None \<and>
                  map_option stripDexieKey (map_of (dexieDeletedTable s') x) = Some writeDoc
             else map_option stripDexieKey (map_of (dexieTable s') x) = Some writeDoc)"
proof -
  have "writeRow \<in> set (filter (\<lambda>r. primary (document r) = x) documentWrites)"
    by (simp add: one)
  then have px: "primary (document writeRow) = x" by simp
  from bulkWrite_restrict [OF ret, of x] one obtain ret0 s0 where
    run0: "bulkWrite e s [writeRow] = Inr (ret0, s0)"
    by auto
  from bulkWrite_InrD [OF run0] px inDb obtain acc where
    "bulkWriteRows e 0 [(writeRow, Some documentInDb)] (emptyBatch, emptyResponse) = Inr acc"
    by auto
  from bulkWriteRows_ConsD [OF this] obtain d where
    eff: "bulkWriteRow e 0 (writeRow, Some documentInDb) (emptyBatch, emptyResponse) = Inr d"
    by blast
  let ?nr = "numberToString (addOne (getHeightOfRevision (doc_rev documentInDb)))
               @ ''-'' @ createRevision e (document writeRow)"
  from accepted_store_case [where e = e and j = 0 and row = writeRow and E = documentInDb]
    eff ok px
  have d: "error (snd d) = Map.empty"
    "doc_deleted (document writeRow) \<Longrightarrow>
       success (snd d) = [x \<mapsto> (document writeRow)\<lparr>doc_rev := ?nr, doc_deleted := True,
                        doc_attachments := [], lastWriteAt := None\<rparr>] \<and>
       bulkPutDocs (fst d) = [] \<and> bulkRemoveDocs (fst d) = [x] \<and>
       bulkPutDeletedDocs (fst d) = [(document writeRow)\<lparr>lastWriteAt := Some (now e 0),
                doc_rev := ?nr, doc_deleted := True, doc_attachments := []\<rparr>] \<and>
       bulkRemoveDeletedDocs (fst d) = []"
    "\<not> doc_deleted (document writeRow) \<Longrightarrow>
       success (snd d) = [x \<mapsto> (document writeRow)\<lparr>doc_rev := ?nr, doc_deleted := False,
                        doc_attachments := [], lastWriteAt := None\<rparr>] \<and>
       bulkPutDocs (fst d) = [(document writeRow)\<lparr>lastWriteAt := Some (now e 0),
                doc_rev := ?nr, doc_deleted := False, doc_attachments := []\<rparr>] \<and>
       bulkRemoveDocs (fst d) = [] \<and> bulkPutDeletedDocs (fst d) = []"
    by (simp_all add: Let_def)
  have obs: "observeAt x (ret, s') =
     ((success (snd d) x, error (snd d) x),
      (map_option stripDexieKey
         (map_of (bulkDelete (bulkRemoveDocs (fst d)) (bulkPut (bulkPutDocs (fst d)) (dexieTable s))) x),
       map_option stripDexieKey
         (map_of (bulkDelete (bulkRemoveDeletedDocs (fst d))
                    (bulkPut (bulkPutDeletedDocs (fst d)) (dexieDeletedTable s))) x)),
      (map change (filter (\<lambda>ev. documentId ev = x) (events (fst d))),
       filter (\<lambda>k. k = x) (map meta_id (dexieChangesTable s)) @
         filter (\<lambda>k. k = x) (changesIds (fst d))))"
    by (subst bulkWrite_single_observe [OF ret one, unfolded inDb, OF eff],
        subst observeAt_commit) (rule refl)
  show ?thesis
  proof (cases "doc_deleted (document writeRow)")
    case True
    then have "doc_deleted (document writeRow) = True" by simp
    note eq = same_deleted [OF this]
    from obs d(1) d(2) [OF True] True show ?thesis
      by (simp add: observeAt_def Let_def px map_of_bulkDelete map_of_bulkPut stripDexieKey_def
          eq)
  next
    case False
    then have "doc_deleted (document writeRow) = False" by simp
    note eq = same_deleted [OF this]
    from obs d(1) d(3) [OF False] False show ?thesis
      by (simp add: observeAt_def Let_def px map_of_bulkDelete map_of_bulkPut stripDexieKey_def
          eq)
  qed
qed

text \<open>
  Claim C4, with the range that the code needs. For an id that is in storage with the
  document \<open>documentInDb\<close>: a row of \<open>bulkWrite\<close> for it that is accepted (it is no
  conflict and does not throw) reports a document whose revision is the stored height plus
  one as JavaScript computes and prints it, then \<open>-\<close>, then the hash of the row's
  document. In every batch that returns, the document reported under the id in the
  success map, and every document that one of the two tables holds under the id and did
  not hold before, carries such a revision, made from the document of a row of the batch
  for that id; when the stored height is an integer \<open>h\<close> below \<open>2 ^ 53\<close>, the height of
  the new revision is \<open>h + 1\<close>. When the accepted row is the only one of its batch with
  that id and the batch returns, the row's document with the new revision is the success
  of the id and is what storage holds under the id: in the live table when it is not
  deleted, in the deleted table, with nothing left in the live table, when it is. A batch
  of one row for the id returns on an open database, unless the row deletes and brings no
  previous that is not deleted.
\<close>

theorem bulkWrite_update_revision:
  assumes "docInDb (s :: 'b storageInstance) x = Some documentInDb"
  shows
    "(\<forall>writeRow k acc acc'.
        primary (document writeRow) = x \<and>
        bulkWriteRow e k (writeRow, Some documentInDb) acc = Inr acc' \<and>
        \<not> ((previous writeRow = None \<and> \<not> doc_deleted documentInDb) \<or>
           (\<exists>p. previous writeRow = Some p \<and> doc_rev p \<noteq> doc_rev documentInDb)) \<longrightarrow>
          (\<exists>d. success (snd acc') x = Some d \<and>
               doc_rev d = numberToString
                   (addOne (getHeightOfRevision (doc_rev documentInDb)))
                 @ ''-'' @ createRevision e (document writeRow))) \<and>
     (\<forall>documentWrites ret s' d.
        bulkWrite e s documentWrites = Inr (ret, s') \<and>
        (success ret x = Some d \<or>
         (map_of (dexieTable s') x = Some d \<and> map_of (dexieTable s) x \<noteq> Some d) \<or>
         (map_of (dexieDeletedTable s') x = Some d \<and>
          map_of (dexieDeletedTable s) x \<noteq> Some d)) \<longrightarrow>
          (\<exists>writeRow \<in> set documentWrites.
             primary (document writeRow) = x \<and>
             doc_rev d = numberToString
                 (addOne (getHeightOfRevision (doc_rev documentInDb)))
               @ ''-'' @ createRevision e (document writeRow)) \<and>
          (\<forall>h. getHeightOfRevision (doc_rev documentInDb) = Fin h \<and> h < 2 ^ 53 \<longrightarrow>
                getHeightOfRevision (doc_rev d) = Fin (Suc h))) \<and>
     (\<forall>documentWrites ret s' writeRow.
        bulkWrite e s documentWrites = Inr (ret, s') \<and>
        filter (\<lambda>r. primary (document r) = x) documentWrites = [writeRow] \<and>
        \<not> ((previous writeRow = None \<and> \<not> doc_deleted documentInDb) \<or>
           (\<exists>p. previous writeRow = Some p \<and> doc_rev p \<noteq> doc_rev documentInDb)) \<longrightarrow>
          (let writeDoc = (document writeRow)\<lparr>doc_rev :=
                  numberToString (addOne (getHeightOfRevision (doc_rev documentInDb)))
                    @ ''-'' @ createRevision e (document writeRow),
                doc_attachments := [], lastWriteAt := None\<rparr>
           in success ret x = Some writeDoc \<and> error ret x = None \<and>
              (if doc_deleted (document writeRow)
               then map_of (dexieTable s') x = None \<and>
                    map_option stripDexieKey (map_of (dexieDeletedTable s') x) = Some writeDoc
               else map_option stripDexieKey (map_of (dexieTable s') x) = Some writeDoc))) \<and>
     (\<forall>writeRow.
        primary (document writeRow) = x \<and> \<not> dexieDbClosed s \<and>
        (doc_deleted (document writeRow) \<longrightarrow>
           (\<exists>p. previous writeRow = Some p \<and> \<not> doc_deleted p)) \<longrightarrow>
          (\<exists>ret s'. bulkWrite e s [writeRow] = Inr (ret, s')))"
    (is "?A \<and> ?B \<and> ?C \<and> ?D")
proof -
  have a: ?A
  proof (intro allI impI)
    fix writeRow k acc acc'
    assume a: "primary (document writeRow) = x \<and>
          bulkWriteRow e k (writeRow, Some documentInDb) acc = Inr acc' \<and>
          \<not> ((previous writeRow = None \<and> \<not> doc_deleted documentInDb) \<or>
             (\<exists>p. previous writeRow = Some p \<and> doc_rev p \<noteq> doc_rev documentInDb))"
    then have step: "bulkWriteRow e k (writeRow, Some documentInDb) acc = Inr acc'"
      and ok: "\<not> ((previous writeRow = None \<and> \<not> doc_deleted documentInDb) \<or>
             (\<exists>p. previous writeRow = Some p \<and> doc_rev p \<noteq> doc_rev documentInDb))"
      and px: "primary (document writeRow) = x"
      by blast+
    from accepted_step [OF step ok] px
    show "\<exists>d. success (snd acc') x = Some d \<and>
                 doc_rev d = numberToString
                     (addOne (getHeightOfRevision (doc_rev documentInDb)))
                   @ ''-'' @ createRevision e (document writeRow)"
      by simp
  qed
  have b: ?B
  proof (intro conjI allI impI)
    fix documentWrites ret s' d
    assume b: "bulkWrite e s documentWrites = Inr (ret, s') \<and>
          (success ret x = Some d \<or>
           (map_of (dexieTable s') x = Some d \<and> map_of (dexieTable s) x \<noteq> Some d) \<or>
           (map_of (dexieDeletedTable s') x = Some d \<and>
            map_of (dexieDeletedTable s) x \<noteq> Some d))"
    then have ret: "bulkWrite e s documentWrites = Inr (ret, s')" by blast
    from bulkWrite_InrD [OF ret] obtain acc where
      run: "bulkWriteRows e 0 (map (\<lambda>r. (r, docInDb s (primary (document r)))) documentWrites)
              (emptyBatch, emptyResponse) = Inr acc" and
      r: "ret = snd acc" and
      s': "s' = changesNext
                  \<lparr> bulk_id = randomCouchString e,
                    bulk_events = stampEndTime (now e (length documentWrites)) (events (fst acc)) \<rparr>
                  (bulkWriteCommit (fst acc) s)"
      by blast
    have t1: "dexieTable s' =
        bulkDelete (bulkRemoveDocs (fst acc)) (bulkPut (bulkPutDocs (fst acc)) (dexieTable s))"
      and t2: "dexieDeletedTable s' =
        bulkDelete (bulkRemoveDeletedDocs (fst acc))
          (bulkPut (bulkPutDeletedDocs (fst acc)) (dexieDeletedTable s))"
      by (simp_all add: s' changesNext_def bulkWriteCommit_tables)
    from b r t1 t2 stored_new [of _ _ _ x d]
    have "((d \<in> set (bulkPutDocs (fst acc)) \<or> d \<in> set (bulkPutDeletedDocs (fst acc))) \<and>
                primary d = x) \<or> success (snd acc) x = Some d"
      by metis
    with accepted_rev_invariant [OF run assms]
    show rev: "\<exists>writeRow \<in> set documentWrites.
               primary (document writeRow) = x \<and>
               doc_rev d = numberToString
                   (addOne (getHeightOfRevision (doc_rev documentInDb)))
                 @ ''-'' @ createRevision e (document writeRow)"
      by blast
    fix h
    assume "getHeightOfRevision (doc_rev documentInDb) = Fin h \<and> h < 2 ^ 53"
    then have "getHeightOfRevision (doc_rev documentInDb) = Fin h" and "h < 2 ^ 53"
      by simp_all
    from numberToString_height [OF this] rev
    show "getHeightOfRevision (doc_rev d) = Fin (Suc h)"
      by auto
  qed
  have c: ?C
  proof (intro allI impI)
    fix documentWrites ret s' writeRow
    assume c: "bulkWrite e s documentWrites = Inr (ret, s') \<and>
        filter (\<lambda>r. primary (document r) = x) documentWrites = [writeRow] \<and>
        \<not> ((previous writeRow = None \<and> \<not> doc_deleted documentInDb) \<or>
           (\<exists>p. previous writeRow = Some p \<and> doc_rev p \<noteq> doc_rev documentInDb))"
    then have ret: "bulkWrite e s documentWrites = Inr (ret, s')"
      and one: "filter (\<lambda>r. primary (document r) = x) documentWrites = [writeRow]"
      and ok: "\<not> ((previous writeRow = None \<and> \<not> doc_deleted documentInDb) \<or>
           (\<exists>p. previous writeRow = Some p \<and> doc_rev p \<noteq> doc_rev documentInDb))"
      by blast+
    show "let writeDoc = (document writeRow)\<lparr>doc_rev :=
                  numberToString (addOne (getHeightOfRevision (doc_rev documentInDb)))
                    @ ''-'' @ createRevision e (document writeRow),
                doc_attachments := [], lastWriteAt := None\<rparr>
           in success ret x = Some writeDoc \<and> error ret x = None \<and>
              (if doc_deleted (document writeRow)
               then map_of (dexieTable s') x = None \<and>
                    map_option stripDexieKey (map_of (dexieDeletedTable s') x) = Some writeDoc
               else map_option stripDexieKey (map_of (dexieTable s') x) = Some writeDoc)"
      by (rule accepted_bulk [OF ret one assms ok])
  qed
  have d: ?D
  proof (intro allI impI)
    fix writeRow :: "'b writeRow"
    assume d: "primary (document writeRow) = x \<and> \<not> dexieDbClosed s \<and>
        (doc_deleted (document writeRow) \<longrightarrow>
           (\<exists>p. previous writeRow = Some p \<and> \<not> doc_deleted p))"
    then have px: "primary (document writeRow) = x" and op: "\<not> dexieDbClosed s"
      and live: "doc_deleted (document writeRow) \<longrightarrow>
           (\<exists>p. previous writeRow = Some p \<and> \<not> doc_deleted p)"
      by blast+
    from accepted_returns [OF live, of e 0 documentInDb] obtain eff where
      "bulkWriteRow e 0 (writeRow, Some documentInDb) (emptyBatch, emptyResponse) = Inr eff"
      by blast
    with bulkWrite_single [OF op, of e writeRow eff] px assms
    show "\<exists>ret s'. bulkWrite e s [writeRow] = Inr (ret, s')"
      by simp
  qed
  show ?thesis
    by (intro conjI a b c d)
qed

text \<open>
  The theorem at scenario 2 of the specification: the document stored as \<open>1-v1\<close> is
  updated with the matching previous; the batch returns, the accepted document carries
  \<open>2-v2\<close>, and it is what the live table holds.
\<close>

theorem bulkWrite_update_revision_witness:
  "docInDb (exampleInstance [(''a'', exampleDoc ''a'' ''v1'' ''1-v1'' False)] []) ''a''
     = Some (exampleDoc ''a'' ''v1'' ''1-v1'' False) \<and>
   getHeightOfRevision (doc_rev (exampleDoc ''a'' ''v1'' ''1-v1'' False)) = Fin 1 \<and>
   (\<exists>acc' d.
      bulkWriteRow exampleEnv 0
        (\<lparr>document = exampleDoc ''a'' ''v2'' [] False,
          previous = Some (exampleDoc ''a'' ''v1'' ''1-v1'' False)\<rparr>,
         Some (exampleDoc ''a'' ''v1'' ''1-v1'' False))
        (emptyBatch, emptyResponse) = Inr acc' \<and>
      success (snd acc') ''a'' = Some d \<and> doc_rev d = ''2-v2'') \<and>
   (\<exists>ret s'.
      bulkWrite exampleEnv (exampleInstance [(''a'', exampleDoc ''a'' ''v1'' ''1-v1'' False)] [])
        [\<lparr>document = exampleDoc ''a'' ''v2'' [] False,
          previous = Some (exampleDoc ''a'' ''v1'' ''1-v1'' False)\<rparr>] = Inr (ret, s') \<and>
      success ret ''a'' = Some (exampleDoc ''a'' ''v2'' ''2-v2'' False) \<and>
      error ret ''a'' = None \<and>
      map_option stripDexieKey (map_of (dexieTable s') ''a'')
        = Some (exampleDoc ''a'' ''v2'' ''2-v2'' False) \<and>
      getHeightOfRevision (doc_rev (exampleDoc ''a'' ''v2'' ''2-v2'' False)) = Fin 2)"
proof -
  let ?p = "exampleDoc ''a'' ''v1'' ''1-v1'' False"
  let ?n = "exampleDoc ''a'' ''v2'' ''2-v2'' False"
  let ?s = "exampleInstance [(''a'', ?p)] []"
  let ?r = "\<lparr>document = exampleDoc ''a'' ''v2'' [] False, previous = Some ?p\<rparr>"
  have h1: "docInDb ?s ''a'' = Some ?p"
    by (simp add: docInDb_def exampleInstance_def)
  have h2: "getHeightOfRevision (doc_rev ?p) = Fin 1"
    by code_simp
  have px: "primary (document ?r) = ''a''"
    by (simp add: exampleDoc_def)
  have ok: "\<not> ((previous ?r = None \<and> \<not> doc_deleted ?p) \<or>
              (\<exists>q. previous ?r = Some q \<and> doc_rev q \<noteq> doc_rev ?p))"
    by simp
  have op: "\<not> dexieDbClosed ?s"
    by (simp add: exampleInstance_def)
  have live: "doc_deleted (document ?r) \<longrightarrow> (\<exists>q. previous ?r = Some q \<and> \<not> doc_deleted q)"
    by (simp add: exampleDoc_def)
  have nl: "\<not> doc_deleted (document ?r)"
    by (simp add: exampleDoc_def)
  have one: "filter (\<lambda>r. primary (document r) = ''a'') [?r] = [?r]"
    by (simp add: exampleDoc_def)
  have nr: "numberToString (addOne (getHeightOfRevision (doc_rev ?p)))
             @ ''-'' @ createRevision exampleEnv (document ?r) = ''2-v2''"
    by code_simp
  have wd: "(document ?r)\<lparr>doc_rev := ''2-v2'', doc_attachments := [], lastWriteAt := None\<rparr> = ?n"
    by (simp add: exampleDoc_def)
  note t = bulkWrite_update_revision [OF h1, of exampleEnv]
  from t [THEN conjunct2, THEN conjunct2, THEN conjunct2, rule_format,
      OF conjI [OF px conjI [OF op live]]]
  obtain ret s' where run: "bulkWrite exampleEnv ?s [?r] = Inr (ret, s')"
    by blast
  from bulkWrite_InrD [OF run] obtain acc where
    "bulkWriteRows exampleEnv 0 [(?r, docInDb ?s (primary (document ?r)))]
       (emptyBatch, emptyResponse) = Inr acc"
    by auto
  from bulkWriteRows_ConsD [OF this] obtain acc' where
    "bulkWriteRow exampleEnv 0 (?r, docInDb ?s (primary (document ?r)))
       (emptyBatch, emptyResponse) = Inr acc'"
    by blast
  then have step: "bulkWriteRow exampleEnv 0 (?r, Some ?p) (emptyBatch, emptyResponse) = Inr acc'"
    by (simp only: px h1)
  from t [THEN conjunct1, rule_format, OF conjI [OF px conjI [OF step ok]]]
  obtain d where
    d: "success (snd acc') ''a'' = Some d \<and> doc_rev d = ''2-v2''"
    unfolding nr by blast
  have part1: "\<exists>acc' d.
      bulkWriteRow exampleEnv 0 (?r, Some ?p) (emptyBatch, emptyResponse) = Inr acc' \<and>
      success (snd acc') ''a'' = Some d \<and> doc_rev d = ''2-v2''"
    by (rule exI [of _ acc'], rule exI [of _ d], rule conjI [OF step d])
  note t3 = t [THEN conjunct2, THEN conjunct2, THEN conjunct1, rule_format,
      OF conjI [OF run conjI [OF one ok]], unfolded Let_def nr wd if_not_P [OF nl]]
  from t3 have su: "success ret ''a'' = Some ?n"
    and er: "error ret ''a'' = None"
    and st: "map_option stripDexieKey (map_of (dexieTable s') ''a'') = Some ?n"
    by blast+
  note t2 = t [THEN conjunct2, THEN conjunct1, rule_format, OF conjI [OF run disjI1 [OF su]]]
  from t2 have hh: "\<forall>h. getHeightOfRevision (doc_rev ?p) = Fin h \<and> h < 2 ^ 53 \<longrightarrow>
                getHeightOfRevision (doc_rev ?n) = Fin (Suc h)"
    by blast
  from hh h2 have ht: "getHeightOfRevision (doc_rev ?n) = Fin 2"
    by simp
  have part2: "\<exists>ret s'.
      bulkWrite exampleEnv ?s [?r] = Inr (ret, s') \<and>
      success ret ''a'' = Some ?n \<and> error ret ''a'' = None \<and>
      map_option stripDexieKey (map_of (dexieTable s') ''a'') = Some ?n \<and>
      getHeightOfRevision (doc_rev ?n) = Fin 2"
    by (rule exI [of _ ret], rule exI [of _ s'], intro conjI run su er st ht)
  show ?thesis
    by (intro conjI h1 h2 part1 part2)
qed

text \<open>
  Claim C4, as stated, fails from the height \<open>2 ^ 53\<close>: the document stored as
  \<open>9007199254740992-v1\<close> is updated with the matching previous, the update is accepted
  and stored, and its revision is \<open>9007199254740992-v2\<close>, of the same height.
\<close>

theorem bulkWrite_update_height_counterexample:
  "getHeightOfRevision ''9007199254740992-v1'' = Fin 9007199254740992 \<and>
   getHeightOfRevision ''9007199254740992-v2'' = Fin 9007199254740992 \<and>
   (\<exists>ret s'.
      bulkWrite exampleEnv
        (exampleInstance [(''a'', exampleDoc ''a'' ''v1'' ''9007199254740992-v1'' False)] [])
        [\<lparr>document = exampleDoc ''a'' ''v2'' [] False,
          previous = Some (exampleDoc ''a'' ''v1'' ''9007199254740992-v1'' False)\<rparr>]
        = Inr (ret, s') \<and>
      success ret ''a'' = Some (exampleDoc ''a'' ''v2'' ''9007199254740992-v2'' False) \<and>
      map_option stripDexieKey (map_of (dexieTable s') ''a'')
        = Some (exampleDoc ''a'' ''v2'' ''9007199254740992-v2'' False))"
proof -
  let ?p = "exampleDoc ''a'' ''v1'' ''9007199254740992-v1'' False"
  let ?n = "exampleDoc ''a'' ''v2'' ''9007199254740992-v2'' False"
  let ?s = "exampleInstance [(''a'', ?p)] []"
  let ?r = "\<lparr>document = exampleDoc ''a'' ''v2'' [] False, previous = Some ?p\<rparr>"
  have g1: "getHeightOfRevision ''9007199254740992-v1'' = Fin 9007199254740992"
    using height_2_53 [of "''v1''"] by simp
  have g2: "getHeightOfRevision ''9007199254740992-v2'' = Fin 9007199254740992"
    using height_2_53 [of "''v2''"] by simp
  have h1: "docInDb ?s ''a'' = Some ?p"
    by (simp add: docInDb_def exampleInstance_def)
  have px: "primary (document ?r) = ''a''"
    by (simp add: exampleDoc_def)
  have ok: "\<not> ((previous ?r = None \<and> \<not> doc_deleted ?p) \<or>
              (\<exists>q. previous ?r = Some q \<and> doc_rev q \<noteq> doc_rev ?p))"
    by simp
  have op: "\<not> dexieDbClosed ?s"
    by (simp add: exampleInstance_def)
  have live: "doc_deleted (document ?r) \<longrightarrow> (\<exists>q. previous ?r = Some q \<and> \<not> doc_deleted q)"
    by (simp add: exampleDoc_def)
  have nl: "\<not> doc_deleted (document ?r)"
    by (simp add: exampleDoc_def)
  have one: "filter (\<lambda>r. primary (document r) = ''a'') [?r] = [?r]"
    by (simp add: exampleDoc_def)
  have rp: "doc_rev ?p = ''9007199254740992-v1''"
    by (simp add: exampleDoc_def)
  have cr: "createRevision exampleEnv (document ?r) = ''v2''"
    by (simp add: exampleEnv_def exampleDoc_def)
  have nr: "numberToString (addOne (getHeightOfRevision (doc_rev ?p)))
             @ ''-'' @ createRevision exampleEnv (document ?r) = ''9007199254740992-v2''"
    by (simp only: rp g1 addOne_2_53 numberToString_2_53 cr) simp
  have wd: "(document ?r)\<lparr>doc_rev := ''9007199254740992-v2'', doc_attachments := [],
               lastWriteAt := None\<rparr> = ?n"
    by (simp add: exampleDoc_def)
  from accepted_returns [OF live, of exampleEnv 0 ?p] obtain eff where
    "bulkWriteRow exampleEnv 0 (?r, Some ?p) (emptyBatch, emptyResponse) = Inr eff"
    by blast
  then have "bulkWriteRow exampleEnv 0 (?r, docInDb ?s (primary (document ?r)))
               (emptyBatch, emptyResponse) = Inr eff"
    by (simp only: px h1)
  from bulkWrite_single [OF op this] obtain ret s' where
    run: "bulkWrite exampleEnv ?s [?r] = Inr (ret, s')"
    by blast
  note t = accepted_bulk [OF run one h1 ok, unfolded Let_def nr wd if_not_P [OF nl]]
  from t have su: "success ret ''a'' = Some ?n"
    and st: "map_option stripDexieKey (map_of (dexieTable s') ''a'') = Some ?n"
    by blast+
  have ex: "\<exists>ret s'.
      bulkWrite exampleEnv ?s [?r] = Inr (ret, s') \<and>
      success ret ''a'' = Some ?n \<and>
      map_option stripDexieKey (map_of (dexieTable s') ''a'') = Some ?n"
    by (rule exI [of _ ret], rule exI [of _ s'], intro conjI run su st)
  show ?thesis
    by (intro conjI g1 g2 ex)
qed

section \<open>Reading the changes table\<close>

lemma changeMeta_rebuild: "\<lparr> sequence = sequence c, meta_id = meta_id c \<rparr> = (c :: changeMeta)"
  by (cases c) simp

lemma whereSequenceAbove_exact:
  "mset (whereSequenceAbove x t) = filter_mset (\<lambda>c. x < sequence c) (mset t)"
  "sorted (map sequence (whereSequenceAbove x t))"
   by (simp_all add: whereSequenceAbove_def)

lemma whereSequenceBelow_exact:
  "mset (rev (whereSequenceBelow x t)) = filter_mset (\<lambda>c. sequence c < x) (mset t)"
  "sorted (rev (map sequence (rev (whereSequenceBelow x t))))"
   by (simp_all add: whereSequenceBelow_def rev_map)

text \<open>
  Claim C8, with the limit as the code reads it. On an instance whose database handle is
  open, \<open>getChangedDocuments\<close> returns, for direction "after", exactly the rows of the
  changes table with a sequence above \<open>sinceSequence\<close>, in ascending order of sequence,
  and for direction "before" exactly those with a sequence below it, in descending order;
  the list is cut to its first \<open>limit\<close> rows when a limit other than 0 is given, and is
  not cut when the limit is absent or 0. \<open>lastSequence\<close> is \<open>sinceSequence\<close> when the
  returned list is empty, else the sequence of its last row for "after" and of its first
  row for "before". \<open>getChangedDocuments\<close> of the LokiJS instance computes the same from
  its changes collection.
\<close>

theorem getChangedDocuments_result:
  assumes "\<not> dexieDbClosed s"
  shows
    "\<exists>r full.
       getChangedDocuments s options = Inr r \<and>
       lokiGetChangedDocuments (dexieChangesTable s) options = r \<and>
       (opt_direction options = After \<longrightarrow>
          mset full = filter_mset (\<lambda>c. sinceSequence options < sequence c)
                        (mset (dexieChangesTable s)) \<and>
          sorted (map sequence full)) \<and>
       (opt_direction options = Before \<longrightarrow>
          mset full = filter_mset (\<lambda>c. sequence c < sinceSequence options)
                        (mset (dexieChangesTable s)) \<and>
          sorted (rev (map sequence full))) \<and>
       changedDocuments r =
         (case opt_limit options of
            None \<Rightarrow> full
          | Some n \<Rightarrow> if n = 0 then full else take n full) \<and>
       lastSequence r =
         (if changedDocuments r = [] then sinceSequence options
          else if opt_direction options = After then sequence (last (changedDocuments r))
          else sequence (hd (changedDocuments r)))"
proof (cases "opt_direction options")
  case Before
  let ?full = "rev (whereSequenceBelow (sinceSequence options) (dexieChangesTable s))"
  let ?docs = "case opt_limit options of None \<Rightarrow> ?full
               | Some n \<Rightarrow> if n = 0 then ?full else take n ?full"
  let ?r = "\<lparr> changedDocuments = ?docs,
              lastSequence = (if ?docs = [] then sinceSequence options
                              else sequence (hd ?docs)) \<rparr>"
  have a: "getChangedDocuments s options = Inr ?r"
    using assms Before
    by (simp add: getChangedDocuments_def dbAccess_def Let_def split: option.splits)
  have b: "lokiGetChangedDocuments (dexieChangesTable s) options = ?r"
    using Before
    by (simp add: lokiGetChangedDocuments_def Let_def whereSequenceBelow_def changeMeta_rebuild
        split: option.splits)
  show ?thesis
    apply (rule exI [of _ ?r], rule exI [of _ ?full])
    using a b Before whereSequenceBelow_exact [of "sinceSequence options" "dexieChangesTable s"]
    by simp
next
  case After
  let ?full = "whereSequenceAbove (sinceSequence options) (dexieChangesTable s)"
  let ?docs = "case opt_limit options of None \<Rightarrow> ?full
               | Some n \<Rightarrow> if n = 0 then ?full else take n ?full"
  let ?r = "\<lparr> changedDocuments = ?docs,
              lastSequence = (if ?docs = [] then sinceSequence options
                              else sequence (last ?docs)) \<rparr>"
  have a: "getChangedDocuments s options = Inr ?r"
    using assms After
    by (simp add: getChangedDocuments_def dbAccess_def Let_def split: option.splits)
  have b: "lokiGetChangedDocuments (dexieChangesTable s) options = ?r"
    using After
    by (simp add: lokiGetChangedDocuments_def Let_def whereSequenceAbove_def changeMeta_rebuild
        split: option.splits)
  show ?thesis
    apply (rule exI [of _ ?r], rule exI [of _ ?full])
    using a b After whereSequenceAbove_exact [of "sinceSequence options" "dexieChangesTable s"]
    by simp
qed


text \<open>
  The theorem at scenario 6 of the specification (four changes, "after" 0 with limit 2),
  and at "before" 4 with limit 2.
\<close>

theorem getChangedDocuments_result_witness:
  "\<not> dexieDbClosed ((exampleInstance [] [])\<lparr>dexieChangesTable :=
       [\<lparr>sequence = 1, meta_id = ''a''\<rparr>, \<lparr>sequence = 2, meta_id = ''a''\<rparr>,
        \<lparr>sequence = 3, meta_id = ''a''\<rparr>, \<lparr>sequence = 4, meta_id = ''a''\<rparr>]\<rparr>) \<and>
   getChangedDocuments ((exampleInstance [] [])\<lparr>dexieChangesTable :=
       [\<lparr>sequence = 1, meta_id = ''a''\<rparr>, \<lparr>sequence = 2, meta_id = ''a''\<rparr>,
        \<lparr>sequence = 3, meta_id = ''a''\<rparr>, \<lparr>sequence = 4, meta_id = ''a''\<rparr>]\<rparr>)
     \<lparr> opt_direction = After, sinceSequence = 0, opt_limit = Some 2 \<rparr>
     = Inr \<lparr> changedDocuments = [\<lparr>sequence = 1, meta_id = ''a''\<rparr>,
                                  \<lparr>sequence = 2, meta_id = ''a''\<rparr>],
             lastSequence = 2 \<rparr> \<and>
   getChangedDocuments ((exampleInstance [] [])\<lparr>dexieChangesTable :=
       [\<lparr>sequence = 1, meta_id = ''a''\<rparr>, \<lparr>sequence = 2, meta_id = ''a''\<rparr>,
        \<lparr>sequence = 3, meta_id = ''a''\<rparr>, \<lparr>sequence = 4, meta_id = ''a''\<rparr>]\<rparr>)
     \<lparr> opt_direction = Before, sinceSequence = 4, opt_limit = Some 2 \<rparr>
     = Inr \<lparr> changedDocuments = [\<lparr>sequence = 3, meta_id = ''a''\<rparr>,
                                  \<lparr>sequence = 2, meta_id = ''a''\<rparr>],
             lastSequence = 3 \<rparr>"
proof -
  let ?s = "(exampleInstance [] [])\<lparr>dexieChangesTable :=
       [\<lparr>sequence = 1, meta_id = ''a''\<rparr>, \<lparr>sequence = 2, meta_id = ''a''\<rparr>,
        \<lparr>sequence = 3, meta_id = ''a''\<rparr>, \<lparr>sequence = 4, meta_id = ''a''\<rparr>]\<rparr>"
  let ?oa = "\<lparr> opt_direction = After, sinceSequence = 0, opt_limit = Some 2 \<rparr>"
  let ?ob = "\<lparr> opt_direction = Before, sinceSequence = 4, opt_limit = Some 2 \<rparr>"
  have h: "\<not> dexieDbClosed ?s"
    by (simp add: exampleInstance_def)
  from getChangedDocuments_result [OF h, of ?oa] obtain ra where
    ga: "getChangedDocuments ?s ?oa = Inr ra" and
    la: "lokiGetChangedDocuments (dexieChangesTable ?s) ?oa = ra"
    by blast
  have "lokiGetChangedDocuments (dexieChangesTable ?s) ?oa =
          \<lparr> changedDocuments = [\<lparr>sequence = 1, meta_id = ''a''\<rparr>,
                                \<lparr>sequence = 2, meta_id = ''a''\<rparr>], lastSequence = 2 \<rparr>"
    by code_simp
  with la ga have a: "getChangedDocuments ?s ?oa =
      Inr \<lparr> changedDocuments = [\<lparr>sequence = 1, meta_id = ''a''\<rparr>,
                                  \<lparr>sequence = 2, meta_id = ''a''\<rparr>], lastSequence = 2 \<rparr>"
    by simp
  from getChangedDocuments_result [OF h, of ?ob] obtain rb where
    gb: "getChangedDocuments ?s ?ob = Inr rb" and
    lb: "lokiGetChangedDocuments (dexieChangesTable ?s) ?ob = rb"
    by blast
  have "lokiGetChangedDocuments (dexieChangesTable ?s) ?ob =
          \<lparr> changedDocuments = [\<lparr>sequence = 3, meta_id = ''a''\<rparr>,
                                \<lparr>sequence = 2, meta_id = ''a''\<rparr>], lastSequence = 3 \<rparr>"
    by code_simp
  with lb gb have b: "getChangedDocuments ?s ?ob =
      Inr \<lparr> changedDocuments = [\<lparr>sequence = 3, meta_id = ''a''\<rparr>,
                                  \<lparr>sequence = 2, meta_id = ''a''\<rparr>], lastSequence = 3 \<rparr>"
    by simp
  show ?thesis
    by (intro conjI h a b)
qed

text \<open>
  Claim C8, as stated, fails for a limit of 0: \<open>if (options.limit)\<close> takes it for no
  limit, and the list is returned whole instead of cut to no row.
\<close>

theorem getChangedDocuments_limit_zero_counterexample:
  "getChangedDocuments ((exampleInstance [] [])\<lparr>dexieChangesTable :=
       [\<lparr>sequence = 1, meta_id = ''a''\<rparr>, \<lparr>sequence = 2, meta_id = ''a''\<rparr>]\<rparr>)
     \<lparr> opt_direction = After, sinceSequence = 0, opt_limit = Some 0 \<rparr>
     = Inr \<lparr> changedDocuments = [\<lparr>sequence = 1, meta_id = ''a''\<rparr>,
                                  \<lparr>sequence = 2, meta_id = ''a''\<rparr>],
             lastSequence = 2 \<rparr>"
  by code_simp

section \<open>After close\<close>

text \<open>
  Claim C9, on the substrate as the specification describes it. \<open>close\<close> sets the
  flag \<open>closed\<close>, completes the change stream and releases the handle of the database;
  each of \<open>bulkWrite\<close>, \<open>bulkAddRevisions\<close>, \<open>findDocumentsById\<close>, \<open>query\<close> and
  \<open>getChangedDocuments\<close> goes to the database before it does anything else, so after
  \<open>close\<close> each of them fails with the closed-instance error, returns nothing and
  publishes nothing.
\<close>

theorem operations_fail_after_close:
  "closed (close s) \<and> changesCompleted (close s) \<and>
   bulkWrite e (close s) documentWrites = Inl ClosedInstance \<and>
   bulkAddRevisions e (close s) documents = Inl ClosedInstance \<and>
   findDocumentsById (close s) ids deleted = Inl ClosedInstance \<and>
   query (close s) preparedQuery = Inl ClosedInstance \<and>
   getChangedDocuments (close s) options = Inl ClosedInstance"
  by (simp add: close_def closeDexieDb_def dbAccess_def bulkWrite_def bulkAddRevisions_def
      findDocumentsById_def query_def getChangedDocuments_def Let_def)

text \<open>
  The theorem at an instance that holds one document, closed, with one call of each
  operation.
\<close>

theorem operations_fail_after_close_witness:
  "bulkWrite exampleEnv
     (close (exampleInstance [(''a'', exampleDoc ''a'' ''v1'' ''1-v1'' False)] []))
     [\<lparr>document = exampleDoc ''b'' ''w'' [] False, previous = None\<rparr>] = Inl ClosedInstance \<and>
   bulkAddRevisions exampleEnv
     (close (exampleInstance [(''a'', exampleDoc ''a'' ''v1'' ''1-v1'' False)] []))
     [exampleDoc ''a'' ''v2'' ''2-v2'' False] = Inl ClosedInstance \<and>
   findDocumentsById
     (close (exampleInstance [(''a'', exampleDoc ''a'' ''v1'' ''1-v1'' False)] []))
     [''a''] False = Inl ClosedInstance \<and>
   query
     (close (exampleInstance [(''a'', exampleDoc ''a'' ''v1'' ''1-v1'' False)] []))
     \<lparr> queryMatcher = (\<lambda>d. True), sortComparator = (\<lambda>a b. 0), skip = None, limit = None \<rparr>
     = Inl ClosedInstance \<and>
   getChangedDocuments
     (close (exampleInstance [(''a'', exampleDoc ''a'' ''v1'' ''1-v1'' False)] []))
     \<lparr> opt_direction = After, sinceSequence = 0, opt_limit = None \<rparr> = Inl ClosedInstance"
proof -
  note t = operations_fail_after_close
    [where s = "exampleInstance [(''a'', exampleDoc ''a'' ''v1'' ''1-v1'' False)] []"
       and e = exampleEnv
       and documentWrites = "[\<lparr>document = exampleDoc ''b'' ''w'' [] False, previous = None\<rparr>]"
       and documents = "[exampleDoc ''a'' ''v2'' ''2-v2'' False]"
       and ids = "[''a'']" and deleted = False
       and preparedQuery = "\<lparr> queryMatcher = (\<lambda>d. True), sortComparator = (\<lambda>a b. 0),
                               skip = None, limit = None \<rparr>"
       and options = "\<lparr> opt_direction = After, sinceSequence = 0, opt_limit = None \<rparr>"]
  show ?thesis
    by (intro conjI t [THEN conjunct2, THEN conjunct2, THEN conjunct1]
        t [THEN conjunct2, THEN conjunct2, THEN conjunct2, THEN conjunct1]
        t [THEN conjunct2, THEN conjunct2, THEN conjunct2, THEN conjunct2, THEN conjunct1]
        t [THEN conjunct2, THEN conjunct2, THEN conjunct2, THEN conjunct2, THEN conjunct2,
           THEN conjunct1]
        t [THEN conjunct2, THEN conjunct2, THEN conjunct2, THEN conjunct2, THEN conjunct2,
           THEN conjunct2])
qed

section \<open>A tombstone over a tombstone in bulkAddRevisions\<close>

lemma strLess_irrefl: "\<not> strLess x x"
  by (induction x) simp_all

lemma mustUpdate_irrefl: "\<not> mustUpdate r r"
  by (simp add: mustUpdate_def Let_def numNeq_def numGt_def strGt_def strLess_irrefl
      split: option.splits number.splits)

text \<open>
  The comparison of \<open>bulkAddRevisions\<close> is the order of the specification on
  revisions of the form \<open>H-Hash\<close>: by height, and by hash when the heights are equal.
\<close>

lemma mustUpdate_order:
  assumes "parseRevision new = \<lparr> height = Fin hn, hash = Some xn \<rparr>"
    and "parseRevision old = \<lparr> height = Fin ho, hash = Some xo \<rparr>"
  shows "mustUpdate new old = (ho < hn \<or> (ho = hn \<and> strLess xo xn))"
  using assms
  by (auto simp: mustUpdate_def Let_def numNeq_def numGt_def strGt_def)

text \<open>A revision that does not win is dropped: the row queues nothing.\<close>

lemma bulkAddRevisionsRow_ignored:
  "\<not> mustUpdate (doc_rev docData) (doc_rev documentInDb) \<Longrightarrow>
   bulkAddRevisionsRow startT (docData, Some documentInDb) b = b"
  by (simp add: bulkAddRevisionsRow_def Let_def)

text \<open>
  Whatever the revisions, a deleted document that meets a stored tombstone queues
  nothing either: the fourth branch only sets \<open>change\<close> to null.
\<close>

lemma bulkAddRevisionsRow_tombstones:
  "doc_deleted docData \<Longrightarrow> doc_deleted documentInDb \<Longrightarrow>
   bulkAddRevisionsRow startT (docData, Some documentInDb) b = b"
  by (simp add: bulkAddRevisionsRow_def Let_def)

text \<open>
  Outside the case of two tombstones a winning revision is applied: the incoming
  document is queued for one of the tables and one event is added.
\<close>

lemma bulkAddRevisionsRow_applied:
  assumes "mustUpdate (doc_rev docData) (doc_rev documentInDb)"
    and "\<not> (doc_deleted docData \<and> doc_deleted documentInDb)"
  shows "\<exists>ev. events (bulkAddRevisionsRow startT (docData, Some documentInDb) b) = events b @ [ev] \<and>
              documentId ev = primary docData \<and>
              changesIds (bulkAddRevisionsRow startT (docData, Some documentInDb) b)
                = changesIds b @ [primary docData] \<and>
              (if doc_deleted docData
               then bulkPutDeletedDocs (bulkAddRevisionsRow startT (docData, Some documentInDb) b)
                      = bulkPutDeletedDocs b @ [docData]
               else bulkPutDocs (bulkAddRevisionsRow startT (docData, Some documentInDb) b)
                      = bulkPutDocs b @ [docData])"
  using assms
  by (auto simp: bulkAddRevisionsRow_def Let_def)

text \<open>
  The same document applied twice to an instance that does not hold its id: the first
  call publishes a bulk with one event, the second a bulk with none.
\<close>

lemma bulkAddRevisions_same_document_twice:
  assumes "\<not> dexieDbClosed s" and "docInDb s (primary docData) = None"
  shows "\<exists>s1 s2. bulkAddRevisions e s [docData] = Inr s1 \<and>
                 bulkAddRevisions e' s1 [docData] = Inr s2 \<and>
                 length (bulk_events (last (changes s1))) = 1 \<and>
                 bulk_events (last (changes s2)) = []"
proof -
  let ?x = "primary docData"
  let ?b = "bulkAddRevisionsRow (now e 0) (docData, None) emptyBatch"
  let ?s1 = "changesNext \<lparr> bulk_id = randomCouchString e,
                            bulk_events = stampEndTime (now e 1) (events ?b) \<rparr>
               (bulkAddRevisionsCommit ?b s)"
  have first: "bulkAddRevisions e s [docData] = Inr ?s1"
    using assms
    by (simp add: bulkAddRevisions_def dbAccess_def getDocsInDb_def Let_def)
  have ev1: "length (bulk_events (last (changes ?s1))) = 1"
    by (simp add: changesNext_def stampEndTime_def bulkAddRevisionsRow_def Let_def
        emptyBatch_def)
  have op1: "\<not> dexieDbClosed ?s1"
    using assms(1)
    by (simp add: changesNext_def bulkAddRevisionsCommit_def Let_def
        addChangeDocumentsMeta_frame)
  from assms(2) have absent: "map_of (dexieTable s) ?x = None"
    "map_of (dexieDeletedTable s) ?x = None"
    by (auto simp: docInDb_def split: option.splits)
  have stored: "\<exists>d. docInDb ?s1 ?x = Some d \<and> doc_rev d = doc_rev docData"
    using absent
    by (simp add: docInDb_def changesNext_def bulkAddRevisionsCommit_def Let_def
        addChangeDocumentsMeta_frame bulkAddRevisionsRow_def emptyBatch_def
        bulkPut_def bulkDelete_def map_of_tablePut)
  then obtain d where d: "docInDb ?s1 ?x = Some d" "doc_rev d = doc_rev docData"
    by blast
  let ?s2 = "changesNext \<lparr> bulk_id = randomCouchString e', bulk_events = [] \<rparr>
               (bulkAddRevisionsCommit emptyBatch ?s1)"
  have row2: "bulkAddRevisionsRow (now e' 0) (docData, Some d) emptyBatch = emptyBatch"
    by (rule bulkAddRevisionsRow_ignored) (simp add: d(2) mustUpdate_irrefl)
  have second: "bulkAddRevisions e' ?s1 [docData] = Inr ?s2"
    using op1 d(1) row2
    by (simp add: bulkAddRevisions_def dbAccess_def getDocsInDb_def Let_def stampEndTime_def
        emptyBatch_def)
  have ev2: "bulk_events (last (changes ?s2)) = []"
    by (simp add: changesNext_def)
  from first second ev1 ev2 show ?thesis by blast
qed

text \<open>
  Claim C1 at a stored tombstone \<open>1-v1\<close> and an incoming tombstone \<open>2-v2\<close> for the
  same id. The incoming revision wins, no event is in the bulk and no row is added to
  the changes table, as the claim says; but the deleted table still holds the tombstone
  \<open>1-v1\<close>: the payload is not updated.
\<close>

theorem bulkAddRevisions_tombstone_not_updated:
  "mustUpdate ''2-v2'' ''1-v1'' \<and>
   bulkAddRevisions exampleEnv
     (exampleInstance [] [(''a'', exampleDoc ''a'' ''v1'' ''1-v1'' True)])
     [exampleDoc ''a'' ''v2'' ''2-v2'' True]
   = Inr ((exampleInstance [] [(''a'', exampleDoc ''a'' ''v1'' ''1-v1'' True)])
            \<lparr>changes := [\<lparr> bulk_id = ''bulk'', bulk_events = [] \<rparr>]\<rparr>)"
  by code_simp

text \<open>
  Claim C6 at a stored tombstone \<open>1-v1\<close> and an incoming tombstone \<open>1-v2\<close>: the
  heights are equal and the incoming hash is the greater one, so the incoming revision
  is strictly greater; yet after the call the lookup of the id still gives the stored
  tombstone, and nothing but the empty bulk records the call.
\<close>

theorem bulkAddRevisions_greater_not_applied:
  "parseRevision ''1-v2'' = \<lparr> height = Fin 1, hash = Some ''v2'' \<rparr> \<and>
   parseRevision ''1-v1'' = \<lparr> height = Fin 1, hash = Some ''v1'' \<rparr> \<and>
   strLess ''v1'' ''v2'' \<and>
   mustUpdate ''1-v2'' ''1-v1'' \<and>
   map_sum id (\<lambda>s'. (docInDb s' ''a'', dexieChangesTable s', changes s'))
     (bulkAddRevisions exampleEnv
        (exampleInstance [] [(''a'', exampleDoc ''a'' ''v1'' ''1-v1'' True)])
        [exampleDoc ''a'' ''v2'' ''1-v2'' True])
   = Inr (Some (exampleDoc ''a'' ''v1'' ''1-v1'' True), [],
          [\<lparr> bulk_id = ''bulk'', bulk_events = [] \<rparr>])"
  by code_simp

end
